theory Spec2Isabelle
  imports Complex_Main
begin

section \<open>Numbers and dictionaries\<close>

text \<open>
  The simulator computes with Python floats. Prices, quantities and balances are modelled
  as real numbers: the arithmetic of the executor and of the ledger (sums, differences,
  products, and one division guarded by \<open>new_quantity > 0\<close>) is taken exact, without
  rounding or overflow. The operations of the ledger are given a second time with their
  arithmetic rounded to binary64, for the properties that rounding decides.
  Wall-clock time stamps (\<open>datetime.now()\<close>) are not part of the
  model, and a \<open>uuid4\<close> identifier is drawn from a counter kept in the state.

  A Python dictionary keeps its keys in insertion order; where the code iterates over
  one, it is an association list and \<open>dict_set\<close> is the assignment \<open>d[k] = v\<close>.
\<close>

fun dict_set :: "'k \<Rightarrow> 'v \<Rightarrow> ('k \<times> 'v) list \<Rightarrow> ('k \<times> 'v) list" where
  "dict_set k v [] = [(k, v)]"
| "dict_set k v ((k', v') # kvs) =
     (if k' = k then (k, v) # kvs else (k', v') # dict_set k v kvs)"

abbreviation dict_get :: "('k \<times> 'v) list \<Rightarrow> 'k \<Rightarrow> 'v option" where
  "dict_get d k \<equiv> map_of d k"

section \<open>config.py\<close>

definition INITIAL_BALANCE :: real where "INITIAL_BALANCE = 10000"
definition MAX_POSITION_SIZE :: real where "MAX_POSITION_SIZE = 0.5"
definition MIN_TRADE_AMOUNT :: real where "MIN_TRADE_AMOUNT = 10"
definition STOP_LOSS_PCT :: real where "STOP_LOSS_PCT = 2"
definition TAKE_PROFIT_PCT :: real where "TAKE_PROFIT_PCT = 5"
definition MAX_DAILY_TRADES :: nat where "MAX_DAILY_TRADES = 50"
definition MAX_DAILY_LOSS_PCT :: real where "MAX_DAILY_LOSS_PCT = 10"
definition BACKTEST_COMMISSION :: real where "BACKTEST_COMMISSION = 0.001"
definition BACKTEST_SLIPPAGE :: real where "BACKTEST_SLIPPAGE = 0.0005"

section \<open>trade\_executor.py\<close>

datatype OrderType = MARKET | LIMIT | STOP_LOSS | TAKE_PROFIT

datatype OrderStatus = PENDING | FILLED | CANCELLED | REJECTED | EXPIRED

datatype OrderSide = BUY | SELL

text \<open>
  The operations of this repository report a failure by logging an error and returning
  \<open>None\<close> or \<open>False\<close>. The model returns the logged reason in \<open>Inl\<close>; \<open>Inr\<close> is the
  success value.
\<close>

datatype reject =
    InvalidQuantity          \<comment> \<open>place\_order: the quantity must be greater than 0\<close>
  | UnknownSymbol            \<comment> \<open>place\_order: no price known for the symbol\<close>
  | MissingPrice             \<comment> \<open>place\_order: a non-market order needs a price\<close>
  | AmountTooSmall           \<comment> \<open>the order value is below MIN\_TRADE\_AMOUNT\<close>
  | InsufficientBalance      \<comment> \<open>the balance does not cover a buy\<close>
  | InsufficientPosition     \<comment> \<open>the position does not cover a sell\<close>
  | PositionLimitExceeded    \<comment> \<open>the order value exceeds the position limit\<close>
  | DailyTradeLimit          \<comment> \<open>can\_trade: daily trade count reached\<close>
  | DailyLossLimit           \<comment> \<open>can\_trade: daily loss reached\<close>

record Trade =
  t_id :: nat
  t_order_id :: nat
  t_symbol :: string
  t_side :: OrderSide
  t_quantity :: real
  t_price :: real
  t_total :: real
  t_commission :: real

definition new_Trade :: "nat \<Rightarrow> nat \<Rightarrow> string \<Rightarrow> OrderSide \<Rightarrow> real \<Rightarrow> real \<Rightarrow> real \<Rightarrow> Trade" where
  "new_Trade uuid order_id symbol side quantity price commission =
     \<lparr>t_id = uuid, t_order_id = order_id, t_symbol = symbol, t_side = side,
      t_quantity = quantity, t_price = price, t_total = quantity * price,
      t_commission = commission\<rparr>"

text \<open>
  An order is created by \<open>place_order\<close> only, which returns before creating one when
  the price is \<open>None\<close>; the price of a stored order is therefore a number. The stop price
  stays optional.
\<close>

record Order =
  o_id :: nat
  o_symbol :: string
  o_side :: OrderSide
  o_order_type :: OrderType
  o_quantity :: real
  o_price :: real
  o_stop_price :: "real option"
  o_filled_quantity :: real
  o_remaining_quantity :: real
  o_avg_fill_price :: real
  o_status :: OrderStatus
  o_fills :: "Trade list"
  o_commission :: real

definition new_Order ::
  "nat \<Rightarrow> string \<Rightarrow> OrderSide \<Rightarrow> OrderType \<Rightarrow> real \<Rightarrow> real \<Rightarrow> real option \<Rightarrow> Order" where
  "new_Order uuid symbol side order_type quantity price stop_price =
     \<lparr>o_id = uuid, o_symbol = symbol, o_side = side, o_order_type = order_type,
      o_quantity = quantity, o_price = price, o_stop_price = stop_price,
      o_filled_quantity = 0, o_remaining_quantity = quantity, o_avg_fill_price = 0,
      o_status = PENDING, o_fills = [], o_commission = 0\<rparr>"

record Position =
  p_symbol :: string
  p_quantity :: real
  p_avg_price :: real
  p_realized_pnl :: real
  p_unrealized_pnl :: real
  p_total_cost :: real
  p_total_commission :: real

definition new_Position :: "string \<Rightarrow> Position" where
  "new_Position symbol =
     \<lparr>p_symbol = symbol, p_quantity = 0, p_avg_price = 0, p_realized_pnl = 0,
      p_unrealized_pnl = 0, p_total_cost = 0, p_total_commission = 0\<rparr>"

definition Position_update_position :: "Position \<Rightarrow> Trade \<Rightarrow> Position" where
  "Position_update_position pos trade =
     (let pos1 =
        (if t_side trade = BUY then
           (let new_total_cost = p_total_cost pos + t_total trade;
                new_quantity = p_quantity pos + t_quantity trade;
                pos' = (if new_quantity > 0
                        then pos\<lparr>p_avg_price := new_total_cost / new_quantity\<rparr>
                        else pos)
            in pos'\<lparr>p_quantity := new_quantity, p_total_cost := new_total_cost\<rparr>)
         else if p_quantity pos > 0 then
           (let sell_cost = t_quantity trade * p_avg_price pos;
                realized_pnl = t_total trade - sell_cost;
                pos' = pos\<lparr>p_realized_pnl := p_realized_pnl pos + realized_pnl,
                           p_quantity := p_quantity pos - t_quantity trade\<rparr>
            in if p_quantity pos' \<le> 0
               then pos'\<lparr>p_quantity := 0, p_total_cost := 0, p_avg_price := 0\<rparr>
               else pos'\<lparr>p_total_cost := p_total_cost pos' - sell_cost\<rparr>)
         else pos)
      in pos1\<lparr>p_total_commission := p_total_commission pos1 + t_commission trade\<rparr>)"

definition calculate_unrealized_pnl :: "Position \<Rightarrow> real \<Rightarrow> Position" where
  "calculate_unrealized_pnl pos current_price =
     (if p_quantity pos > 0 \<and> current_price > 0
      then pos\<lparr>p_unrealized_pnl := p_quantity pos * current_price - p_total_cost pos\<rparr>
      else pos\<lparr>p_unrealized_pnl := 0\<rparr>)"

record TradeExecutor =
  initial_balance :: real
  available_balance :: real
  orders :: "Order list"
  trades :: "Trade list"
  positions :: "(string \<times> Position) list"
  current_prices :: "string \<rightharpoonup> real"
  max_position_size :: real
  commission_rate :: real
  slippage :: real
  total_trades :: nat
  winning_trades :: nat
  losing_trades :: nat
  total_commission :: real
  next_uuid :: nat

text \<open>
  The constructor, with the three parameters the class reads from the configuration
  made explicit; \<open>default_TradeExecutor\<close> is the module's global instance.
\<close>

definition new_TradeExecutor :: "real \<Rightarrow> real \<Rightarrow> real \<Rightarrow> real \<Rightarrow> TradeExecutor" where
  "new_TradeExecutor balance max_pos commission slip =
     \<lparr>initial_balance = balance, available_balance = balance, orders = [], trades = [],
      positions = [], current_prices = Map.empty, max_position_size = max_pos,
      commission_rate = commission, slippage = slip, total_trades = 0,
      winning_trades = 0, losing_trades = 0, total_commission = 0, next_uuid = 0\<rparr>"

definition default_TradeExecutor :: TradeExecutor where
  "default_TradeExecutor =
     new_TradeExecutor INITIAL_BALANCE MAX_POSITION_SIZE BACKTEST_COMMISSION BACKTEST_SLIPPAGE"

definition get_position_value :: "TradeExecutor \<Rightarrow> real" where
  "get_position_value ex =
     foldl (\<lambda>total_value (symbol, position).
              if p_quantity position > 0 then
                (case current_prices ex symbol of
                   Some current_price \<Rightarrow> total_value + p_quantity position * current_price
                 | None \<Rightarrow> total_value)
              else total_value)
           0 (positions ex)"

definition get_total_value :: "TradeExecutor \<Rightarrow> real" where
  "get_total_value ex = available_balance ex + get_position_value ex"

definition risk_check ::
  "TradeExecutor \<Rightarrow> string \<Rightarrow> OrderSide \<Rightarrow> real \<Rightarrow> real \<Rightarrow> reject + unit" where
  "risk_check ex symbol side quantity price =
     (let order_value = quantity * price in
      if order_value < MIN_TRADE_AMOUNT then Inl AmountTooSmall
      else if side = BUY \<and> available_balance ex < order_value * (1 + commission_rate ex)
        then Inl InsufficientBalance
      else if side \<noteq> BUY \<and>
              (case dict_get (positions ex) symbol of
                 None \<Rightarrow> True
               | Some position \<Rightarrow> p_quantity position < quantity)
        then Inl InsufficientPosition
      else if side = BUY \<and> order_value > get_total_value ex * max_position_size ex
        then Inl PositionLimitExceeded
      else Inr ())"

definition store_order :: "Order \<Rightarrow> Order list \<Rightarrow> Order list" where
  "store_order order os = map (\<lambda>o'. if o_id o' = o_id order then order else o') os"

definition update_balance_and_position :: "TradeExecutor \<Rightarrow> Trade \<Rightarrow> TradeExecutor" where
  "update_balance_and_position ex trade =
     (let symbol = t_symbol trade;
          old = (case dict_get (positions ex) symbol of
                   None \<Rightarrow> new_Position symbol
                 | Some p \<Rightarrow> p);
          position = Position_update_position old trade;
          ex1 = ex\<lparr>positions := dict_set symbol position (positions ex)\<rparr>
      in if t_side trade = BUY then
           ex1\<lparr>available_balance := available_balance ex1 - (t_total trade + t_commission trade)\<rparr>
         else
           (let ex2 = ex1\<lparr>available_balance :=
                              available_balance ex1 + (t_total trade - t_commission trade)\<rparr>
            in if p_realized_pnl position > 0
               then ex2\<lparr>winning_trades := winning_trades ex2 + 1\<rparr>
               else ex2\<lparr>losing_trades := losing_trades ex2 + 1\<rparr>))"

text \<open>
  \<open>_execute_order\<close> runs in a \<open>try\<close> whose handler sets the order to REJECTED. Nothing
  in its body raises on the modelled state (float arithmetic, a list append, a
  dictionary store), and the trade log written by \<open>_log_trade\<close> is an external sink
  taken not to fail; so the handler has no branch here. The order object that the code
  mutates is the one stored under its id.
\<close>

definition execute_order :: "TradeExecutor \<Rightarrow> Order \<Rightarrow> real \<Rightarrow> TradeExecutor" where
  "execute_order ex order execution_price0 =
     (let execution_price =
            (if o_side order = BUY then execution_price0 * (1 + slippage ex)
             else execution_price0 * (1 - slippage ex));
          trade_value = o_quantity order * execution_price;
          commission = trade_value * commission_rate ex;
          trade = new_Trade (next_uuid ex) (o_id order) (o_symbol order) (o_side order)
                    (o_quantity order) execution_price commission;
          order' = order\<lparr>o_status := FILLED, o_filled_quantity := o_quantity order,
                          o_remaining_quantity := 0, o_avg_fill_price := execution_price,
                          o_commission := commission, o_fills := o_fills order @ [trade]\<rparr>;
          ex1 = ex\<lparr>orders := store_order order' (orders ex), next_uuid := next_uuid ex + 1\<rparr>;
          ex2 = update_balance_and_position ex1 trade
      in ex2\<lparr>trades := trades ex2 @ [trade], total_trades := total_trades ex2 + 1,
              total_commission := total_commission ex2 + commission\<rparr>)"

text \<open>
  The decision of \<open>_check_pending_orders\<close> for one order: \<open>None\<close> when
  \<open>should_execute\<close> stays false, otherwise the execution price. \<open>if order.stop_price\<close>
  and \<open>if order.price\<close> are Python truth tests: false for \<open>None\<close> and for 0.
\<close>

definition should_execute :: "Order \<Rightarrow> real \<Rightarrow> real option" where
  "should_execute order current_price =
     (case o_order_type order of
        LIMIT \<Rightarrow>
          (if o_side order = BUY \<and> current_price \<le> o_price order then Some (o_price order)
           else if o_side order = SELL \<and> current_price \<ge> o_price order then Some (o_price order)
           else None)
      | STOP_LOSS \<Rightarrow>
          (case o_stop_price order of
             None \<Rightarrow> None
           | Some stop \<Rightarrow>
               if stop = 0 then None
               else if o_side order = BUY \<and> current_price \<ge> stop then Some current_price
               else if o_side order = SELL \<and> current_price \<le> stop then Some current_price
               else None)
      | TAKE_PROFIT \<Rightarrow>
          (if o_price order = 0 then None
           else if o_side order = BUY \<and> current_price \<le> o_price order then Some (o_price order)
           else if o_side order = SELL \<and> current_price \<ge> o_price order then Some (o_price order)
           else None)
      | MARKET \<Rightarrow> None)"

definition check_pending_orders :: "TradeExecutor \<Rightarrow> string \<Rightarrow> real \<Rightarrow> TradeExecutor" where
  "check_pending_orders ex symbol current_price =
     (let pending_orders =
            filter (\<lambda>order. o_status order = PENDING \<and> o_symbol order = symbol) (orders ex)
      in foldl (\<lambda>ex' order.
                  case should_execute order current_price of
                    None \<Rightarrow> ex'
                  | Some execution_price \<Rightarrow> execute_order ex' order execution_price)
               ex pending_orders)"

definition update_price :: "TradeExecutor \<Rightarrow> string \<Rightarrow> real \<Rightarrow> TradeExecutor" where
  "update_price ex symbol price =
     (let ex1 = ex\<lparr>current_prices := (current_prices ex)(symbol \<mapsto> price)\<rparr>;
          ex2 = (case dict_get (positions ex1) symbol of
                   None \<Rightarrow> ex1
                 | Some position \<Rightarrow>
                     ex1\<lparr>positions :=
                           dict_set symbol (calculate_unrealized_pnl position price)
                             (positions ex1)\<rparr>)
      in check_pending_orders ex2 symbol price)"

definition place_order ::
  "TradeExecutor \<Rightarrow> string \<Rightarrow> OrderSide \<Rightarrow> OrderType \<Rightarrow> real \<Rightarrow> real option \<Rightarrow> real option
     \<Rightarrow> (reject + nat) \<times> TradeExecutor" where
  "place_order ex symbol side order_type quantity price_arg stop_price =
     (if quantity \<le> 0 then (Inl InvalidQuantity, ex)
      else case current_prices ex symbol of
        None \<Rightarrow> (Inl UnknownSymbol, ex)
      | Some current_price \<Rightarrow>
          (case (if order_type = MARKET then Some current_price else price_arg) of
             None \<Rightarrow> (Inl MissingPrice, ex)
           | Some price \<Rightarrow>
               (case risk_check ex symbol side quantity price of
                  Inl r \<Rightarrow> (Inl r, ex)
                | Inr _ \<Rightarrow>
                    (let order = new_Order (next_uuid ex) symbol side order_type quantity
                                   price stop_price;
                         ex1 = ex\<lparr>orders := orders ex @ [order],
                                   next_uuid := next_uuid ex + 1\<rparr>;
                         ex2 = (if order_type = MARKET
                                then execute_order ex1 order current_price else ex1)
                     in (Inr (o_id order), ex2)))))"

definition cancel_order :: "TradeExecutor \<Rightarrow> nat \<Rightarrow> bool \<times> TradeExecutor" where
  "cancel_order ex order_id =
     (case find (\<lambda>order. o_id order = order_id) (orders ex) of
        None \<Rightarrow> (False, ex)
      | Some order \<Rightarrow>
          if o_status order = PENDING
          then (True, ex\<lparr>orders := store_order (order\<lparr>o_status := CANCELLED\<rparr>) (orders ex)\<rparr>)
          else (False, ex))"

definition find_order :: "TradeExecutor \<Rightarrow> nat \<Rightarrow> Order option" where
  "find_order ex order_id = find (\<lambda>order. o_id order = order_id) (orders ex)"

text \<open>
  Notions derived from the definitions above, used to state the properties: the price
  and the trade of a fill, the position a trade is applied to, and the quantity held
  (\<open>position.quantity if position else 0\<close>).
\<close>

definition fill_price :: "TradeExecutor \<Rightarrow> Order \<Rightarrow> real \<Rightarrow> real" where
  "fill_price ex order p0 =
     (if o_side order = BUY then p0 * (1 + slippage ex) else p0 * (1 - slippage ex))"

definition fill_trade :: "TradeExecutor \<Rightarrow> Order \<Rightarrow> real \<Rightarrow> Trade" where
  "fill_trade ex order p0 =
     new_Trade (next_uuid ex) (o_id order) (o_symbol order) (o_side order) (o_quantity order)
       (fill_price ex order p0) (o_quantity order * fill_price ex order p0 * commission_rate ex)"

definition position_of :: "TradeExecutor \<Rightarrow> string \<Rightarrow> Position" where
  "position_of ex symbol =
     (case dict_get (positions ex) symbol of None \<Rightarrow> new_Position symbol | Some p \<Rightarrow> p)"

definition held_quantity :: "TradeExecutor \<Rightarrow> string \<Rightarrow> real" where
  "held_quantity ex symbol =
     (case dict_get (positions ex) symbol of None \<Rightarrow> 0 | Some p \<Rightarrow> p_quantity p)"

definition filled :: "TradeExecutor \<Rightarrow> Order \<Rightarrow> real \<Rightarrow> Order" where
  "filled ex order p0 =
     order\<lparr>o_status := FILLED, o_filled_quantity := o_quantity order,
           o_remaining_quantity := 0, o_avg_fill_price := fill_price ex order p0,
           o_commission := o_quantity order * fill_price ex order p0 * commission_rate ex,
           o_fills := o_fills order @ [fill_trade ex order p0]\<rparr>"

text \<open>The orders that \<open>_check_pending_orders\<close> scans on a tick of the symbol.\<close>

definition pending_for :: "TradeExecutor \<Rightarrow> string \<Rightarrow> Order list" where
  "pending_for ex symbol =
     filter (\<lambda>order. o_status order = PENDING \<and> o_symbol order = symbol) (orders ex)"

text \<open>One turn of the loop of \<open>_check_pending_orders\<close>.\<close>

definition tick_step :: "real \<Rightarrow> TradeExecutor \<Rightarrow> Order \<Rightarrow> TradeExecutor" where
  "tick_step current_price ex order =
     (case should_execute order current_price of
        None \<Rightarrow> ex
      | Some execution_price \<Rightarrow> execute_order ex order execution_price)"

section \<open>Binary64 arithmetic of the ledger\<close>

text \<open>
  Python's \<open>float\<close> is IEEE 754 binary64: the result of an arithmetic operation is the
  exact result rounded to the nearest number with a significand of 53 bits, a tie going
  to the even significand. \<open>rne\<close> rounds a real number to the nearest integer in that
  way. \<open>double_round\<close> rounds a real number to binary64: a number of magnitude in
  \<open>[2^e, 2^(e+1))\<close> is rounded to a multiple of \<open>2^(e-52)\<close>, the unit in the last
  place \<open>ulp_of e\<close>. The exponent is not bounded: overflow to infinity and the
  subnormal numbers below \<open>2^(-1022)\<close> are not modelled. A decimal literal of a
  program denotes its rounding, \<open>double_round 0.0235\<close> for \<open>0.0235\<close>.
\<close>

definition rne :: "real \<Rightarrow> int" where
  "rne z =
     (let f = \<lfloor>z\<rfloor>; d = z - of_int f
      in if d < 1 / 2 then f else if 1 / 2 < d then f + 1 else if even f then f else f + 1)"

definition double_round :: "real \<Rightarrow> real" where
  "double_round y =
     (if y = 0 then 0
      else (let e = \<lfloor>log 2 \<bar>y\<bar>\<rfloor>; u = 2 powr (of_int e - 52)
            in sgn y * (u * of_int (rne (\<bar>y\<bar> / u)))))"

definition ulp_of :: "int \<Rightarrow> real" where
  "ulp_of k = 2 powr (of_int k - 52)"

text \<open>
  The operations of the executor that compute with floats, with the rounding function
  \<open>rnd\<close> of the arithmetic as a parameter: \<open>rnd\<close> is applied to the result of every
  \<open>+\<close>, \<open>-\<close>, \<open>*\<close> and \<open>/\<close> of the source, and everything else is as in the
  definitions above. With the identity for \<open>rnd\<close> these are the exact operations; with
  \<open>double_round\<close> they compute as the program does.
\<close>

definition new_Trade_fl ::
  "(real \<Rightarrow> real) \<Rightarrow> nat \<Rightarrow> nat \<Rightarrow> string \<Rightarrow> OrderSide \<Rightarrow> real \<Rightarrow> real \<Rightarrow> real \<Rightarrow> Trade" where
  "new_Trade_fl rnd uuid order_id symbol side quantity price commission =
     \<lparr>t_id = uuid, t_order_id = order_id, t_symbol = symbol, t_side = side,
      t_quantity = quantity, t_price = price, t_total = rnd (quantity * price),
      t_commission = commission\<rparr>"

definition Position_update_position_fl :: "(real \<Rightarrow> real) \<Rightarrow> Position \<Rightarrow> Trade \<Rightarrow> Position" where
  "Position_update_position_fl rnd pos trade =
     (let pos1 =
        (if t_side trade = BUY then
           (let new_total_cost = rnd (p_total_cost pos + t_total trade);
                new_quantity = rnd (p_quantity pos + t_quantity trade);
                pos' = (if new_quantity > 0
                        then pos\<lparr>p_avg_price := rnd (new_total_cost / new_quantity)\<rparr>
                        else pos)
            in pos'\<lparr>p_quantity := new_quantity, p_total_cost := new_total_cost\<rparr>)
         else if p_quantity pos > 0 then
           (let sell_cost = rnd (t_quantity trade * p_avg_price pos);
                realized_pnl = rnd (t_total trade - sell_cost);
                pos' = pos\<lparr>p_realized_pnl := rnd (p_realized_pnl pos + realized_pnl),
                           p_quantity := rnd (p_quantity pos - t_quantity trade)\<rparr>
            in if p_quantity pos' \<le> 0
               then pos'\<lparr>p_quantity := 0, p_total_cost := 0, p_avg_price := 0\<rparr>
               else pos'\<lparr>p_total_cost := rnd (p_total_cost pos' - sell_cost)\<rparr>)
         else pos)
      in pos1\<lparr>p_total_commission := rnd (p_total_commission pos1 + t_commission trade)\<rparr>)"

definition update_balance_and_position_fl ::
  "(real \<Rightarrow> real) \<Rightarrow> TradeExecutor \<Rightarrow> Trade \<Rightarrow> TradeExecutor" where
  "update_balance_and_position_fl rnd ex trade =
     (let symbol = t_symbol trade;
          old = (case dict_get (positions ex) symbol of
                   None \<Rightarrow> new_Position symbol
                 | Some p \<Rightarrow> p);
          position = Position_update_position_fl rnd old trade;
          ex1 = ex\<lparr>positions := dict_set symbol position (positions ex)\<rparr>
      in if t_side trade = BUY then
           ex1\<lparr>available_balance :=
                 rnd (available_balance ex1 - rnd (t_total trade + t_commission trade))\<rparr>
         else
           (let ex2 = ex1\<lparr>available_balance :=
                              rnd (available_balance ex1 + rnd (t_total trade - t_commission trade))\<rparr>
            in if p_realized_pnl position > 0
               then ex2\<lparr>winning_trades := winning_trades ex2 + 1\<rparr>
               else ex2\<lparr>losing_trades := losing_trades ex2 + 1\<rparr>))"

definition execute_order_fl ::
  "(real \<Rightarrow> real) \<Rightarrow> TradeExecutor \<Rightarrow> Order \<Rightarrow> real \<Rightarrow> TradeExecutor" where
  "execute_order_fl rnd ex order execution_price0 =
     (let execution_price =
            (if o_side order = BUY then rnd (execution_price0 * rnd (1 + slippage ex))
             else rnd (execution_price0 * rnd (1 - slippage ex)));
          trade_value = rnd (o_quantity order * execution_price);
          commission = rnd (trade_value * commission_rate ex);
          trade = new_Trade_fl rnd (next_uuid ex) (o_id order) (o_symbol order) (o_side order)
                    (o_quantity order) execution_price commission;
          order' = order\<lparr>o_status := FILLED, o_filled_quantity := o_quantity order,
                          o_remaining_quantity := 0, o_avg_fill_price := execution_price,
                          o_commission := commission, o_fills := o_fills order @ [trade]\<rparr>;
          ex1 = ex\<lparr>orders := store_order order' (orders ex), next_uuid := next_uuid ex + 1\<rparr>;
          ex2 = update_balance_and_position_fl rnd ex1 trade
      in ex2\<lparr>trades := trades ex2 @ [trade], total_trades := total_trades ex2 + 1,
              total_commission := rnd (total_commission ex2 + commission)\<rparr>)"

definition calculate_unrealized_pnl_fl :: "(real \<Rightarrow> real) \<Rightarrow> Position \<Rightarrow> real \<Rightarrow> Position" where
  "calculate_unrealized_pnl_fl rnd pos current_price =
     (if p_quantity pos > 0 \<and> current_price > 0
      then pos\<lparr>p_unrealized_pnl :=
                 rnd (rnd (p_quantity pos * current_price) - p_total_cost pos)\<rparr>
      else pos\<lparr>p_unrealized_pnl := 0\<rparr>)"

definition check_pending_orders_fl ::
  "(real \<Rightarrow> real) \<Rightarrow> TradeExecutor \<Rightarrow> string \<Rightarrow> real \<Rightarrow> TradeExecutor" where
  "check_pending_orders_fl rnd ex symbol current_price =
     (let pending_orders =
            filter (\<lambda>order. o_status order = PENDING \<and> o_symbol order = symbol) (orders ex)
      in foldl (\<lambda>ex' order.
                  case should_execute order current_price of
                    None \<Rightarrow> ex'
                  | Some execution_price \<Rightarrow> execute_order_fl rnd ex' order execution_price)
               ex pending_orders)"

definition update_price_fl :: "(real \<Rightarrow> real) \<Rightarrow> TradeExecutor \<Rightarrow> string \<Rightarrow> real \<Rightarrow> TradeExecutor" where
  "update_price_fl rnd ex symbol price =
     (let ex1 = ex\<lparr>current_prices := (current_prices ex)(symbol \<mapsto> price)\<rparr>;
          ex2 = (case dict_get (positions ex1) symbol of
                   None \<Rightarrow> ex1
                 | Some position \<Rightarrow>
                     ex1\<lparr>positions :=
                           dict_set symbol (calculate_unrealized_pnl_fl rnd position price)
                             (positions ex1)\<rparr>)
      in check_pending_orders_fl rnd ex2 symbol price)"

definition get_position_value_fl :: "(real \<Rightarrow> real) \<Rightarrow> TradeExecutor \<Rightarrow> real" where
  "get_position_value_fl rnd ex =
     foldl (\<lambda>total_value (symbol, position).
              if p_quantity position > 0 then
                (case current_prices ex symbol of
                   Some current_price \<Rightarrow>
                     rnd (total_value + rnd (p_quantity position * current_price))
                 | None \<Rightarrow> total_value)
              else total_value)
           0 (positions ex)"

definition get_total_value_fl :: "(real \<Rightarrow> real) \<Rightarrow> TradeExecutor \<Rightarrow> real" where
  "get_total_value_fl rnd ex = rnd (available_balance ex + get_position_value_fl rnd ex)"

definition risk_check_fl ::
  "(real \<Rightarrow> real) \<Rightarrow> TradeExecutor \<Rightarrow> string \<Rightarrow> OrderSide \<Rightarrow> real \<Rightarrow> real \<Rightarrow> reject + unit" where
  "risk_check_fl rnd ex symbol side quantity price =
     (let order_value = rnd (quantity * price) in
      if order_value < MIN_TRADE_AMOUNT then Inl AmountTooSmall
      else if side = BUY \<and>
              available_balance ex < rnd (order_value * rnd (1 + commission_rate ex))
        then Inl InsufficientBalance
      else if side \<noteq> BUY \<and>
              (case dict_get (positions ex) symbol of
                 None \<Rightarrow> True
               | Some position \<Rightarrow> p_quantity position < quantity)
        then Inl InsufficientPosition
      else if side = BUY \<and>
              order_value > rnd (get_total_value_fl rnd ex * max_position_size ex)
        then Inl PositionLimitExceeded
      else Inr ())"

definition place_order_fl ::
  "(real \<Rightarrow> real) \<Rightarrow> TradeExecutor \<Rightarrow> string \<Rightarrow> OrderSide \<Rightarrow> OrderType \<Rightarrow> real \<Rightarrow> real option
     \<Rightarrow> real option \<Rightarrow> (reject + nat) \<times> TradeExecutor" where
  "place_order_fl rnd ex symbol side order_type quantity price_arg stop_price =
     (if quantity \<le> 0 then (Inl InvalidQuantity, ex)
      else case current_prices ex symbol of
        None \<Rightarrow> (Inl UnknownSymbol, ex)
      | Some current_price \<Rightarrow>
          (case (if order_type = MARKET then Some current_price else price_arg) of
             None \<Rightarrow> (Inl MissingPrice, ex)
           | Some price \<Rightarrow>
               (case risk_check_fl rnd ex symbol side quantity price of
                  Inl r \<Rightarrow> (Inl r, ex)
                | Inr _ \<Rightarrow>
                    (let order = new_Order (next_uuid ex) symbol side order_type quantity
                                   price stop_price;
                         ex1 = ex\<lparr>orders := orders ex @ [order],
                                   next_uuid := next_uuid ex + 1\<rparr>;
                         ex2 = (if order_type = MARKET
                                then execute_order_fl rnd ex1 order current_price else ex1)
                     in (Inr (o_id order), ex2)))))"

text \<open>
  The module's executor, its four parameters being the float literals of the
  configuration.
\<close>

definition default_TradeExecutor_fl :: "(real \<Rightarrow> real) \<Rightarrow> TradeExecutor" where
  "default_TradeExecutor_fl rnd =
     new_TradeExecutor (rnd INITIAL_BALANCE) (rnd MAX_POSITION_SIZE) (rnd BACKTEST_COMMISSION)
       (rnd BACKTEST_SLIPPAGE)"

text \<open>The price, the trade and the stored order of a fill, with rounding.\<close>

definition fill_price_fl :: "(real \<Rightarrow> real) \<Rightarrow> TradeExecutor \<Rightarrow> Order \<Rightarrow> real \<Rightarrow> real" where
  "fill_price_fl rnd ex order p0 =
     (if o_side order = BUY then rnd (p0 * rnd (1 + slippage ex))
      else rnd (p0 * rnd (1 - slippage ex)))"

definition fill_trade_fl :: "(real \<Rightarrow> real) \<Rightarrow> TradeExecutor \<Rightarrow> Order \<Rightarrow> real \<Rightarrow> Trade" where
  "fill_trade_fl rnd ex order p0 =
     new_Trade_fl rnd (next_uuid ex) (o_id order) (o_symbol order) (o_side order)
       (o_quantity order) (fill_price_fl rnd ex order p0)
       (rnd (rnd (o_quantity order * fill_price_fl rnd ex order p0) * commission_rate ex))"

definition filled_fl :: "(real \<Rightarrow> real) \<Rightarrow> TradeExecutor \<Rightarrow> Order \<Rightarrow> real \<Rightarrow> Order" where
  "filled_fl rnd ex order p0 =
     order\<lparr>o_status := FILLED, o_filled_quantity := o_quantity order,
           o_remaining_quantity := 0, o_avg_fill_price := fill_price_fl rnd ex order p0,
           o_commission := t_commission (fill_trade_fl rnd ex order p0),
           o_fills := o_fills order @ [fill_trade_fl rnd ex order p0]\<rparr>"

section \<open>portfolio\_manager.py\<close>

record pm_position =
  pm_quantity :: real
  pm_avg_price :: real

record trade_record =
  tr_symbol :: string
  tr_side :: string
  tr_quantity :: real
  tr_price :: real
  tr_total :: real

record balance_record =
  br_total_value :: real
  br_available_balance :: real
  br_position_value :: real

record PortfolioManager =
  pm_initial_balance :: real
  pm_available_balance :: real
  pm_positions :: "(string \<times> pm_position) list"
  trade_history :: "trade_record list"
  balance_history :: "balance_record list"

definition new_PortfolioManager :: "real \<Rightarrow> PortfolioManager" where
  "new_PortfolioManager balance =
     \<lparr>pm_initial_balance = balance, pm_available_balance = balance, pm_positions = [],
      trade_history = [],
      balance_history = [\<lparr>br_total_value = balance, br_available_balance = balance,
                           br_position_value = 0\<rparr>]\<rparr>"

definition get_position :: "PortfolioManager \<Rightarrow> string \<Rightarrow> pm_position" where
  "get_position pm symbol =
     (case dict_get (pm_positions pm) symbol of
        None \<Rightarrow> \<lparr>pm_quantity = 0, pm_avg_price = 0\<rparr>
      | Some position \<Rightarrow> position)"

text \<open>
  \<open>PortfolioManager.update_position\<close>. The side is a string, as in the code. The first
  statement stores a zero position for a symbol not seen before, on every path.
\<close>

definition update_position ::
  "PortfolioManager \<Rightarrow> string \<Rightarrow> string \<Rightarrow> real \<Rightarrow> real \<Rightarrow> (reject + unit) \<times> PortfolioManager" where
  "update_position pm symbol side quantity price =
     (let pm1 = (case dict_get (pm_positions pm) symbol of
                   None \<Rightarrow> pm\<lparr>pm_positions :=
                                 dict_set symbol \<lparr>pm_quantity = 0, pm_avg_price = 0\<rparr>
                                   (pm_positions pm)\<rparr>
                 | Some _ \<Rightarrow> pm);
          position = get_position pm1 symbol;
          trade = \<lparr>tr_symbol = symbol, tr_side = side, tr_quantity = quantity,
                   tr_price = price, tr_total = quantity * price\<rparr>
      in if side = ''BUY'' then
           (let total_cost = pm_quantity position * pm_avg_price position + quantity * price;
                total_quantity = pm_quantity position + quantity;
                position1 = (if total_quantity > 0
                             then position\<lparr>pm_avg_price := total_cost / total_quantity\<rparr>
                             else position);
                position2 = position1\<lparr>pm_quantity := total_quantity\<rparr>
            in (Inr (),
                pm1\<lparr>pm_positions := dict_set symbol position2 (pm_positions pm1),
                     pm_available_balance := pm_available_balance pm1 - quantity * price,
                     trade_history := trade_history pm1 @ [trade]\<rparr>))
         else if side = ''SELL'' then
           (if pm_quantity position \<ge> quantity then
              (let position1 = position\<lparr>pm_quantity := pm_quantity position - quantity\<rparr>;
                   position2 = (if pm_quantity position1 = 0
                                then position1\<lparr>pm_avg_price := 0\<rparr> else position1)
               in (Inr (),
                   pm1\<lparr>pm_positions := dict_set symbol position2 (pm_positions pm1),
                        pm_available_balance := pm_available_balance pm1 + quantity * price,
                        trade_history := trade_history pm1 @ [trade]\<rparr>))
            else (Inl InsufficientPosition, pm1))
         else (Inr (), pm1\<lparr>trade_history := trade_history pm1 @ [trade]\<rparr>))"

section \<open>risk\_manager.py\<close>

text \<open>
  A calendar date is a day number, and \<open>datetime.now().date()\<close> is the parameter
  \<open>today\<close>. The warnings that \<open>check_position_risk\<close> and the two triggers write are the
  only thing they emit; they are returned as a list of log records.
\<close>

type_synonym date = int

datatype risk_log =
    StopLossHit string real real       \<comment> \<open>symbol, current price, stop price\<close>
  | StopLossExecute string real        \<comment> \<open>symbol, current price\<close>
  | TakeProfitHit string real real     \<comment> \<open>symbol, current price, target price\<close>
  | TakeProfitExecute string real      \<comment> \<open>symbol, current price\<close>

record RiskManager =
  daily_trades :: "date \<rightharpoonup> nat"
  daily_loss :: "date \<rightharpoonup> real"
  position_limits :: "string \<rightharpoonup> real"
  stop_loss_orders :: "string \<rightharpoonup> real"
  take_profit_orders :: "string \<rightharpoonup> real"
  rm_max_position_size :: real
  stop_loss_pct :: real
  take_profit_pct :: real
  max_daily_trades :: nat
  max_daily_loss_pct :: real

definition new_RiskManager :: RiskManager where
  "new_RiskManager =
     \<lparr>daily_trades = Map.empty, daily_loss = Map.empty, position_limits = Map.empty,
      stop_loss_orders = Map.empty, take_profit_orders = Map.empty,
      rm_max_position_size = MAX_POSITION_SIZE, stop_loss_pct = STOP_LOSS_PCT / 100,
      take_profit_pct = TAKE_PROFIT_PCT / 100, max_daily_trades = MAX_DAILY_TRADES,
      max_daily_loss_pct = MAX_DAILY_LOSS_PCT / 100\<rparr>"

definition check_position_limit :: "RiskManager \<Rightarrow> string \<Rightarrow> real \<Rightarrow> bool" where
  "check_position_limit rm symbol position_value =
     (let max_position_value = INITIAL_BALANCE * rm_max_position_size rm
      in if position_value > max_position_value then False else True)"

text \<open>\<open>quantity and current_price\<close> is a truth test: \<open>None\<close> and 0 are false.\<close>

definition truthy :: "real option \<Rightarrow> bool" where
  "truthy x = (case x of None \<Rightarrow> False | Some v \<Rightarrow> v \<noteq> 0)"

definition can_trade ::
  "RiskManager \<Rightarrow> date \<Rightarrow> string \<Rightarrow> string \<Rightarrow> real option \<Rightarrow> real option \<Rightarrow> reject + unit" where
  "can_trade rm today symbol side quantity current_price =
     (let daily_count = (case daily_trades rm today of None \<Rightarrow> 0 | Some n \<Rightarrow> n);
          daily_loss_today = (case daily_loss rm today of None \<Rightarrow> 0 | Some l \<Rightarrow> l)
      in if daily_count \<ge> max_daily_trades rm then Inl DailyTradeLimit
         else if daily_loss_today \<ge> max_daily_loss_pct rm then Inl DailyLossLimit
         else if side = ''BUY'' \<and> truthy quantity \<and> truthy current_price then
           (case (quantity, current_price) of
              (Some q, Some p) \<Rightarrow>
                (let position_value = q * p
                 in if \<not> check_position_limit rm symbol position_value
                    then Inl PositionLimitExceeded else Inr ())
            | _ \<Rightarrow> Inr ())
         else Inr ())"

definition record_trade :: "RiskManager \<Rightarrow> date \<Rightarrow> string \<Rightarrow> string \<Rightarrow> real \<Rightarrow> real \<Rightarrow> RiskManager" where
  "record_trade rm today symbol side quantity price =
     rm\<lparr>daily_trades :=
          (daily_trades rm)(today \<mapsto> (case daily_trades rm today of None \<Rightarrow> 0 | Some n \<Rightarrow> n) + 1)\<rparr>"

definition trigger_stop_loss :: "RiskManager \<Rightarrow> string \<Rightarrow> real \<Rightarrow> RiskManager \<times> risk_log list" where
  "trigger_stop_loss rm symbol current_price =
     (rm\<lparr>stop_loss_orders := (stop_loss_orders rm)(symbol := None)\<rparr>,
      [StopLossExecute symbol current_price])"

definition trigger_take_profit :: "RiskManager \<Rightarrow> string \<Rightarrow> real \<Rightarrow> RiskManager \<times> risk_log list" where
  "trigger_take_profit rm symbol current_price =
     (rm\<lparr>take_profit_orders := (take_profit_orders rm)(symbol := None)\<rparr>,
      [TakeProfitExecute symbol current_price])"

definition check_position_risk :: "RiskManager \<Rightarrow> string \<Rightarrow> real \<Rightarrow> RiskManager \<times> risk_log list" where
  "check_position_risk rm symbol current_price =
     (let (rm1, log1) =
            (case stop_loss_orders rm symbol of
               None \<Rightarrow> (rm, [])
             | Some stop_price \<Rightarrow>
                 if current_price \<le> stop_price then
                   (let (rm', l) = trigger_stop_loss rm symbol current_price
                    in (rm', StopLossHit symbol current_price stop_price # l))
                 else (rm, []));
          (rm2, log2) =
            (case take_profit_orders rm1 symbol of
               None \<Rightarrow> (rm1, [])
             | Some target_price \<Rightarrow>
                 if current_price \<ge> target_price then
                   (let (rm', l) = trigger_take_profit rm1 symbol current_price
                    in (rm', TakeProfitHit symbol current_price target_price # l))
                 else (rm1, []))
      in (rm2, log1 @ log2))"

definition set_stop_loss :: "RiskManager \<Rightarrow> string \<Rightarrow> real \<Rightarrow> string \<Rightarrow> RiskManager" where
  "set_stop_loss rm symbol entry_price side =
     (let stop_price = (if side = ''LONG'' then entry_price * (1 - stop_loss_pct rm)
                        else entry_price * (1 + stop_loss_pct rm))
      in rm\<lparr>stop_loss_orders := (stop_loss_orders rm)(symbol \<mapsto> stop_price)\<rparr>)"

definition set_take_profit :: "RiskManager \<Rightarrow> string \<Rightarrow> real \<Rightarrow> string \<Rightarrow> RiskManager" where
  "set_take_profit rm symbol entry_price side =
     (let target_price = (if side = ''LONG'' then entry_price * (1 + take_profit_pct rm)
                          else entry_price * (1 - take_profit_pct rm))
      in rm\<lparr>take_profit_orders := (take_profit_orders rm)(symbol \<mapsto> target_price)\<rparr>)"

text \<open>
  The price ticks of one run, each handed to \<open>check_position_risk\<close> in order, as
  \<open>_on_price_update\<close> of the main module does; the log is the concatenation.
\<close>

fun run_ticks :: "RiskManager \<Rightarrow> (string \<times> real) list \<Rightarrow> RiskManager \<times> risk_log list" where
  "run_ticks rm [] = (rm, [])"
| "run_ticks rm ((symbol, price) # ticks) =
     (let (rm1, log1) = check_position_risk rm symbol price;
          (rm2, log2) = run_ticks rm1 ticks
      in (rm2, log1 @ log2))"

definition stop_loss_intents :: "string \<Rightarrow> risk_log list \<Rightarrow> risk_log list" where
  "stop_loss_intents symbol l =
     filter (\<lambda>e. case e of StopLossExecute s _ \<Rightarrow> s = symbol | _ \<Rightarrow> False) l"

section \<open>trading\_strategy.py\<close>

subsection \<open>Values of pandas series\<close>

text \<open>
  The indicator series that the strategies read are pandas series of float64: a rolling
  mean is NaN until its window is full, a comparison with NaN is false, and a division
  by zero gives an infinity or NaN with a warning, not an exception. These values are
  modelled with the arithmetic of IEEE 754 on exact reals (no rounding, one zero). The
  close prices of the candles are finite numbers.
\<close>

datatype fl = Fin real | PInf | NInf | NaN

fun fl_neg :: "fl \<Rightarrow> fl" where
  "fl_neg (Fin x) = Fin (- x)"
| "fl_neg PInf = NInf"
| "fl_neg NInf = PInf"
| "fl_neg NaN = NaN"

fun fl_abs :: "fl \<Rightarrow> fl" where
  "fl_abs (Fin x) = Fin \<bar>x\<bar>"
| "fl_abs PInf = PInf"
| "fl_abs NInf = PInf"
| "fl_abs NaN = NaN"

fun fl_add :: "fl \<Rightarrow> fl \<Rightarrow> fl" where
  "fl_add (Fin x) (Fin y) = Fin (x + y)"
| "fl_add NaN _ = NaN"
| "fl_add _ NaN = NaN"
| "fl_add PInf NInf = NaN"
| "fl_add NInf PInf = NaN"
| "fl_add PInf _ = PInf"
| "fl_add _ PInf = PInf"
| "fl_add NInf _ = NInf"
| "fl_add _ NInf = NInf"

definition fl_sub :: "fl \<Rightarrow> fl \<Rightarrow> fl" where
  "fl_sub a b = fl_add a (fl_neg b)"

fun fl_less :: "fl \<Rightarrow> fl \<Rightarrow> bool" where
  "fl_less (Fin x) (Fin y) = (x < y)"
| "fl_less NaN _ = False"
| "fl_less _ NaN = False"
| "fl_less NInf b = (b \<noteq> NInf)"
| "fl_less a PInf = (a \<noteq> PInf)"
| "fl_less _ _ = False"

definition fl_le :: "fl \<Rightarrow> fl \<Rightarrow> bool" where
  "fl_le a b = (fl_less a b \<or> (a = b \<and> a \<noteq> NaN))"

fun fl_mul :: "fl \<Rightarrow> fl \<Rightarrow> fl" where
  "fl_mul (Fin x) (Fin y) = Fin (x * y)"
| "fl_mul NaN _ = NaN"
| "fl_mul _ NaN = NaN"
| "fl_mul a b =
     (if a = Fin 0 \<or> b = Fin 0 then NaN
      else if fl_less (Fin 0) a = fl_less (Fin 0) b then PInf else NInf)"

fun fl_div :: "fl \<Rightarrow> fl \<Rightarrow> fl" where
  "fl_div NaN _ = NaN"
| "fl_div _ NaN = NaN"
| "fl_div (Fin x) (Fin y) =
     (if y \<noteq> 0 then Fin (x / y) else if x = 0 then NaN else if 0 < x then PInf else NInf)"
| "fl_div (Fin x) _ = Fin 0"
| "fl_div a (Fin y) = (if fl_less (Fin 0) a = (0 \<le> y) then PInf else NInf)"
| "fl_div _ _ = NaN"

text \<open>
  The builtin \<open>min(a, b)\<close> of Python returns \<open>a\<close> unless \<open>b < a\<close>.
\<close>

definition py_min :: "fl \<Rightarrow> fl \<Rightarrow> fl" where
  "py_min a b = (if fl_less b a then b else a)"

subsection \<open>The candle frame\<close>

text \<open>
  The \<open>DataFrame\<close> handed to a strategy: whether the five columns open, high, low,
  close and volume are all there, the close column (its length is the number of rows),
  and the four indicator columns that the strategies read and write, each present or
  not. The strategies assign columns of the caller's frame, so a call returns the frame
  as it leaves it.
\<close>

record frame =
  has_ohlcv :: bool
  close :: "real list"
  rsi :: "fl list option"
  macd :: "fl list option"
  macd_signal :: "fl list option"
  macd_histogram :: "fl list option"

definition validate_data :: "frame \<Rightarrow> bool" where
  "validate_data data = (if length (close data) = 0 then False else has_ohlcv data)"

text \<open>
  \<open>iloc xs k\<close> is \<open>xs.iloc[-k]\<close>; \<open>None\<close> stands for the IndexError, which the
  \<open>try\<close> of every \<open>generate_signal\<close> turns into "no signal".
\<close>

definition iloc :: "'a list \<Rightarrow> nat \<Rightarrow> 'a option" where
  "iloc xs k = (if 0 < k \<and> k \<le> length xs then Some (xs ! (length xs - k)) else None)"

text \<open>
  \<open>rolling(window).mean()\<close> of a finite series: NaN at the rows whose window is not
  full (all rows for a window of 0), the mean of the last \<open>window\<close> values elsewhere.
\<close>

definition rolling_mean :: "nat \<Rightarrow> real list \<Rightarrow> fl list" where
  "rolling_mean window xs =
     map (\<lambda>i. if 0 < window \<and> window \<le> i + 1
               then Fin (sum_list (take window (drop (i + 1 - window) xs)) / real window)
               else NaN)
         [0..<length xs]"

text \<open>\<open>diff()\<close>: NaN in the first row, then the difference to the row before.\<close>

definition diff :: "real list \<Rightarrow> fl list" where
  "diff xs = (case xs of [] \<Rightarrow> [] | x # rest \<Rightarrow> NaN # map (\<lambda>(a, b). Fin (b - a)) (zip xs rest))"

text \<open>
  \<open>s.where(cond, 0)\<close> for a series of differences: the value where the condition
  holds, 0 elsewhere, in particular at NaN, where every comparison is false.
\<close>

definition where_or_zero :: "(real \<Rightarrow> bool) \<Rightarrow> fl list \<Rightarrow> real list" where
  "where_or_zero cond ds = map (\<lambda>d. case d of Fin x \<Rightarrow> if cond x then x else 0 | _ \<Rightarrow> 0) ds"

text \<open>
  \<open>ewm(span).mean()\<close> of a finite series, with the default \<open>adjust=True\<close>: the
  weighted mean with weights \<open>(1 - alpha) ^ i\<close>, \<open>alpha = 2 / (span + 1)\<close>, computed with
  running numerator and denominator. pandas raises ValueError for a span below 1.
\<close>

fun ewm_from :: "real \<Rightarrow> real \<Rightarrow> real \<Rightarrow> real list \<Rightarrow> real list" where
  "ewm_from alpha num den [] = []"
| "ewm_from alpha num den (x # xs) =
     (let num' = x + (1 - alpha) * num; den' = 1 + (1 - alpha) * den
      in (num' / den') # ewm_from alpha num' den' xs)"

definition ewm_mean :: "nat \<Rightarrow> real list \<Rightarrow> real list option" where
  "ewm_mean n xs = (if n < 1 then None else Some (ewm_from (2 / (real n + 1)) 0 0 xs))"

subsection \<open>Signals and strategies\<close>

datatype meta = MFloat fl | MString string

record TradingSignal =
  signal_type :: string
  strength :: fl
  signal_price :: real
  metadata :: "(string \<times> meta) list"

text \<open>
  The state of the base class; the name and the \<open>params\<close> dictionary, which repeats
  the fields of the subclass, are left out. The periods are window lengths, natural
  numbers.
\<close>

record TradingStrategy =
  signals_history :: "TradingSignal list"
  last_signal :: "TradingSignal option"

record DualMAStrategy = TradingStrategy +
  short_period :: nat
  long_period :: nat
  signal_threshold :: real
  last_ma_cross :: "string option"

record RSIStrategy = TradingStrategy +
  period :: nat
  overbought :: real
  oversold :: real

record MACDStrategy = TradingStrategy +
  fast_period :: nat
  slow_period :: nat
  signal_period :: nat

definition new_DualMAStrategy :: "nat \<Rightarrow> nat \<Rightarrow> real \<Rightarrow> DualMAStrategy" where
  "new_DualMAStrategy short long threshold =
     \<lparr>signals_history = [], last_signal = None, short_period = short, long_period = long,
      signal_threshold = threshold, last_ma_cross = None\<rparr>"

definition new_RSIStrategy :: "nat \<Rightarrow> real \<Rightarrow> real \<Rightarrow> RSIStrategy" where
  "new_RSIStrategy p ob os =
     \<lparr>signals_history = [], last_signal = None, period = p, overbought = ob, oversold = os\<rparr>"

definition new_MACDStrategy :: "nat \<Rightarrow> nat \<Rightarrow> nat \<Rightarrow> MACDStrategy" where
  "new_MACDStrategy fast slow sig =
     \<lparr>signals_history = [], last_signal = None, fast_period = fast, slow_period = slow,
      signal_period = sig\<rparr>"

definition add_signal :: "'a TradingStrategy_scheme \<Rightarrow> TradingSignal \<Rightarrow> 'a TradingStrategy_scheme" where
  "add_signal st signal =
     (let history = signals_history st @ [signal];
          st1 = st\<lparr>signals_history := history, last_signal := Some signal\<rparr>
      in if length history > 1000
         then st1\<lparr>signals_history := drop (length history - 1000) history\<rparr>
         else st1)"

text \<open>
  Every \<open>generate_signal\<close> has the same shape: a guard that returns \<open>None\<close>, then a
  \<open>try\<close> block that sets the local variable \<open>signal\<close> (initially \<open>None\<close>) in one
  of two branches, and at its end \<open>if signal: self.add_signal(signal); return signal\<close>.
  A \<open>TradingSignal\<close> object is always true, so that test only asks whether a signal
  was built. For each strategy the first function below is the part of the block that
  sets \<open>signal\<close>, the second the whole method.
\<close>

text \<open>
  \<open>DualMAStrategy.generate_signal\<close>. The previous values are \<open>iloc[-2]\<close> when the
  series has more than one row and the current values otherwise. The branch that builds
  a signal also sets \<open>last_ma_cross\<close>; its value is returned with the signal.
\<close>

definition DualMA_cross :: "DualMAStrategy \<Rightarrow> frame \<Rightarrow> (TradingSignal \<times> string) option" where
  "DualMA_cross st data =
     (let short_ma = rolling_mean (short_period st) (close data);
          long_ma = rolling_mean (long_period st) (close data)
      in case (iloc short_ma 1, iloc long_ma 1, iloc (close data) 1) of
           (Some current_short, Some current_long, Some current_price) \<Rightarrow>
             (let prev_short = (case iloc short_ma 2 of Some v \<Rightarrow> v | None \<Rightarrow> current_short);
                  prev_long = (case iloc long_ma 2 of Some v \<Rightarrow> v | None \<Rightarrow> current_long);
                  gap = fl_div (fl_abs (fl_sub current_short current_long)) current_long;
                  meta = [(''short_ma'', MFloat current_short),
                          (''long_ma'', MFloat current_long)]
              in if fl_le prev_short prev_long \<and> fl_less current_long current_short \<and>
                    fl_less (Fin (signal_threshold st / 100)) gap then
                   Some (\<lparr>signal_type = ''BUY'',
                           strength = py_min (fl_mul gap (Fin 10)) (Fin 1),
                           signal_price = current_price,
                           metadata = meta @ [(''cross_type'', MString ''golden_cross'')]\<rparr>,
                         ''golden'')
                 else if fl_le prev_long prev_short \<and> fl_less current_short current_long \<and>
                         fl_less (Fin (signal_threshold st / 100)) gap then
                   Some (\<lparr>signal_type = ''SELL'',
                           strength = py_min (fl_mul gap (Fin 10)) (Fin 1),
                           signal_price = current_price,
                           metadata = meta @ [(''cross_type'', MString ''death_cross'')]\<rparr>,
                         ''death'')
                 else None)
         | _ \<Rightarrow> None)"

definition DualMA_generate_signal ::
  "DualMAStrategy \<Rightarrow> frame \<Rightarrow> TradingSignal option \<times> DualMAStrategy \<times> frame" where
  "DualMA_generate_signal st data =
     (if \<not> validate_data data \<or>
         length (close data) < max (short_period st) (long_period st)
      then (None, st, data)
      else case DualMA_cross st data of
             None \<Rightarrow> (None, st, data)
           | Some (signal, cross) \<Rightarrow>
               (Some signal, add_signal (st\<lparr>last_ma_cross := Some cross\<rparr>) signal, data))"

definition calculate_rsi :: "real list \<Rightarrow> nat \<Rightarrow> fl list" where
  "calculate_rsi prices n =
     (let delta = diff prices;
          gain = rolling_mean n (where_or_zero (\<lambda>x. 0 < x) delta);
          loss = rolling_mean n (map uminus (where_or_zero (\<lambda>x. x < 0) delta));
          rs = map (\<lambda>(g, l). fl_div g l) (zip gain loss)
      in map (\<lambda>r. fl_sub (Fin 100) (fl_div (Fin 100) (fl_add (Fin 1) r))) rs)"

text \<open>
  \<open>RSIStrategy.generate_signal\<close>. When the frame has no \<open>rsi\<close> column, the strategy
  computes one and assigns it to the frame it was given. \<open>RSI_cross\<close> reads the
  column and the close prices of the frame.
\<close>

definition RSI_cross :: "RSIStrategy \<Rightarrow> fl list \<Rightarrow> real list \<Rightarrow> TradingSignal option" where
  "RSI_cross st column closes =
     (case (iloc column 1,
            if length closes > 1 then iloc column 2 else iloc column 1,
            iloc closes 1) of
        (Some current_rsi, Some prev_rsi, Some current_price) \<Rightarrow>
          if fl_le (Fin (oversold st)) prev_rsi \<and> fl_less current_rsi (Fin (oversold st)) then
            (let strength0 = fl_div (fl_sub (Fin (oversold st)) current_rsi) (Fin (oversold st))
             in Some \<lparr>signal_type = ''BUY'', strength = py_min strength0 (Fin 1),
                      signal_price = current_price,
                      metadata = [(''rsi'', MFloat current_rsi),
                                  (''condition'', MString ''oversold'')]\<rparr>)
          else if fl_le prev_rsi (Fin (overbought st)) \<and>
                  fl_less (Fin (overbought st)) current_rsi then
            (let strength0 = fl_div (fl_sub current_rsi (Fin (overbought st)))
                               (Fin (100 - overbought st))
             in Some \<lparr>signal_type = ''SELL'', strength = py_min strength0 (Fin 1),
                      signal_price = current_price,
                      metadata = [(''rsi'', MFloat current_rsi),
                                  (''condition'', MString ''overbought'')]\<rparr>)
          else None
      | _ \<Rightarrow> None)"

definition RSI_generate_signal ::
  "RSIStrategy \<Rightarrow> frame \<Rightarrow> TradingSignal option \<times> RSIStrategy \<times> frame" where
  "RSI_generate_signal st data =
     (if \<not> validate_data data \<or> length (close data) < period st + 1
      then (None, st, data)
      else
        (let column = (case rsi data of
                         None \<Rightarrow> calculate_rsi (close data) (period st)
                       | Some c \<Rightarrow> c);
             data1 = (case rsi data of None \<Rightarrow> data\<lparr>rsi := Some column\<rparr> | Some _ \<Rightarrow> data)
         in case RSI_cross st column (close data) of
              None \<Rightarrow> (None, st, data1)
            | Some signal \<Rightarrow> (Some signal, add_signal st signal, data1)))"

text \<open>
  \<open>MACDStrategy._calculate_macd\<close>: the three series, or \<open>None\<close> for the ValueError
  of a span below 1.
\<close>

definition calculate_macd ::
  "MACDStrategy \<Rightarrow> real list \<Rightarrow> (real list \<times> real list \<times> real list) option" where
  "calculate_macd st prices =
     (case (ewm_mean (fast_period st) prices, ewm_mean (slow_period st) prices) of
        (Some ema_fast, Some ema_slow) \<Rightarrow>
          (let macd_line = map (\<lambda>(a, b). a - b) (zip ema_fast ema_slow)
           in case ewm_mean (signal_period st) macd_line of
                Some signal_line \<Rightarrow>
                  Some (macd_line, signal_line,
                        map (\<lambda>(a, b). a - b) (zip macd_line signal_line))
              | None \<Rightarrow> None)
      | _ \<Rightarrow> None)"

text \<open>
  \<open>MACDStrategy.generate_signal\<close>. When the frame has no \<open>macd\<close> column, the three
  columns are computed and assigned to the frame; a ValueError of the computation leaves
  the frame as it was. A frame with a \<open>macd\<close> column but without one of the other two
  gives a KeyError, caught as every exception. \<open>MACD_cross\<close> reads the three columns
  and the close prices.
\<close>

definition MACD_cross ::
  "fl list \<Rightarrow> fl list \<Rightarrow> fl list \<Rightarrow> real list \<Rightarrow> TradingSignal option" where
  "MACD_cross mc sc hc closes =
     (case (iloc mc 1, iloc sc 1, iloc hc 1,
            if length closes > 1 then iloc hc 2 else iloc hc 1,
            iloc closes 1) of
        (Some current_macd, Some current_signal, Some current_histogram,
         Some prev_histogram, Some current_price) \<Rightarrow>
          (let strength0 =
                 py_min (fl_mul (fl_div (fl_abs current_histogram) (fl_abs current_signal))
                           (Fin 2)) (Fin 1);
               meta = [(''macd'', MFloat current_macd),
                       (''signal'', MFloat current_signal),
                       (''histogram'', MFloat current_histogram)]
           in if fl_le prev_histogram (Fin 0) \<and> fl_less (Fin 0) current_histogram then
                Some \<lparr>signal_type = ''BUY'', strength = strength0,
                       signal_price = current_price,
                       metadata = meta @ [(''cross_type'', MString ''bullish'')]\<rparr>
              else if fl_le (Fin 0) prev_histogram \<and> fl_less current_histogram (Fin 0) then
                Some \<lparr>signal_type = ''SELL'', strength = strength0,
                       signal_price = current_price,
                       metadata = meta @ [(''cross_type'', MString ''bearish'')]\<rparr>
              else None)
      | _ \<Rightarrow> None)"

definition MACD_generate_signal ::
  "MACDStrategy \<Rightarrow> frame \<Rightarrow> TradingSignal option \<times> MACDStrategy \<times> frame" where
  "MACD_generate_signal st data =
     (let min_periods = max (slow_period st) (signal_period st) + 1
      in if \<not> validate_data data \<or> length (close data) < min_periods
         then (None, st, data)
         else
           (case (case macd data of
                    Some _ \<Rightarrow> Some data
                  | None \<Rightarrow>
                      (case calculate_macd st (close data) of
                         None \<Rightarrow> None
                       | Some (m, s, h) \<Rightarrow>
                           Some (data\<lparr>macd := Some (map Fin m),
                                      macd_signal := Some (map Fin s),
                                      macd_histogram := Some (map Fin h)\<rparr>))) of
              None \<Rightarrow> (None, st, data)
            | Some data1 \<Rightarrow>
                (case (macd data1, macd_signal data1, macd_histogram data1) of
                   (Some mc, Some sc, Some hc) \<Rightarrow>
                     (case MACD_cross mc sc hc (close data) of
                        None \<Rightarrow> (None, st, data1)
                      | Some signal \<Rightarrow> (Some signal, add_signal st signal, data1))
                 | _ \<Rightarrow> (None, st, data1))))"

section \<open>The scenario of the specification\<close>

text \<open>
  An executor with balance 10000, commission rate 0.001 and no slippage; the price of
  BTCUSDT becomes 50000; a market BUY of 0.1; the price becomes 60000; a market SELL
  of 0.1. Each step is a call of the public interface.
\<close>

definition scenario_start :: TradeExecutor where
  "scenario_start = new_TradeExecutor 10000 MAX_POSITION_SIZE 0.001 0"
definition scenario_priced :: TradeExecutor where
  "scenario_priced = update_price scenario_start ''BTCUSDT'' 50000"
definition scenario_bought :: TradeExecutor where
  "scenario_bought = snd (place_order scenario_priced ''BTCUSDT'' BUY MARKET 0.1 None None)"
definition scenario_ticked :: TradeExecutor where
  "scenario_ticked = update_price scenario_bought ''BTCUSDT'' 60000"
definition scenario_sold :: TradeExecutor where
  "scenario_sold = snd (place_order scenario_ticked ''BTCUSDT'' SELL MARKET 0.1 None None)"


definition bought_position :: Position where
  "bought_position =
     \<lparr>p_symbol = ''BTCUSDT'', p_quantity = 0.1, p_avg_price = 50000, p_realized_pnl = 0,
      p_unrealized_pnl = 0, p_total_cost = 5000, p_total_commission = 5\<rparr>"

definition ticked_position :: Position where
  "ticked_position = bought_position\<lparr>p_unrealized_pnl := 1000\<rparr>"

definition sold_position :: Position where
  "sold_position =
     \<lparr>p_symbol = ''BTCUSDT'', p_quantity = 0, p_avg_price = 0, p_realized_pnl = 1000,
      p_unrealized_pnl = 1000, p_total_cost = 0, p_total_commission = 11\<rparr>"

section \<open>A limit order on the module's executor\<close>

text \<open>
  The global executor of the module (slippage 0.0005): the price of BTCUSDT is 60000, a
  LIMIT BUY of 0.05 at 50000 is placed, and the price falls to 50000.
\<close>

definition limit_start :: TradeExecutor where
  "limit_start = update_price default_TradeExecutor ''BTCUSDT'' 60000"
definition limit_placed :: TradeExecutor where
  "limit_placed = snd (place_order limit_start ''BTCUSDT'' BUY LIMIT 0.05 (Some 50000) None)"
definition limit_ticked :: TradeExecutor where
  "limit_ticked = update_price limit_placed ''BTCUSDT'' 50000"

section \<open>Two limit orders on the module's executor\<close>

text \<open>
  The global executor in binary64: the price of BTCUSDT is 60000, two LIMIT BUY orders
  of 0.1 at 50000 are placed one after the other, and the price falls to 50000.
\<close>

definition overdraft_start :: TradeExecutor where
  "overdraft_start =
     update_price_fl double_round (default_TradeExecutor_fl double_round) ''BTCUSDT'' 60000"

definition overdraft_one :: TradeExecutor where
  "overdraft_one =
     snd (place_order_fl double_round overdraft_start ''BTCUSDT'' BUY LIMIT (double_round 0.1)
            (Some 50000) None)"

definition overdraft_two :: TradeExecutor where
  "overdraft_two =
     snd (place_order_fl double_round overdraft_one ''BTCUSDT'' BUY LIMIT (double_round 0.1)
            (Some 50000) None)"

definition overdraft_ticked :: TradeExecutor where
  "overdraft_ticked = update_price_fl double_round overdraft_two ''BTCUSDT'' 50000"

section \<open>The module's executor after a loss\<close>

text \<open>
  The global executor: the price of BTCUSDT is 50000, a market BUY of 0.1 is filled, and
  the price falls to 40000. The total value is then below the initial balance.
\<close>

definition equity_start :: TradeExecutor where
  "equity_start = update_price default_TradeExecutor ''BTCUSDT'' 50000"
definition equity_bought :: TradeExecutor where
  "equity_bought = snd (place_order equity_start ''BTCUSDT'' BUY MARKET 0.1 None None)"
definition equity_fallen :: TradeExecutor where
  "equity_fallen = update_price equity_bought ''BTCUSDT'' 40000"

definition equity_position :: Position where
  "equity_position =
     \<lparr>p_symbol = ''BTCUSDT'', p_quantity = 0.1, p_avg_price = 50025, p_realized_pnl = 0,
      p_unrealized_pnl = 0, p_total_cost = 5002.5, p_total_commission = 5.0025\<rparr>"

section \<open>Round trips in binary64\<close>

text \<open>
  Two executors without slippage and commission, each filling a BUY and then a SELL of
  the same quantity at the same price, computed in binary64. The first has a balance of
  16140.42 and trades 0.0235 at 49410.1; the second has a balance of 10000 and trades
  0.0027 at 47407.40740740741.
\<close>

definition drift_start :: TradeExecutor where
  "drift_start = new_TradeExecutor (double_round 16140.42) 0.5 0 0"

definition drift_buy :: Order where
  "drift_buy = new_Order 0 ''BTCUSDT'' BUY MARKET (double_round 0.0235) (double_round 49410.1) None"

definition drift_sell :: Order where
  "drift_sell = new_Order 1 ''BTCUSDT'' SELL MARKET (double_round 0.0235) (double_round 49410.1) None"

definition drift_end :: TradeExecutor where
  "drift_end =
     execute_order_fl double_round
       (execute_order_fl double_round drift_start drift_buy (double_round 49410.1))
       drift_sell (double_round 49410.1)"

definition residue_start :: TradeExecutor where
  "residue_start = new_TradeExecutor 10000 0.5 0 0"

definition residue_buy :: Order where
  "residue_buy =
     new_Order 0 ''BTCUSDT'' BUY MARKET (double_round 0.0027) (double_round 47407.40740740741) None"

definition residue_sell :: Order where
  "residue_sell =
     new_Order 1 ''BTCUSDT'' SELL MARKET (double_round 0.0027) (double_round 47407.40740740741) None"

definition residue_end :: TradeExecutor where
  "residue_end =
     execute_order_fl double_round
       (execute_order_fl double_round residue_start residue_buy (double_round 47407.40740740741))
       residue_sell (double_round 47407.40740740741)"

section \<open>A pending order in binary64\<close>

text \<open>
  An executor with balance 10000, commission rate and slippage 1/1024 and the price of
  BTCUSDT at 2048, and the executor after a LIMIT BUY of 2 at 2048 is submitted.
\<close>

definition fl_priced :: TradeExecutor where
  "fl_priced =
     (new_TradeExecutor 10000 0.5 (1 / 1024) (1 / 1024))\<lparr>current_prices := [''BTCUSDT'' \<mapsto> 2048]\<rparr>"

definition fl_placed :: TradeExecutor where
  "fl_placed =
     (new_TradeExecutor 10000 0.5 (1 / 1024) (1 / 1024))
       \<lparr>orders := [new_Order 0 ''BTCUSDT'' BUY LIMIT 2 2048 None],
        current_prices := [''BTCUSDT'' \<mapsto> 2048], next_uuid := 1\<rparr>"

section \<open>Candle frames for the examples\<close>

text \<open>A frame with the five candle columns and no indicator column.\<close>

definition candles :: "real list \<Rightarrow> frame" where
  "candles closes =
     \<lparr>has_ohlcv = True, close = closes, rsi = None, macd = None, macd_signal = None,
      macd_histogram = None\<rparr>"

section \<open>Notions for the effects of a signal generator\<close>






section \<open>Properties of the order simulator\<close>

subsection \<open>What a fill does to each field of the state\<close>

lemma map_of_dict_set: "map_of (dict_set k v d) = (map_of d)(k \<mapsto> v)"
  by (induction d) auto

lemma ubp_sel:
  "available_balance (update_balance_and_position ex t) =
     (if t_side t = BUY then available_balance ex - (t_total t + t_commission t)
      else available_balance ex + (t_total t - t_commission t))"
  "positions (update_balance_and_position ex t) =
     dict_set (t_symbol t) (Position_update_position (position_of ex (t_symbol t)) t) (positions ex)"
  "orders (update_balance_and_position ex t) = orders ex"
  "trades (update_balance_and_position ex t) = trades ex"
  "current_prices (update_balance_and_position ex t) = current_prices ex"
  "max_position_size (update_balance_and_position ex t) = max_position_size ex"
  "commission_rate (update_balance_and_position ex t) = commission_rate ex"
  "slippage (update_balance_and_position ex t) = slippage ex"
  "initial_balance (update_balance_and_position ex t) = initial_balance ex"
  "next_uuid (update_balance_and_position ex t) = next_uuid ex"
  "total_trades (update_balance_and_position ex t) = total_trades ex"
  "total_commission (update_balance_and_position ex t) = total_commission ex"
  by (simp_all add: update_balance_and_position_def position_of_def Let_def)

lemma exec_sel:
  "available_balance (execute_order ex order p0) =
     (if o_side order = BUY
      then available_balance ex - (o_quantity order * fill_price ex order p0 +
             o_quantity order * fill_price ex order p0 * commission_rate ex)
      else available_balance ex + (o_quantity order * fill_price ex order p0 -
             o_quantity order * fill_price ex order p0 * commission_rate ex))"
  "positions (execute_order ex order p0) =
     dict_set (o_symbol order)
       (Position_update_position (position_of ex (o_symbol order)) (fill_trade ex order p0))
       (positions ex)"
  "orders (execute_order ex order p0) = store_order (filled ex order p0) (orders ex)"
  "trades (execute_order ex order p0) = trades ex @ [fill_trade ex order p0]"
  "current_prices (execute_order ex order p0) = current_prices ex"
  "max_position_size (execute_order ex order p0) = max_position_size ex"
  "commission_rate (execute_order ex order p0) = commission_rate ex"
  "slippage (execute_order ex order p0) = slippage ex"
  "initial_balance (execute_order ex order p0) = initial_balance ex"
  "next_uuid (execute_order ex order p0) = next_uuid ex + 1"
  "total_trades (execute_order ex order p0) = total_trades ex + 1"
  by (simp_all add: execute_order_def ubp_sel fill_trade_def fill_price_def new_Trade_def
        position_of_def filled_def Let_def)

lemma fill_trade_sel:
  "t_side (fill_trade ex order p0) = o_side order"
  "t_symbol (fill_trade ex order p0) = o_symbol order"
  "t_quantity (fill_trade ex order p0) = o_quantity order"
  "t_price (fill_trade ex order p0) = fill_price ex order p0"
  "t_total (fill_trade ex order p0) = o_quantity order * fill_price ex order p0"
  "t_commission (fill_trade ex order p0) =
     o_quantity order * fill_price ex order p0 * commission_rate ex"
  by (simp_all add: fill_trade_def new_Trade_def)

subsection \<open>Orders, ticks without a pending order, market orders\<close>

lemma check_pending_orders_none:
  "pending_for ex symbol = [] \<Longrightarrow> check_pending_orders ex symbol price = ex"
  by (simp add: check_pending_orders_def pending_for_def)

lemma update_price_quiet:
  assumes "pending_for ex symbol = []"
  shows "update_price ex symbol price =
     (case dict_get (positions ex) symbol of
        None \<Rightarrow> ex\<lparr>current_prices := (current_prices ex)(symbol \<mapsto> price)\<rparr>
      | Some position \<Rightarrow>
          ex\<lparr>current_prices := (current_prices ex)(symbol \<mapsto> price),
             positions := dict_set symbol (calculate_unrealized_pnl position price) (positions ex)\<rparr>)"
  using assms
  by (simp add: update_price_def Let_def check_pending_orders_none pending_for_def split: option.splits)

lemma place_order_MARKET:
  assumes "0 < q" and "current_prices ex symbol = Some cp"
    and "risk_check ex symbol side q cp = Inr ()"
  shows "place_order ex symbol side MARKET q pa sp =
     (Inr (next_uuid ex),
      execute_order
        (ex\<lparr>orders := orders ex @ [new_Order (next_uuid ex) symbol side MARKET q cp sp],
            next_uuid := next_uuid ex + 1\<rparr>)
        (new_Order (next_uuid ex) symbol side MARKET q cp sp) cp)"
  using assms by (simp add: place_order_def Let_def new_Order_def)

lemma new_Order_sel:
  "o_id (new_Order u sy si ty q p sp) = u"
  "o_symbol (new_Order u sy si ty q p sp) = sy"
  "o_side (new_Order u sy si ty q p sp) = si"
  "o_order_type (new_Order u sy si ty q p sp) = ty"
  "o_quantity (new_Order u sy si ty q p sp) = q"
  "o_price (new_Order u sy si ty q p sp) = p"
  "o_stop_price (new_Order u sy si ty q p sp) = sp"
  "o_status (new_Order u sy si ty q p sp) = PENDING"
  by (simp_all add: new_Order_def)

lemma filled_sel:
  "o_id (filled ex order p0) = o_id order"
  "o_symbol (filled ex order p0) = o_symbol order"
  "o_status (filled ex order p0) = FILLED"
  "o_avg_fill_price (filled ex order p0) = fill_price ex order p0"
  "o_price (filled ex order p0) = o_price order"
  by (simp_all add: filled_def)

lemma filter_store_order:
  "\<not> P order \<Longrightarrow>
   filter P (store_order order os) = filter (\<lambda>o'. o_id o' \<noteq> o_id order) (filter P os)"
  by (induction os) (auto simp: store_order_def)

lemma pending_for_execute:
  "pending_for (execute_order ex order p0) symbol =
     filter (\<lambda>o'. o_id o' \<noteq> o_id order) (pending_for ex symbol)"
  by (simp add: pending_for_def exec_sel filter_store_order filled_sel)

subsection \<open>Rounding to binary64\<close>

lemma rne_near:
  assumes "\<bar>z - of_int n\<bar> < 1 / 2"
  shows "rne z = n"
proof -
  from assms have "z - of_int n < 1 / 2 \<and> - (z - of_int n) < 1 / 2"
    unfolding abs_less_iff .
  then have lo: "of_int n - 1 / 2 < z" and hi: "z < of_int n + 1 / 2"
    by linarith+
  show ?thesis
  proof (cases "of_int n \<le> z")
    case True
    have "\<lfloor>z\<rfloor> = n"
    proof (rule floor_unique)
      show "of_int n \<le> z" by (rule True)
      show "z < of_int n + 1" using hi by linarith
    qed
    then show ?thesis using hi True by (simp add: rne_def Let_def)
  next
    case False
    have "\<lfloor>z\<rfloor> = n - 1"
    proof (rule floor_unique)
      show "of_int (n - 1) \<le> z" using lo by simp
      show "z < of_int (n - 1) + 1" using False by simp
    qed
    moreover have "1 / 2 < z - of_int (n - 1)" using lo by simp
    ultimately show ?thesis by (simp add: rne_def Let_def)
  qed
qed

lemma rne_tie:
  assumes "z = of_int n + 1 / 2"
  shows "rne z = (if even n then n else n + 1)"
proof -
  have "\<lfloor>z\<rfloor> = n"
  proof (rule floor_unique)
    show "of_int n \<le> z" using assms by simp
    show "z < of_int n + 1" using assms by simp
  qed
  then show ?thesis using assms by (simp add: rne_def Let_def)
qed

lemma rne_of_int: "rne (of_int n) = n"
  by (rule rne_near) simp

lemma rne_ge: "of_int n \<le> z \<Longrightarrow> n \<le> rne z"
proof -
  assume a: "of_int n \<le> z"
  then have "n \<le> \<lfloor>z\<rfloor>" by (simp add: le_floor_iff)
  then show ?thesis by (simp add: rne_def Let_def)
qed

lemma rne_le: "z \<le> of_int n \<Longrightarrow> rne z \<le> n"
proof -
  assume a: "z \<le> of_int n"
  show ?thesis
  proof (cases "z = of_int n")
    case True
    then show ?thesis by (simp add: rne_of_int)
  next
    case False
    with a have "z < of_int n" by simp
    then have "\<lfloor>z\<rfloor> < n" by (simp add: floor_less_iff)
    then show ?thesis by (simp add: rne_def Let_def)
  qed
qed

lemma rne_mono: "z1 \<le> z2 \<Longrightarrow> rne z1 \<le> rne z2"
proof -
  assume a: "z1 \<le> z2"
  have f: "\<lfloor>z1\<rfloor> \<le> \<lfloor>z2\<rfloor>" using a by (rule floor_mono)
  show ?thesis
  proof (cases "\<lfloor>z1\<rfloor> = \<lfloor>z2\<rfloor>")
    case True
    then have "z1 - of_int \<lfloor>z1\<rfloor> \<le> z2 - of_int \<lfloor>z2\<rfloor>" using a by simp
    then show ?thesis using True by (simp add: rne_def Let_def)
  next
    case False
    with f have "\<lfloor>z1\<rfloor> + 1 \<le> \<lfloor>z2\<rfloor>" by simp
    moreover have "rne z1 \<le> \<lfloor>z1\<rfloor> + 1" by (simp add: rne_def Let_def)
    moreover have "\<lfloor>z2\<rfloor> \<le> rne z2" by (simp add: rne_def Let_def)
    ultimately show ?thesis by linarith
  qed
qed

lemma rne_error: "\<bar>of_int (rne z) - z\<bar> \<le> 1 / 2"
proof -
  have "of_int \<lfloor>z\<rfloor> \<le> z" "z < of_int \<lfloor>z\<rfloor> + 1" by linarith+
  then show ?thesis by (simp add: rne_def Let_def)
qed

lemma ulp_of_pos: "0 < ulp_of k"
  by (simp add: ulp_of_def)

lemma ulp_of_lo: "2 ^ 52 * ulp_of k = 2 powr (of_int k)"
proof -
  have "(2::real) ^ 52 = 2 powr 52" by (simp add: powr_numeral)
  then have "2 ^ 52 * ulp_of k = 2 powr 52 * 2 powr (of_int k - 52)" by (simp add: ulp_of_def)
  also have "\<dots> = 2 powr (52 + (of_int k - 52))" by (simp only: powr_add)
  finally show ?thesis by simp
qed

lemma ulp_of_Suc: "ulp_of (k + 1) = 2 * ulp_of k"
proof -
  have "ulp_of (k + 1) = 2 powr (1 + (of_int k - 52))" by (simp add: ulp_of_def)
  also have "\<dots> = 2 powr 1 * 2 powr (of_int k - 52)" by (simp only: powr_add)
  finally show ?thesis by (simp add: ulp_of_def)
qed

lemma ulp_of_hi: "2 ^ 53 * ulp_of k = 2 powr (of_int (k + 1))"
proof -
  have "2 ^ 53 * ulp_of k = 2 ^ 52 * ulp_of (k + 1)" by (simp add: ulp_of_Suc)
  then show ?thesis by (simp only: ulp_of_lo)
qed

lemma ulp_of_mono: "k \<le> k' \<Longrightarrow> ulp_of k \<le> ulp_of k'"
  by (simp add: ulp_of_def)

lemma binade:
  assumes "0 < y"
  shows "2 ^ 52 * ulp_of \<lfloor>log 2 y\<rfloor> \<le> y" and "y < 2 ^ 53 * ulp_of \<lfloor>log 2 y\<rfloor>"
proof -
  have "\<lfloor>log 2 y\<rfloor> = \<lfloor>log 2 y\<rfloor>" ..
  then have "2 powr (of_int \<lfloor>log 2 y\<rfloor>) \<le> y \<and> y < 2 powr (of_int (\<lfloor>log 2 y\<rfloor> + 1))"
    using floor_log_eq_powr_iff [of y 2 "\<lfloor>log 2 y\<rfloor>"] assms by simp
  then show "2 ^ 52 * ulp_of \<lfloor>log 2 y\<rfloor> \<le> y" and "y < 2 ^ 53 * ulp_of \<lfloor>log 2 y\<rfloor>"
    by (simp_all only: ulp_of_lo ulp_of_hi)
qed

lemma binade_unique:
  assumes "0 < y" and "2 ^ 52 * ulp_of k \<le> y" and "y < 2 ^ 53 * ulp_of k"
  shows "\<lfloor>log 2 y\<rfloor> = k"
proof -
  have "2 powr (of_int k) \<le> y \<and> y < 2 powr (of_int (k + 1))"
    using assms(2,3) by (simp only: ulp_of_lo ulp_of_hi)
  moreover have "(1::real) < 2" by simp
  ultimately show ?thesis
    using floor_log_eq_powr_iff [of y 2 k] assms(1) by blast
qed

lemma double_round_pos:
  assumes "0 < y"
  shows "double_round y = ulp_of \<lfloor>log 2 y\<rfloor> * of_int (rne (y / ulp_of \<lfloor>log 2 y\<rfloor>))"
proof -
  have y: "\<bar>y\<bar> = y" "sgn y = 1" using assms by simp_all
  show ?thesis
    unfolding double_round_def Let_def y ulp_of_def using assms by simp
qed

lemma double_round_binade:
  assumes "0 < y" and "2 ^ 52 * ulp_of k \<le> y" and "y < 2 ^ 53 * ulp_of k"
  shows "double_round y = ulp_of k * of_int (rne (y / ulp_of k))"
  using double_round_pos [OF assms(1)] binade_unique [OF assms] by simp

lemma ulp_scaled: "ulp_of (52 - int j) = 1 / 2 ^ j"
proof -
  have "real_of_int (52 - int j) - 52 = - real j" by simp
  then have "ulp_of (52 - int j) = 2 powr (- real j)" by (simp add: ulp_of_def)
  also have "\<dots> = 1 / 2 ^ j" by (simp add: powr_minus powr_realpow divide_inverse)
  finally show ?thesis .
qed

lemma double_round_scaled:
  assumes "0 < y" and "2 ^ 52 \<le> y * 2 ^ j" and "y * 2 ^ j < 2 ^ 53"
  shows "double_round y = of_int (rne (y * 2 ^ j)) / 2 ^ j"
proof -
  have lo: "2 ^ 52 * ulp_of (52 - int j) \<le> y"
    using assms(2) by (simp add: ulp_scaled field_simps)
  have hi: "y < 2 ^ 53 * ulp_of (52 - int j)"
    using assms(3) by (simp add: ulp_scaled field_simps)
  show ?thesis
    using double_round_binade [OF assms(1) lo hi] by (simp add: ulp_scaled)
qed

text \<open>
  The value of \<open>double_round\<close> at a positive number whose product with \<open>2^j\<close> lies
  in \<open>[2^52, 2^53)\<close>: off a tie, at a tie, and at a number that is a binary64 number.
\<close>

lemma double_round_near:
  assumes "0 < y" and "2 ^ 52 \<le> y * 2 ^ j" and "y * 2 ^ j < 2 ^ 53"
    and "\<bar>y * 2 ^ j - of_int n\<bar> < 1 / 2"
  shows "double_round y = of_int n / 2 ^ j"
  using double_round_scaled [OF assms(1,2,3)] rne_near [OF assms(4)] by simp

lemma double_round_tie:
  assumes "0 < y" and "2 ^ 52 \<le> y * 2 ^ j" and "y * 2 ^ j < 2 ^ 53"
    and "y * 2 ^ j = of_int n + 1 / 2"
  shows "double_round y = of_int (if even n then n else n + 1) / 2 ^ j"
  using double_round_scaled [OF assms(1,2,3)] rne_tie [OF assms(4)] by simp

lemma double_round_exact:
  assumes "0 < y" and "2 ^ 52 \<le> y * 2 ^ j" and "y * 2 ^ j < 2 ^ 53"
    and "y * 2 ^ j = of_int n"
  shows "double_round y = y"
proof -
  have "\<bar>y * 2 ^ j - of_int n\<bar> < 1 / 2" using assms(4) by simp
  then have "double_round y = of_int n / 2 ^ j"
    by (rule double_round_near [OF assms(1,2,3)])
  also have "\<dots> = y" using assms(4) [symmetric] by simp
  finally show ?thesis .
qed

lemma double_round_0: "double_round 0 = 0"
  by (simp add: double_round_def)

lemma double_round_1: "double_round 1 = 1"
  using double_round_near [of 1 52 "2 ^ 52"] by simp

lemma double_round_pos_bounds:
  assumes "0 < y"
  shows "2 ^ 52 * ulp_of \<lfloor>log 2 y\<rfloor> \<le> double_round y"
    and "double_round y \<le> 2 ^ 53 * ulp_of \<lfloor>log 2 y\<rfloor>"
proof -
  define k where "k = \<lfloor>log 2 y\<rfloor>"
  have u: "0 < ulp_of k" by (rule ulp_of_pos)
  have lo: "2 ^ 52 \<le> y / ulp_of k" and hi: "y / ulp_of k \<le> 2 ^ 53"
    using binade [OF assms] u by (simp_all add: k_def field_simps)
  have "of_int (2 ^ 52) \<le> y / ulp_of k" using lo by simp
  then have a: "2 ^ 52 \<le> rne (y / ulp_of k)" by (rule rne_ge)
  have "y / ulp_of k \<le> of_int (2 ^ 53)" using hi by simp
  then have b: "rne (y / ulp_of k) \<le> 2 ^ 53" by (rule rne_le)
  have a': "(2::real) ^ 52 \<le> of_int (rne (y / ulp_of k))"
    using a by (metis of_int_le_iff of_int_numeral of_int_power)
  have b': "of_int (rne (y / ulp_of k)) \<le> (2::real) ^ 53"
    using b by (metis of_int_le_iff of_int_numeral of_int_power)
  have dr: "double_round y = ulp_of k * of_int (rne (y / ulp_of k))"
    using double_round_pos [OF assms] by (simp add: k_def)
  show "2 ^ 52 * ulp_of \<lfloor>log 2 y\<rfloor> \<le> double_round y"
    using a' u by (simp add: dr k_def[symmetric] mult.commute)
  show "double_round y \<le> 2 ^ 53 * ulp_of \<lfloor>log 2 y\<rfloor>"
    using b' u by (simp add: dr k_def[symmetric] mult.commute)
qed

lemma double_round_pos_pos: "0 < y \<Longrightarrow> 0 < double_round y"
proof -
  assume a: "0 < y"
  have "0 < 2 ^ 52 * ulp_of \<lfloor>log 2 y\<rfloor>" using ulp_of_pos by simp
  then show ?thesis using double_round_pos_bounds(1) [OF a] by linarith
qed

lemma double_round_minus: "double_round (- y) = - double_round y"
  by (simp add: double_round_def Let_def sgn_minus)

text \<open>
  Rounding to binary64 has a relative error of at most \<open>2^(-53)\<close>, leaves a binary64
  number as it is, and is monotone.
\<close>

lemma double_round_error_pos:
  assumes "0 < y"
  shows "\<bar>double_round y - y\<bar> \<le> y / 2 ^ 53"
proof -
  define k where "k = \<lfloor>log 2 y\<rfloor>"
  define z where "z = y / ulp_of k"
  have u: "0 < ulp_of k" by (rule ulp_of_pos)
  have yz: "y = ulp_of k * z" using u by (simp add: z_def)
  have dr: "double_round y = ulp_of k * of_int (rne z)"
    using double_round_pos [OF assms] by (simp add: k_def z_def)
  have "double_round y - y = ulp_of k * of_int (rne z) - ulp_of k * z"
    using dr yz by linarith
  also have "\<dots> = ulp_of k * (of_int (rne z) - z)"
    by (simp add: algebra_simps)
  finally have "\<bar>double_round y - y\<bar> = ulp_of k * \<bar>of_int (rne z) - z\<bar>"
    using u by (simp add: abs_mult)
  also have "\<dots> \<le> ulp_of k * (1 / 2)"
    using rne_error [of z] u by (simp only: mult_le_cancel_left_pos)
  also have "\<dots> = (2 ^ 52 * ulp_of k) / 2 ^ 53" by simp
  also have "\<dots> \<le> y / 2 ^ 53"
    using binade(1) [OF assms] by (simp add: k_def divide_right_mono)
  finally show ?thesis .
qed

lemma double_round_error: "\<bar>double_round y - y\<bar> \<le> \<bar>y\<bar> / 2 ^ 53"
proof (cases "0 < y")
  case True
  then show ?thesis using double_round_error_pos [OF True] by simp
next
  case False
  show ?thesis
  proof (cases "y = 0")
    case True
    then show ?thesis by (simp add: double_round_0)
  next
    case False
    with \<open>\<not> 0 < y\<close> have n: "0 < - y" by simp
    have "\<bar>double_round y - y\<bar> = \<bar>double_round (- y) - (- y)\<bar>"
      by (simp add: double_round_minus)
    then show ?thesis using double_round_error_pos [OF n] n by simp
  qed
qed

lemma double_round_idem_pos:
  assumes "0 < y"
  shows "double_round (double_round y) = double_round y"
proof -
  define k where "k = \<lfloor>log 2 y\<rfloor>"
  define m where "m = rne (y / ulp_of k)"
  define r where "r = double_round y"
  have u: "0 < ulp_of k" by (rule ulp_of_pos)
  have dr: "r = ulp_of k * of_int m"
    using double_round_pos [OF assms] by (simp add: k_def m_def r_def)
  have rpos: "0 < r" using double_round_pos_pos [OF assms] by (simp add: r_def)
  have lo: "2 ^ 52 * ulp_of k \<le> r" and hi: "r \<le> 2 ^ 53 * ulp_of k"
    using double_round_pos_bounds [OF assms] by (simp_all add: k_def r_def)
  have "double_round r = r"
  proof (cases "r < 2 ^ 53 * ulp_of k")
    case True
    have "double_round r = ulp_of k * of_int (rne (r / ulp_of k))"
      by (rule double_round_binade [OF rpos lo True])
    also have "r / ulp_of k = of_int m" using u by (simp add: dr)
    finally show ?thesis by (simp add: rne_of_int dr)
  next
    case False
    with hi have req: "r = 2 ^ 53 * ulp_of k" by simp
    then have req': "r = 2 ^ 52 * ulp_of (k + 1)" by (simp add: ulp_of_Suc)
    have u': "0 < ulp_of (k + 1)" by (rule ulp_of_pos)
    have a: "2 ^ 52 * ulp_of (k + 1) \<le> r" using req' by simp
    have b: "r < 2 ^ 53 * ulp_of (k + 1)" using req' u' by simp
    have "double_round r = ulp_of (k + 1) * of_int (rne (r / ulp_of (k + 1)))"
      by (rule double_round_binade [OF rpos a b])
    also have "r / ulp_of (k + 1) = of_int (2 ^ 52)" using u' by (simp add: req')
    finally show ?thesis by (simp only: rne_of_int) (simp add: req')
  qed
  then show ?thesis by (simp add: r_def)
qed

lemma double_round_idem: "double_round (double_round y) = double_round y"
proof (cases "0 < y")
  case True
  then show ?thesis by (rule double_round_idem_pos)
next
  case False
  show ?thesis
  proof (cases "y = 0")
    case True
    then show ?thesis by (simp add: double_round_0)
  next
    case False
    with \<open>\<not> 0 < y\<close> have n: "0 < - y" by simp
    have "double_round (double_round (- y)) = double_round (- y)"
      by (rule double_round_idem_pos [OF n])
    then show ?thesis by (simp add: double_round_minus)
  qed
qed

lemma double_round_mono_pos:
  assumes "0 < y1" and "y1 \<le> y2"
  shows "double_round y1 \<le> double_round y2"
proof -
  define k1 where "k1 = \<lfloor>log 2 y1\<rfloor>"
  define k2 where "k2 = \<lfloor>log 2 y2\<rfloor>"
  have y2: "0 < y2" using assms by simp
  have "log 2 y1 \<le> log 2 y2" using assms by simp
  then have k: "k1 \<le> k2" unfolding k1_def k2_def by (rule floor_mono)
  show ?thesis
  proof (cases "k1 = k2")
    case True
    have u: "0 < ulp_of k2" by (rule ulp_of_pos)
    have "y1 / ulp_of k2 \<le> y2 / ulp_of k2" using assms(2) u by (simp add: divide_right_mono)
    then have "rne (y1 / ulp_of k2) \<le> rne (y2 / ulp_of k2)" by (rule rne_mono)
    then have "ulp_of k2 * of_int (rne (y1 / ulp_of k2)) \<le> ulp_of k2 * of_int (rne (y2 / ulp_of k2))"
      using u by simp
    then show ?thesis
      using double_round_pos [OF assms(1)] double_round_pos [OF y2] True
      by (simp add: k1_def k2_def)
  next
    case False
    with k have "k1 + 1 \<le> k2" by simp
    then have "ulp_of (k1 + 1) \<le> ulp_of k2" by (rule ulp_of_mono)
    then have "2 ^ 53 * ulp_of k1 \<le> 2 ^ 52 * ulp_of k2" by (simp add: ulp_of_Suc)
    moreover have "double_round y1 \<le> 2 ^ 53 * ulp_of k1"
      using double_round_pos_bounds(2) [OF assms(1)] by (simp add: k1_def)
    moreover have "2 ^ 52 * ulp_of k2 \<le> double_round y2"
      using double_round_pos_bounds(1) [OF y2] by (simp add: k2_def)
    ultimately show ?thesis by linarith
  qed
qed

lemma double_round_mono:
  assumes "y1 \<le> y2"
  shows "double_round y1 \<le> double_round y2"
proof (cases "0 < y1")
  case True
  then show ?thesis using assms by (rule double_round_mono_pos)
next
  case n1: False
  show ?thesis
  proof (cases "0 < y2")
    case True
    have "double_round y1 \<le> 0"
    proof (cases "y1 = 0")
      case True
      then show ?thesis by (simp add: double_round_0)
    next
      case False
      with n1 have "0 < - y1" by simp
      then have "0 < double_round (- y1)" by (rule double_round_pos_pos)
      then show ?thesis by (simp add: double_round_minus)
    qed
    moreover have "0 < double_round y2" using True by (rule double_round_pos_pos)
    ultimately show ?thesis by linarith
  next
    case n2: False
    show ?thesis
    proof (cases "y2 = 0")
      case True
      have "double_round y1 \<le> 0"
      proof (cases "y1 = 0")
        case True
        then show ?thesis by (simp add: double_round_0)
      next
        case False
        with n1 have "0 < - y1" by simp
        then have "0 < double_round (- y1)" by (rule double_round_pos_pos)
        then show ?thesis by (simp add: double_round_minus)
      qed
      then show ?thesis using True by (simp add: double_round_0)
    next
      case False
      with n2 have p2: "0 < - y2" by simp
      have "- y2 \<le> - y1" using assms by simp
      with p2 have "double_round (- y2) \<le> double_round (- y1)" by (rule double_round_mono_pos)
      then show ?thesis by (simp add: double_round_minus)
    qed
  qed
qed

lemma double_round_examples:
  "double_round (1 / 8) = 1 / 8"
  "double_round (1025 / 1024) = 1025 / 1024"
  "double_round (1025 / 256) = 1025 / 256"
  "double_round 2050 = 2050"
  "double_round 4096 = 4096"
  "double_round 4100 = 4100"
  "double_round 5000 = 5000"
  "double_round 10000 = 10000"
  "double_round 10240 = 10240"
  "double_round 10250 = 10250"
  "double_round 40000 = 40000"
  "double_round (1050625 / 256) = 1050625 / 256"
  "double_round (1509375 / 256) = 1509375 / 256"
proof -
  show "double_round (1 / 8) = 1 / 8"
    using double_round_exact [of "1 / 8" 55 "2 ^ 52"] by simp
  show "double_round (1025 / 1024) = 1025 / 1024"
    using double_round_exact [of "1025 / 1024" 52 "1025 * 2 ^ 42"] by simp
  show "double_round (1025 / 256) = 1025 / 256"
    using double_round_exact [of "1025 / 256" 50 "1025 * 2 ^ 42"] by simp
  show "double_round 2050 = 2050"
    using double_round_exact [of 2050 41 "2050 * 2 ^ 41"] by simp
  show "double_round 4096 = 4096"
    using double_round_exact [of 4096 40 "4096 * 2 ^ 40"] by simp
  show "double_round 4100 = 4100"
    using double_round_exact [of 4100 40 "4100 * 2 ^ 40"] by simp
  show "double_round 5000 = 5000"
    using double_round_exact [of 5000 40 "5000 * 2 ^ 40"] by simp
  show "double_round 10000 = 10000"
    using double_round_exact [of 10000 39 "10000 * 2 ^ 39"] by simp
  show "double_round 10240 = 10240"
    using double_round_exact [of 10240 39 "10240 * 2 ^ 39"] by simp
  show "double_round 10250 = 10250"
    using double_round_exact [of 10250 39 "10250 * 2 ^ 39"] by simp
  show "double_round 40000 = 40000"
    using double_round_exact [of 40000 37 "40000 * 2 ^ 37"] by simp
  show "double_round (1050625 / 256) = 1050625 / 256"
    using double_round_exact [of "1050625 / 256" 40 "1050625 * 2 ^ 32"] by simp
  show "double_round (1509375 / 256) = 1509375 / 256"
    using double_round_exact [of "1509375 / 256" 40 "1509375 * 2 ^ 32"] by simp
qed

subsection \<open>The ledger with rounding\<close>

text \<open>Without rounding, the operations are the exact ones.\<close>

lemma new_Trade_exact: "new_Trade_fl (\<lambda>y. y) = new_Trade"
  by (intro ext) (simp add: new_Trade_fl_def new_Trade_def)

lemma Position_update_position_exact:
  "Position_update_position_fl (\<lambda>y. y) = Position_update_position"
  by (intro ext) (simp add: Position_update_position_fl_def Position_update_position_def)

lemma update_balance_and_position_exact:
  "update_balance_and_position_fl (\<lambda>y. y) = update_balance_and_position"
  by (intro ext)
    (simp add: update_balance_and_position_fl_def update_balance_and_position_def
      Position_update_position_exact)

lemma execute_order_exact: "execute_order_fl (\<lambda>y. y) = execute_order"
  by (intro ext)
    (simp add: execute_order_fl_def execute_order_def update_balance_and_position_exact
      new_Trade_exact)

lemma get_total_value_exact: "get_total_value_fl (\<lambda>y. y) = get_total_value"
  by (intro ext)
    (simp add: get_total_value_fl_def get_total_value_def get_position_value_fl_def
      get_position_value_def)

lemma risk_check_exact: "risk_check_fl (\<lambda>y. y) = risk_check"
  by (intro ext) (unfold risk_check_fl_def risk_check_def get_total_value_exact, rule refl)

lemma place_order_exact: "place_order_fl (\<lambda>y. y) = place_order"
  by (intro ext)
    (unfold place_order_fl_def place_order_def risk_check_exact execute_order_exact, rule refl)

lemma ubp_fl_sel:
  "available_balance (update_balance_and_position_fl rnd ex t) =
     (if t_side t = BUY then rnd (available_balance ex - rnd (t_total t + t_commission t))
      else rnd (available_balance ex + rnd (t_total t - t_commission t)))"
  "positions (update_balance_and_position_fl rnd ex t) =
     dict_set (t_symbol t)
       (Position_update_position_fl rnd (position_of ex (t_symbol t)) t) (positions ex)"
  "orders (update_balance_and_position_fl rnd ex t) = orders ex"
  "commission_rate (update_balance_and_position_fl rnd ex t) = commission_rate ex"
  "slippage (update_balance_and_position_fl rnd ex t) = slippage ex"
  "next_uuid (update_balance_and_position_fl rnd ex t) = next_uuid ex"
  by (simp_all add: update_balance_and_position_fl_def position_of_def Let_def)

lemma fill_trade_fl_sel:
  "t_side (fill_trade_fl rnd ex order p0) = o_side order"
  "t_symbol (fill_trade_fl rnd ex order p0) = o_symbol order"
  "t_quantity (fill_trade_fl rnd ex order p0) = o_quantity order"
  "t_price (fill_trade_fl rnd ex order p0) = fill_price_fl rnd ex order p0"
  "t_total (fill_trade_fl rnd ex order p0) = rnd (o_quantity order * fill_price_fl rnd ex order p0)"
  "t_commission (fill_trade_fl rnd ex order p0) =
     rnd (rnd (o_quantity order * fill_price_fl rnd ex order p0) * commission_rate ex)"
  by (simp_all add: fill_trade_fl_def new_Trade_fl_def)

lemma exec_fl_sel:
  "available_balance (execute_order_fl rnd ex order p0) =
     (if o_side order = BUY
      then rnd (available_balance ex -
             rnd (t_total (fill_trade_fl rnd ex order p0) +
                  t_commission (fill_trade_fl rnd ex order p0)))
      else rnd (available_balance ex +
             rnd (t_total (fill_trade_fl rnd ex order p0) -
                  t_commission (fill_trade_fl rnd ex order p0))))"
  "positions (execute_order_fl rnd ex order p0) =
     dict_set (o_symbol order)
       (Position_update_position_fl rnd (position_of ex (o_symbol order))
          (fill_trade_fl rnd ex order p0))
       (positions ex)"
  "orders (execute_order_fl rnd ex order p0) = store_order (filled_fl rnd ex order p0) (orders ex)"
  "commission_rate (execute_order_fl rnd ex order p0) = commission_rate ex"
  "slippage (execute_order_fl rnd ex order p0) = slippage ex"
  "next_uuid (execute_order_fl rnd ex order p0) = next_uuid ex + 1"
  by (simp_all add: execute_order_fl_def ubp_fl_sel fill_trade_fl_def fill_price_fl_def
        new_Trade_fl_def position_of_def filled_fl_def Let_def)

lemma filled_fl_sel:
  "o_id (filled_fl rnd ex order p0) = o_id order"
  "o_status (filled_fl rnd ex order p0) = FILLED"
  by (simp_all add: filled_fl_def)

subsection \<open>Round trip without slippage and commission\<close>

text \<open>
  The balance and the realized profit and loss after a BUY fill and a SELL fill of the
  same quantity at the same price, for a rounding function that leaves 0, 1 and its own
  values as they are, and for a quantity and a price that it leaves as they are.
\<close>

lemma round_trip_fl:
  assumes "slippage ex = 0" and "commission_rate ex = 0"
    and "dict_get (positions ex) symbol = None"
    and "o_symbol b = symbol" and "o_side b = BUY" and "o_quantity b = q"
    and "o_symbol s = symbol" and "o_side s = SELL" and "o_quantity s = q"
    and r0: "rnd 0 = 0" and r1: "rnd 1 = 1" and idem: "\<forall>y. rnd (rnd y) = rnd y"
    and rp: "rnd p = p" and rq: "rnd q = q"
  shows "available_balance (execute_order_fl rnd (execute_order_fl rnd ex b p) s p) =
           rnd (rnd (available_balance ex - rnd (q * p)) + rnd (q * p))"
    and "map_option p_realized_pnl
           (dict_get (positions (execute_order_fl rnd (execute_order_fl rnd ex b p) s p)) symbol) =
         Some (if 0 < q then rnd (rnd (q * p) - rnd (q * rnd (rnd (q * p) / q))) else 0)"
proof -
  define ex1 where "ex1 = execute_order_fl rnd ex b p"
  define p1 where
    "p1 = Position_update_position_fl rnd (new_Position symbol) (fill_trade_fl rnd ex b p)"
  define x where "x = rnd (q * p)"
  define r where "r = (if 0 < q then rnd (x - rnd (q * rnd (x / q))) else 0)"
  have rx: "rnd x = x" using idem by (simp add: x_def)
  have fp: "fill_price_fl rnd ex b p = p" "fill_price_fl rnd ex1 s p = p"
    using assms(1,5,8) r1 rp by (simp_all add: fill_price_fl_def exec_fl_sel ex1_def)
  have tb: "t_total (fill_trade_fl rnd ex b p) = x" "t_commission (fill_trade_fl rnd ex b p) = 0"
    using assms(2,6) r0 by (simp_all add: fill_trade_fl_sel fp x_def)
  have c1: "commission_rate ex1 = 0"
    using assms(2) by (simp add: ex1_def exec_fl_sel)
  have ts: "t_total (fill_trade_fl rnd ex1 s p) = x" "t_commission (fill_trade_fl rnd ex1 s p) = 0"
    using assms(9) c1 r0 by (simp_all add: fill_trade_fl_sel fp x_def)
  have bal1: "available_balance ex1 = rnd (available_balance ex - x)"
    using assms(5) by (simp add: ex1_def exec_fl_sel tb rx)
  have "available_balance (execute_order_fl rnd ex1 s p) = rnd (rnd (available_balance ex - x) + x)"
    using assms(8) by (simp add: exec_fl_sel ts rx bal1)
  then show "available_balance (execute_order_fl rnd (execute_order_fl rnd ex b p) s p) =
           rnd (rnd (available_balance ex - rnd (q * p)) + rnd (q * p))"
    unfolding ex1_def x_def .
  have pos1: "position_of ex1 symbol = p1"
    using assms(3,4) by (simp add: position_of_def exec_fl_sel map_of_dict_set ex1_def p1_def)
  have r1': "p_realized_pnl p1 = 0"
    using assms(5)
    by (simp add: p1_def Position_update_position_fl_def fill_trade_fl_sel new_Position_def Let_def)
  have q1: "p_quantity p1 = q"
    using assms(5,6) rq
    by (simp add: p1_def Position_update_position_fl_def fill_trade_fl_sel new_Position_def Let_def)
  have a1: "0 < q \<Longrightarrow> p_avg_price p1 = rnd (x / q)"
    using assms(5,6) rq rx tb(1)
    by (simp add: p1_def Position_update_position_fl_def fill_trade_fl_sel(1,3) new_Position_def
          Let_def)
  have real: "p_realized_pnl (Position_update_position_fl rnd p1 (fill_trade_fl rnd ex1 s p)) = r"
  proof (cases "0 < q")
    case True
    then show ?thesis using assms(8,9) r1' q1 a1 ts(1) idem r0
      by (simp add: Position_update_position_fl_def fill_trade_fl_sel(1,3) Let_def r_def)
  next
    case False
    then show ?thesis using assms(8) r1' q1
      by (simp add: Position_update_position_fl_def fill_trade_fl_sel(1,3) Let_def r_def)
  qed
  have "map_option p_realized_pnl (dict_get (positions (execute_order_fl rnd ex1 s p)) symbol) =
        Some r"
    using assms(7) pos1 real by (simp add: exec_fl_sel map_of_dict_set)
  then show "map_option p_realized_pnl
           (dict_get (positions (execute_order_fl rnd (execute_order_fl rnd ex b p) s p)) symbol) =
         Some (if 0 < q then rnd (rnd (q * p) - rnd (q * rnd (rnd (q * p) / q))) else 0)"
    unfolding ex1_def r_def x_def .
qed

text \<open>How far rounding with a relative error of at most \<open>eps\<close> takes the two results.\<close>

lemma round_trip_balance_bound:
  fixes rnd :: "real \<Rightarrow> real"
  assumes err: "\<forall>y. \<bar>rnd y - y\<bar> \<le> eps * \<bar>y\<bar>" and eps: "0 \<le> eps"
  shows "\<bar>rnd (rnd (b0 - x) + x) - b0\<bar> \<le> eps * (\<bar>b0\<bar> + (1 + eps) * \<bar>b0 - x\<bar>)"
proof -
  define b1 where "b1 = rnd (b0 - x)"
  define b2 where "b2 = rnd (b1 + x)"
  have e1: "\<bar>b1 - (b0 - x)\<bar> \<le> eps * \<bar>b0 - x\<bar>"
    unfolding b1_def using err by blast
  have e2: "\<bar>b2 - (b1 + x)\<bar> \<le> eps * \<bar>b1 + x\<bar>"
    unfolding b2_def using err by blast
  have "\<bar>b1 + x\<bar> \<le> \<bar>b0\<bar> + \<bar>b1 - (b0 - x)\<bar>"
    using abs_triangle_ineq [of b0 "b1 - (b0 - x)"] by simp
  with e1 have "\<bar>b1 + x\<bar> \<le> \<bar>b0\<bar> + eps * \<bar>b0 - x\<bar>" by linarith
  then have "eps * \<bar>b1 + x\<bar> \<le> eps * (\<bar>b0\<bar> + eps * \<bar>b0 - x\<bar>)"
    using eps by (rule mult_left_mono)
  with e2 have e3: "\<bar>b2 - (b1 + x)\<bar> \<le> eps * (\<bar>b0\<bar> + eps * \<bar>b0 - x\<bar>)" by linarith
  have "\<bar>b2 - b0\<bar> \<le> \<bar>b2 - (b1 + x)\<bar> + \<bar>b1 - (b0 - x)\<bar>"
    using abs_triangle_ineq [of "b2 - (b1 + x)" "b1 - (b0 - x)"] by simp
  with e1 e3 have "\<bar>b2 - b0\<bar> \<le> eps * (\<bar>b0\<bar> + eps * \<bar>b0 - x\<bar>) + eps * \<bar>b0 - x\<bar>"
    by linarith
  also have "\<dots> = eps * (\<bar>b0\<bar> + (1 + eps) * \<bar>b0 - x\<bar>)" by (simp add: algebra_simps)
  finally show ?thesis by (simp add: b2_def b1_def)
qed

lemma round_trip_pnl_bound:
  fixes rnd :: "real \<Rightarrow> real"
  assumes err: "\<forall>y. \<bar>rnd y - y\<bar> \<le> eps * \<bar>y\<bar>" and eps: "0 \<le> eps" and q: "0 < q"
  shows "\<bar>rnd (x - rnd (q * rnd (x / q)))\<bar> \<le> eps * (1 + eps) * (2 + eps) * \<bar>x\<bar>"
proof -
  define a where "a = rnd (x / q)"
  define sc where "sc = rnd (q * a)"
  define r where "r = rnd (x - sc)"
  have "\<bar>a - x / q\<bar> \<le> eps * \<bar>x / q\<bar>"
    unfolding a_def using err by blast
  then have "q * \<bar>a - x / q\<bar> \<le> q * (eps * \<bar>x / q\<bar>)"
    using q by (intro mult_left_mono) simp_all
  moreover have "q * \<bar>a - x / q\<bar> = \<bar>q * a - x\<bar>"
  proof -
    have "q * \<bar>a - x / q\<bar> = \<bar>q\<bar> * \<bar>a - x / q\<bar>" using q by simp
    also have "\<dots> = \<bar>q * (a - x / q)\<bar>" by (simp only: abs_mult)
    also have "q * (a - x / q) = q * a - x" using q by (simp add: algebra_simps)
    finally show ?thesis .
  qed
  moreover have "q * (eps * \<bar>x / q\<bar>) = eps * \<bar>x\<bar>"
    using q by (simp add: abs_divide)
  ultimately have e1: "\<bar>q * a - x\<bar> \<le> eps * \<bar>x\<bar>" by simp
  have e2: "\<bar>sc - q * a\<bar> \<le> eps * \<bar>q * a\<bar>"
    unfolding sc_def using err by blast
  have "\<bar>q * a\<bar> \<le> \<bar>x\<bar> + \<bar>q * a - x\<bar>"
    using abs_triangle_ineq [of x "q * a - x"] by simp
  with e1 have "\<bar>q * a\<bar> \<le> \<bar>x\<bar> + eps * \<bar>x\<bar>" by linarith
  then have "eps * \<bar>q * a\<bar> \<le> eps * (\<bar>x\<bar> + eps * \<bar>x\<bar>)"
    using eps by (rule mult_left_mono)
  with e2 have e3: "\<bar>sc - q * a\<bar> \<le> eps * (\<bar>x\<bar> + eps * \<bar>x\<bar>)" by linarith
  have "\<bar>x - sc\<bar> \<le> \<bar>q * a - x\<bar> + \<bar>sc - q * a\<bar>"
    using abs_triangle_ineq [of "x - q * a" "q * a - sc"]
    by (simp add: abs_minus_commute)
  with e1 e3 have "\<bar>x - sc\<bar> \<le> eps * \<bar>x\<bar> + eps * (\<bar>x\<bar> + eps * \<bar>x\<bar>)" by linarith
  also have "\<dots> = eps * (2 + eps) * \<bar>x\<bar>" by (simp add: algebra_simps)
  finally have e4: "\<bar>x - sc\<bar> \<le> eps * (2 + eps) * \<bar>x\<bar>" .
  have "\<bar>r - (x - sc)\<bar> \<le> eps * \<bar>x - sc\<bar>"
    unfolding r_def using err by blast
  moreover have "\<bar>r\<bar> \<le> \<bar>x - sc\<bar> + \<bar>r - (x - sc)\<bar>"
    using abs_triangle_ineq [of "x - sc" "r - (x - sc)"] by simp
  ultimately have "\<bar>r\<bar> \<le> (1 + eps) * \<bar>x - sc\<bar>" by (simp add: algebra_simps)
  also have "\<dots> \<le> (1 + eps) * (eps * (2 + eps) * \<bar>x\<bar>)"
    using e4 eps by (simp add: mult_left_mono)
  also have "\<dots> = eps * (1 + eps) * (2 + eps) * \<bar>x\<bar>" by (simp add: algebra_simps)
  finally show ?thesis by (simp add: r_def sc_def a_def)
qed

text \<open>
  Claim C4, as amended. Slippage rate 0, commission rate 0, a state that holds no position
  in the symbol, a BUY fill of quantity \<open>q\<close> at price \<open>p\<close> followed by a SELL fill of
  the same quantity at the same price, both calls of \<open>_execute_order\<close>. The arithmetic
  rounds with \<open>rnd\<close>, which leaves 0, 1, its own values, \<open>q\<close> and \<open>p\<close> as they are and
  has a relative error of at most \<open>eps\<close>: \<open>double_round\<close> with \<open>eps\<close> \<open>2^(-53)\<close> for
  the program, the identity with \<open>eps\<close> 0 for exact arithmetic. With \<open>x\<close> the rounded
  product of \<open>q\<close> and \<open>p\<close>, the available balance after the pair is the rounded sum of
  \<open>x\<close> and the rounded difference of the balance before and \<open>x\<close>. It differs from the
  balance before by at most \<open>eps * (|b| + (1 + eps) * |b - x|)\<close>, and it is the balance
  before when the difference is computed without rounding. The realized profit and loss
  of the position is the rounded difference of \<open>x\<close> and the rounded product of \<open>q\<close> and
  the rounded quotient of \<open>x\<close> and \<open>q\<close> when \<open>q\<close> is positive, and 0 otherwise; its
  magnitude is at most \<open>eps * (1 + eps) * (2 + eps) * |x|\<close>, and it is 0 when that
  product rounds to \<open>x\<close>. With \<open>eps\<close> 0 both bounds are 0: exact arithmetic leaves the
  balance as it was and realizes 0.
\<close>

theorem round_trip:
  assumes "slippage ex = 0" and "commission_rate ex = 0"
    and "dict_get (positions ex) symbol = None"
    and "o_symbol b = symbol" and "o_side b = BUY" and "o_quantity b = q"
    and "o_symbol s = symbol" and "o_side s = SELL" and "o_quantity s = q"
    and r0: "rnd 0 = 0" and r1: "rnd 1 = 1" and idem: "\<forall>y. rnd (rnd y) = rnd y"
    and err: "\<forall>y. \<bar>rnd y - y\<bar> \<le> eps * \<bar>y\<bar>"
    and rp: "rnd p = p" and rq: "rnd q = q"
    and x: "x = rnd (q * p)"
    and after: "after = execute_order_fl rnd (execute_order_fl rnd ex b p) s p"
  shows "available_balance after = rnd (rnd (available_balance ex - x) + x) \<and>
         \<bar>available_balance after - available_balance ex\<bar> \<le>
           eps * (\<bar>available_balance ex\<bar> + (1 + eps) * \<bar>available_balance ex - x\<bar>) \<and>
         (rnd (available_balance ex - x) = available_balance ex - x \<and>
          rnd (available_balance ex) = available_balance ex
            \<longrightarrow> available_balance after = available_balance ex) \<and>
         (\<exists>r. map_option p_realized_pnl (dict_get (positions after) symbol) = Some r \<and>
              r = (if 0 < q then rnd (x - rnd (q * rnd (x / q))) else 0) \<and>
              \<bar>r\<bar> \<le> eps * (1 + eps) * (2 + eps) * \<bar>x\<bar> \<and>
              (rnd (q * rnd (x / q)) = x \<longrightarrow> r = 0))"
proof -
  define r where "r = (if 0 < q then rnd (x - rnd (q * rnd (x / q))) else 0)"
  have eps: "0 \<le> eps" using err [rule_format, of 1] r1 by simp
  have bal: "available_balance after = rnd (rnd (available_balance ex - x) + x)"
    unfolding after x
    by (rule round_trip_fl(1) [OF assms(1-9) r0 r1 idem rp rq])
  have bound: "\<bar>available_balance after - available_balance ex\<bar> \<le>
           eps * (\<bar>available_balance ex\<bar> + (1 + eps) * \<bar>available_balance ex - x\<bar>)"
    unfolding bal by (rule round_trip_balance_bound [OF err eps])
  have exact: "rnd (available_balance ex - x) = available_balance ex - x \<and>
          rnd (available_balance ex) = available_balance ex
            \<longrightarrow> available_balance after = available_balance ex"
    by (simp add: bal)
  have pnl: "map_option p_realized_pnl (dict_get (positions after) symbol) = Some r"
    unfolding after x r_def
    by (rule round_trip_fl(2) [OF assms(1-9) r0 r1 idem rp rq])
  have rb: "\<bar>r\<bar> \<le> eps * (1 + eps) * (2 + eps) * \<bar>x\<bar>"
  proof (cases "0 < q")
    case True
    then show ?thesis using round_trip_pnl_bound [OF err eps True, of x] by (simp add: r_def)
  next
    case False
    then show ?thesis using eps by (simp add: r_def)
  qed
  have rz: "rnd (q * rnd (x / q)) = x \<longrightarrow> r = 0"
    using r0 by (simp add: r_def)
  show ?thesis
    using bal bound exact pnl rb rz r_def by blast
qed

text \<open>
  The theorem at \<open>double_round\<close>: a BUY of 1/8 at 40000 and a SELL of 1/8 at 40000 on an
  executor with balance 10000. Every operation is exact here.
\<close>

theorem round_trip_witness:
  "slippage (new_TradeExecutor 10000 0.5 0 0) = 0 \<and>
   commission_rate (new_TradeExecutor 10000 0.5 0 0) = 0 \<and>
   dict_get (positions (new_TradeExecutor 10000 0.5 0 0)) ''BTCUSDT'' = None \<and>
   double_round (1 / 8) = 1 / 8 \<and> double_round 40000 = 40000 \<and>
   available_balance
     (execute_order_fl double_round
        (execute_order_fl double_round (new_TradeExecutor 10000 0.5 0 0)
           (new_Order 0 ''BTCUSDT'' BUY MARKET (1 / 8) 40000 None) 40000)
        (new_Order 1 ''BTCUSDT'' SELL MARKET (1 / 8) 40000 None) 40000) = 10000 \<and>
   map_option p_realized_pnl
     (dict_get
        (positions
           (execute_order_fl double_round
              (execute_order_fl double_round (new_TradeExecutor 10000 0.5 0 0)
                 (new_Order 0 ''BTCUSDT'' BUY MARKET (1 / 8) 40000 None) 40000)
              (new_Order 1 ''BTCUSDT'' SELL MARKET (1 / 8) 40000 None) 40000))
        ''BTCUSDT'') = Some 0"
proof -
  have err: "\<forall>y. \<bar>double_round y - y\<bar> \<le> (1 / 2 ^ 53) * \<bar>y\<bar>"
    using double_round_error by simp
  have idem: "\<forall>y. double_round (double_round y) = double_round y"
    using double_round_idem by simp
  have x: "double_round (1 / 8 * 40000) = 5000"
    by (simp add: double_round_examples)
  note rt = round_trip [where rnd = double_round and eps = "1 / 2 ^ 53"
      and ex = "new_TradeExecutor 10000 0.5 0 0" and symbol = "''BTCUSDT''"
      and b = "new_Order 0 ''BTCUSDT'' BUY MARKET (1 / 8) 40000 None"
      and s = "new_Order 1 ''BTCUSDT'' SELL MARKET (1 / 8) 40000 None"
      and q = "1 / 8" and p = 40000 and x = 5000, OF _ _ _ _ _ _ _ _ _ double_round_0
      double_round_1 idem err double_round_examples(11) double_round_examples(1) x [symmetric] refl]
  have st: "slippage (new_TradeExecutor 10000 0.5 0 0) = 0"
    "commission_rate (new_TradeExecutor 10000 0.5 0 0) = 0"
    "dict_get (positions (new_TradeExecutor 10000 0.5 0 0)) ''BTCUSDT'' = None"
    "available_balance (new_TradeExecutor 10000 0.5 0 0) = 10000"
    by (simp_all add: new_TradeExecutor_def)
  have od: "o_symbol (new_Order 0 ''BTCUSDT'' BUY MARKET (1 / 8) 40000 None) = ''BTCUSDT''"
    "o_side (new_Order 0 ''BTCUSDT'' BUY MARKET (1 / 8) 40000 None) = BUY"
    "o_quantity (new_Order 0 ''BTCUSDT'' BUY MARKET (1 / 8) 40000 None) = 1 / 8"
    "o_symbol (new_Order 1 ''BTCUSDT'' SELL MARKET (1 / 8) 40000 None) = ''BTCUSDT''"
    "o_side (new_Order 1 ''BTCUSDT'' SELL MARKET (1 / 8) 40000 None) = SELL"
    "o_quantity (new_Order 1 ''BTCUSDT'' SELL MARKET (1 / 8) 40000 None) = 1 / 8"
    by (simp_all add: new_Order_def)
  note rt' = rt [OF st(1,2,3) od]
  have bal: "available_balance
     (execute_order_fl double_round
        (execute_order_fl double_round (new_TradeExecutor 10000 0.5 0 0)
           (new_Order 0 ''BTCUSDT'' BUY MARKET (1 / 8) 40000 None) 40000)
        (new_Order 1 ''BTCUSDT'' SELL MARKET (1 / 8) 40000 None) 40000) = 10000"
    using rt' by (simp add: new_TradeExecutor_def double_round_examples)
  have pnl: "map_option p_realized_pnl
     (dict_get
        (positions
           (execute_order_fl double_round
              (execute_order_fl double_round (new_TradeExecutor 10000 0.5 0 0)
                 (new_Order 0 ''BTCUSDT'' BUY MARKET (1 / 8) 40000 None) 40000)
              (new_Order 1 ''BTCUSDT'' SELL MARKET (1 / 8) 40000 None) 40000))
        ''BTCUSDT'') = Some 0"
    using rt' by (auto simp add: double_round_examples double_round_0)
  show ?thesis
    by (intro conjI) (fact st bal pnl double_round_examples)+
qed

text \<open>The roundings of the two round trips in binary64, one operation after the other.\<close>

lemma drift_values:
  "double_round 16140.42 = 8873289733594153 / 2 ^ 39"
  "double_round 0.0235 = 6773413839565226 / 2 ^ 58"
  "double_round 49410.1 = 6790872434946867 / 2 ^ 37"
  "double_round (6773413839565226 / 2 ^ 58 * (6790872434946867 / 2 ^ 37)) =
     5106736071080044 / 2 ^ 42"
  "double_round (8873289733594153 / 2 ^ 39 - 5106736071080044 / 2 ^ 42) =
     8234947724709148 / 2 ^ 39"
  "double_round (8234947724709148 / 2 ^ 39 + 5106736071080044 / 2 ^ 42) =
     8873289733594154 / 2 ^ 39"
proof -
  show "double_round 16140.42 = 8873289733594153 / 2 ^ 39"
    using double_round_near [of "16140.42" 39 8873289733594153] by simp
  show "double_round 0.0235 = 6773413839565226 / 2 ^ 58"
    using double_round_near [of "0.0235" 58 6773413839565226] by simp
  show "double_round 49410.1 = 6790872434946867 / 2 ^ 37"
    using double_round_near [of "49410.1" 37 6790872434946867] by simp
  show "double_round (6773413839565226 / 2 ^ 58 * (6790872434946867 / 2 ^ 37)) =
     5106736071080044 / 2 ^ 42"
    using double_round_near [of "6773413839565226 / 2 ^ 58 * (6790872434946867 / 2 ^ 37)" 42
        5106736071080044]
    by simp
  show "double_round (8873289733594153 / 2 ^ 39 - 5106736071080044 / 2 ^ 42) =
     8234947724709148 / 2 ^ 39"
    using double_round_tie [of "8873289733594153 / 2 ^ 39 - 5106736071080044 / 2 ^ 42" 39
        8234947724709147]
    by simp
  show "double_round (8234947724709148 / 2 ^ 39 + 5106736071080044 / 2 ^ 42) =
     8873289733594154 / 2 ^ 39"
    using double_round_tie [of "8234947724709148 / 2 ^ 39 + 5106736071080044 / 2 ^ 42" 39
        8873289733594153]
    by simp
qed

lemma residue_values:
  "double_round 0.0027 = 6225776124876974 / 2 ^ 61"
  "double_round 47407.40740740741 = 6515624460894815 / 2 ^ 37"
  "double_round (6225776124876974 / 2 ^ 61 * (6515624460894815 / 2 ^ 37)) =
     4503599627370496 / 2 ^ 45"
  "double_round (4503599627370496 / 2 ^ 45 / (6225776124876974 / 2 ^ 61)) =
     6515624460894814 / 2 ^ 37"
  "double_round (6225776124876974 / 2 ^ 61 * (6515624460894814 / 2 ^ 37)) =
     9007199254740991 / 2 ^ 46"
  "double_round (4503599627370496 / 2 ^ 45 - 9007199254740991 / 2 ^ 46) =
     4503599627370496 / 2 ^ 98"
proof -
  show "double_round 0.0027 = 6225776124876974 / 2 ^ 61"
    using double_round_near [of "0.0027" 61 6225776124876974] by simp
  show "double_round 47407.40740740741 = 6515624460894815 / 2 ^ 37"
    using double_round_near [of "47407.40740740741" 37 6515624460894815] by simp
  show "double_round (6225776124876974 / 2 ^ 61 * (6515624460894815 / 2 ^ 37)) =
     4503599627370496 / 2 ^ 45"
    using double_round_near [of "6225776124876974 / 2 ^ 61 * (6515624460894815 / 2 ^ 37)" 45
        4503599627370496]
    by simp
  show "double_round (4503599627370496 / 2 ^ 45 / (6225776124876974 / 2 ^ 61)) =
     6515624460894814 / 2 ^ 37"
    using double_round_near [of "4503599627370496 / 2 ^ 45 / (6225776124876974 / 2 ^ 61)" 37
        6515624460894814]
    by simp
  show "double_round (6225776124876974 / 2 ^ 61 * (6515624460894814 / 2 ^ 37)) =
     9007199254740991 / 2 ^ 46"
    using double_round_near [of "6225776124876974 / 2 ^ 61 * (6515624460894814 / 2 ^ 37)" 46
        9007199254740991]
    by simp
  show "double_round (4503599627370496 / 2 ^ 45 - 9007199254740991 / 2 ^ 46) =
     4503599627370496 / 2 ^ 98"
    using double_round_near [of "4503599627370496 / 2 ^ 45 - 9007199254740991 / 2 ^ 46" 98
        4503599627370496]
    by simp
qed

lemma drift_end_balance: "available_balance drift_end = 8873289733594154 / 2 ^ 39"
proof -
  have "available_balance drift_end =
      double_round (double_round (available_balance drift_start -
          double_round (double_round 0.0235 * double_round 49410.1)) +
        double_round (double_round 0.0235 * double_round 49410.1))"
    unfolding drift_end_def
    by (rule round_trip_fl(1) [where symbol = "''BTCUSDT''"])
       (simp_all add: drift_start_def drift_buy_def drift_sell_def new_TradeExecutor_def
          new_Order_def double_round_0 double_round_1 double_round_idem)
  also have "available_balance drift_start = double_round 16140.42"
    by (simp add: drift_start_def new_TradeExecutor_def)
  finally show ?thesis by (simp only: drift_values)
qed

lemma residue_end_pnl:
  "map_option p_realized_pnl (dict_get (positions residue_end) ''BTCUSDT'') = Some (1 / 2 ^ 46)"
proof -
  have q: "0 < double_round 0.0027" by (rule double_round_pos_pos) simp
  have "map_option p_realized_pnl (dict_get (positions residue_end) ''BTCUSDT'') =
      Some (if 0 < double_round 0.0027
            then double_round (double_round (double_round 0.0027 * double_round 47407.40740740741) -
                   double_round (double_round 0.0027 *
                     double_round (double_round (double_round 0.0027 * double_round 47407.40740740741) /
                       double_round 0.0027)))
            else 0)"
    unfolding residue_end_def
    by (rule round_trip_fl(2) [where symbol = "''BTCUSDT''"])
       (simp_all add: residue_start_def residue_buy_def residue_sell_def new_TradeExecutor_def
          new_Order_def double_round_0 double_round_1 double_round_idem)
  also have "\<dots> = Some (double_round (double_round (double_round 0.0027 * double_round 47407.40740740741) -
                   double_round (double_round 0.0027 *
                     double_round (double_round (double_round 0.0027 * double_round 47407.40740740741) /
                       double_round 0.0027))))"
    using q by simp
  also have "\<dots> = Some (4503599627370496 / 2 ^ 98)"
    by (simp only: residue_values)
  finally show ?thesis by simp
qed

text \<open>
  The claim as stated has the balance unchanged and a realized profit and loss of 0 for
  every quantity and price. In binary64, the first round trip ends with a balance that
  is one unit in the last place above the balance before: subtracting and adding the
  trade value both hit a tie. The second round trip realizes \<open>2^(-46)\<close>: the trade
  value rounds to 128, the average price to a number below the price, and their product
  to the number below 128.
\<close>

theorem round_trip_float_drift:
  "slippage drift_start = 0 \<and> commission_rate drift_start = 0 \<and>
   dict_get (positions drift_start) ''BTCUSDT'' = None \<and>
   available_balance drift_start = 8873289733594153 / 2 ^ 39 \<and>
   available_balance drift_end = 8873289733594154 / 2 ^ 39 \<and>
   available_balance drift_end \<noteq> available_balance drift_start \<and>
   slippage residue_start = 0 \<and> commission_rate residue_start = 0 \<and>
   dict_get (positions residue_start) ''BTCUSDT'' = None \<and>
   map_option p_realized_pnl (dict_get (positions residue_end) ''BTCUSDT'') = Some (1 / 2 ^ 46) \<and>
   map_option p_realized_pnl (dict_get (positions residue_end) ''BTCUSDT'') \<noteq> Some 0"
proof -
  have "available_balance drift_start = double_round 16140.42"
    by (simp add: drift_start_def new_TradeExecutor_def)
  then have s: "available_balance drift_start = 8873289733594153 / 2 ^ 39"
    by (simp only: drift_values)
  have ne: "available_balance drift_end \<noteq> available_balance drift_start"
    by (simp add: s drift_end_balance)
  have pne: "map_option p_realized_pnl (dict_get (positions residue_end) ''BTCUSDT'') \<noteq> Some 0"
    by (simp add: residue_end_pnl)
  have d: "slippage drift_start = 0" "commission_rate drift_start = 0"
    "dict_get (positions drift_start) ''BTCUSDT'' = None"
    by (simp_all add: drift_start_def new_TradeExecutor_def)
  have e: "slippage residue_start = 0" "commission_rate residue_start = 0"
    "dict_get (positions residue_start) ''BTCUSDT'' = None"
    by (simp_all add: residue_start_def new_TradeExecutor_def)
  show ?thesis
    by (intro conjI) (fact d e s ne pne drift_end_balance residue_end_pnl)+
qed

subsection \<open>The scenario\<close>

lemmas risk_ev = risk_check_def get_total_value_def get_position_value_def MIN_TRADE_AMOUNT_def
  MAX_POSITION_SIZE_def Let_def

lemma scenario_priced_eq:
  "scenario_priced = scenario_start\<lparr>current_prices := [''BTCUSDT'' \<mapsto> 50000]\<rparr>"
  by (simp add: scenario_priced_def scenario_start_def update_price_quiet pending_for_def
        new_TradeExecutor_def)

lemma scenario_bought_eq:
  "place_order scenario_priced ''BTCUSDT'' BUY MARKET 0.1 None None = (Inr 0, scenario_bought)"
  "scenario_bought =
     execute_order
       (scenario_priced\<lparr>orders := [new_Order 0 ''BTCUSDT'' BUY MARKET 0.1 50000 None],
                        next_uuid := 1\<rparr>)
       (new_Order 0 ''BTCUSDT'' BUY MARKET 0.1 50000 None) 50000"
proof -
  have rc: "risk_check scenario_priced ''BTCUSDT'' BUY 0.1 50000 = Inr ()"
    by (simp add: scenario_priced_eq scenario_start_def new_TradeExecutor_def risk_ev)
  have cp: "current_prices scenario_priced ''BTCUSDT'' = Some 50000"
    by (simp add: scenario_priced_eq)
  have nu: "next_uuid scenario_priced = 0" "orders scenario_priced = []"
    by (simp_all add: scenario_priced_eq scenario_start_def new_TradeExecutor_def)
  have po: "place_order scenario_priced ''BTCUSDT'' BUY MARKET 0.1 None None =
     (Inr 0, execute_order
       (scenario_priced\<lparr>orders := [new_Order 0 ''BTCUSDT'' BUY MARKET 0.1 50000 None],
                        next_uuid := 1\<rparr>)
       (new_Order 0 ''BTCUSDT'' BUY MARKET 0.1 50000 None) 50000)"
    using place_order_MARKET [OF _ cp rc, of None None] by (simp add: nu)
  then show "scenario_bought =
     execute_order
       (scenario_priced\<lparr>orders := [new_Order 0 ''BTCUSDT'' BUY MARKET 0.1 50000 None],
                        next_uuid := 1\<rparr>)
       (new_Order 0 ''BTCUSDT'' BUY MARKET 0.1 50000 None) 50000"
    by (simp add: scenario_bought_def)
  with po show "place_order scenario_priced ''BTCUSDT'' BUY MARKET 0.1 None None = (Inr 0, scenario_bought)"
    by simp
qed

lemma scenario_bought_fields:
  "available_balance scenario_bought = 4995"
  "positions scenario_bought = [(''BTCUSDT'', bought_position)]"
  "current_prices scenario_bought = [''BTCUSDT'' \<mapsto> 50000]"
  "commission_rate scenario_bought = 0.001"
  "slippage scenario_bought = 0"
  "max_position_size scenario_bought = 0.5"
  "next_uuid scenario_bought = 2"
  "pending_for scenario_bought ''BTCUSDT'' = []"
  "map o_id (orders scenario_bought) = [0]"
  by (simp_all add: scenario_bought_eq(2) exec_sel pending_for_execute scenario_priced_eq scenario_start_def
        new_TradeExecutor_def new_Order_sel fill_price_def position_of_def fill_trade_sel
        Position_update_position_def new_Position_def bought_position_def pending_for_def
        store_order_def filled_sel MAX_POSITION_SIZE_def Let_def)

lemma scenario_ticked_eq:
  "scenario_ticked =
     scenario_bought\<lparr>current_prices := [''BTCUSDT'' \<mapsto> 60000],
                     positions := [(''BTCUSDT'', ticked_position)]\<rparr>"
  by (simp add: scenario_ticked_def update_price_quiet scenario_bought_fields
        calculate_unrealized_pnl_def bought_position_def ticked_position_def)

lemma scenario_sold_eq:
  "place_order scenario_ticked ''BTCUSDT'' SELL MARKET 0.1 None None = (Inr 2, scenario_sold)"
  "scenario_sold =
     execute_order
       (scenario_ticked\<lparr>orders := orders scenario_ticked @
                                    [new_Order 2 ''BTCUSDT'' SELL MARKET 0.1 60000 None],
                        next_uuid := 3\<rparr>)
       (new_Order 2 ''BTCUSDT'' SELL MARKET 0.1 60000 None) 60000"
proof -
  have rc: "risk_check scenario_ticked ''BTCUSDT'' SELL 0.1 60000 = Inr ()"
    by (simp add: scenario_ticked_eq scenario_bought_fields ticked_position_def
          bought_position_def risk_ev)
  have cp: "current_prices scenario_ticked ''BTCUSDT'' = Some 60000"
    by (simp add: scenario_ticked_eq)
  have nu: "next_uuid scenario_ticked = 2"
    by (simp add: scenario_ticked_eq scenario_bought_fields)
  have po: "place_order scenario_ticked ''BTCUSDT'' SELL MARKET 0.1 None None =
     (Inr 2, execute_order
       (scenario_ticked\<lparr>orders := orders scenario_ticked @
                                    [new_Order 2 ''BTCUSDT'' SELL MARKET 0.1 60000 None],
                        next_uuid := 3\<rparr>)
       (new_Order 2 ''BTCUSDT'' SELL MARKET 0.1 60000 None) 60000)"
    using place_order_MARKET [OF _ cp rc, of None None] by (simp add: nu)
  then show "scenario_sold =
     execute_order
       (scenario_ticked\<lparr>orders := orders scenario_ticked @
                                    [new_Order 2 ''BTCUSDT'' SELL MARKET 0.1 60000 None],
                        next_uuid := 3\<rparr>)
       (new_Order 2 ''BTCUSDT'' SELL MARKET 0.1 60000 None) 60000"
    by (simp add: scenario_sold_def)
  with po show "place_order scenario_ticked ''BTCUSDT'' SELL MARKET 0.1 None None =
      (Inr 2, scenario_sold)"
    by simp
qed

lemma scenario_sold_fields:
  "available_balance scenario_sold = 10989"
  "positions scenario_sold = [(''BTCUSDT'', sold_position)]"
  by (simp_all add: scenario_sold_eq(2) exec_sel scenario_ticked_eq scenario_bought_fields
        new_Order_sel fill_price_def position_of_def fill_trade_sel
        Position_update_position_def ticked_position_def bought_position_def sold_position_def
        Let_def)

text \<open>
  Claim C1, as amended. In the scenario the BUY of 0.1 at 50000 is accepted and leaves
  the available balance at 4995 and the position at quantity 0.1 and average price
  50000; the price update to 60000 sets the unrealized profit and loss to 1000; the SELL
  of 0.1 at 60000 is accepted and leaves the available balance at 10989. The realized
  profit and loss of the position is then 1000: \<open>Position.update_position\<close> adds
  \<open>trade.total - sell_cost\<close>, and the commissions (5 and 6) are kept in
  \<open>total_commission\<close>, which is 11.
\<close>

theorem scenario_ledger:
  "fst (place_order scenario_priced ''BTCUSDT'' BUY MARKET 0.1 None None) = Inr 0 \<and>
   available_balance scenario_bought = 4995 \<and>
   map_option (\<lambda>p. (p_quantity p, p_avg_price p))
     (dict_get (positions scenario_bought) ''BTCUSDT'') = Some (0.1, 50000) \<and>
   map_option p_unrealized_pnl (dict_get (positions scenario_ticked) ''BTCUSDT'') = Some 1000 \<and>
   fst (place_order scenario_ticked ''BTCUSDT'' SELL MARKET 0.1 None None) = Inr 2 \<and>
   map_option p_realized_pnl (dict_get (positions scenario_sold) ''BTCUSDT'') = Some 1000 \<and>
   map_option p_total_commission (dict_get (positions scenario_sold) ''BTCUSDT'') = Some 11 \<and>
   available_balance scenario_sold = 10989"
proof (intro conjI)
  show "fst (place_order scenario_priced ''BTCUSDT'' BUY MARKET 0.1 None None) = Inr 0"
    by (simp add: scenario_bought_eq(1))
  show "available_balance scenario_bought = 4995"
    by (simp add: scenario_bought_fields)
  show "map_option (\<lambda>p. (p_quantity p, p_avg_price p))
     (dict_get (positions scenario_bought) ''BTCUSDT'') = Some (0.1, 50000)"
    by (simp add: scenario_bought_fields bought_position_def)
  show "map_option p_unrealized_pnl (dict_get (positions scenario_ticked) ''BTCUSDT'') = Some 1000"
    by (simp add: scenario_ticked_eq ticked_position_def)
  show "fst (place_order scenario_ticked ''BTCUSDT'' SELL MARKET 0.1 None None) = Inr 2"
    by (simp add: scenario_sold_eq(1))
  show "map_option p_realized_pnl (dict_get (positions scenario_sold) ''BTCUSDT'') = Some 1000"
    by (simp add: scenario_sold_fields sold_position_def)
  show "map_option p_total_commission (dict_get (positions scenario_sold) ''BTCUSDT'') = Some 11"
    by (simp add: scenario_sold_fields sold_position_def)
  show "available_balance scenario_sold = 10989"
    by (simp add: scenario_sold_fields)
qed

text \<open>
  The claim as stated gives 994 for the realized profit and loss, the value net of the
  SELL commission; the code computes 1000.
\<close>

theorem scenario_realized_pnl_not_994:
  "map_option p_realized_pnl (dict_get (positions scenario_sold) ''BTCUSDT'') \<noteq> Some 994"
  by (simp add: scenario_sold_fields sold_position_def)

subsection \<open>Pending orders on a price tick\<close>

lemma check_pending_orders_foldl:
  "check_pending_orders ex symbol price = foldl (tick_step price) ex (pending_for ex symbol)"
proof -
  have "tick_step price =
        (\<lambda>ex' order. case should_execute order price of
                         None \<Rightarrow> ex'
                       | Some execution_price \<Rightarrow> execute_order ex' order execution_price)"
    by (intro ext) (simp add: tick_step_def)
  then show ?thesis by (simp add: check_pending_orders_def pending_for_def Let_def)
qed

lemma map_o_id_store_order: "map o_id (store_order order os) = map o_id os"
  by (induction os) (auto simp: store_order_def)

lemma find_store_order:
  "find (\<lambda>x. o_id x = i) (store_order order os) =
     (if i = o_id order then (if i \<in> o_id ` set os then Some order else None)
      else find (\<lambda>x. o_id x = i) os)"
  by (induction os) (auto simp: store_order_def)

lemma tick_step_sel:
  "slippage (tick_step price ex order) = slippage ex"
  "commission_rate (tick_step price ex order) = commission_rate ex"
  "map o_id (orders (tick_step price ex order)) = map o_id (orders ex)"
  by (simp_all add: tick_step_def exec_sel map_o_id_store_order split: option.splits)

lemma tick_step_other:
  "i \<noteq> o_id order \<Longrightarrow> find_order (tick_step price ex order) i = find_order ex i"
  by (simp add: tick_step_def find_order_def exec_sel find_store_order filled_sel
        split: option.splits)

lemma foldl_tick_step_sel:
  "slippage (foldl (tick_step price) ex os) = slippage ex"
  "map o_id (orders (foldl (tick_step price) ex os)) = map o_id (orders ex)"
  by (induction os arbitrary: ex) (simp_all add: tick_step_sel)

lemma foldl_tick_step_other:
  "i \<notin> o_id ` set os \<Longrightarrow> find_order (foldl (tick_step price) ex os) i = find_order ex i"
  by (induction os arbitrary: ex) (simp_all add: tick_step_other)

lemma tick_step_fills:
  assumes "should_execute order price = Some ep" and "o_id order \<in> o_id ` set (orders ex)"
  shows "find_order (tick_step price ex order) (o_id order) = Some (filled ex order ep)"
  using assms
  by (simp add: tick_step_def find_order_def exec_sel find_store_order filled_sel)

lemma ids_eq: "map o_id xs = map o_id ys \<Longrightarrow> o_id ` set xs = o_id ` set ys"
  by (metis list.set_map)

lemma foldl_tick_step_fills:
  assumes "distinct (map o_id os)" and "order \<in> set os"
    and "should_execute order price = Some ep"
    and "o_id order \<in> o_id ` set (orders ex)"
  shows "\<exists>x. find_order (foldl (tick_step price) ex os) (o_id order) = Some x \<and>
             o_status x = FILLED \<and> o_avg_fill_price x = fill_price ex order ep \<and>
             o_price x = o_price order"
  using assms
proof (induction os arbitrary: ex)
  case Nil
  then show ?case by simp
next
  case (Cons a os)
  show ?case
  proof (cases "a = order")
    case True
    have notin: "o_id order \<notin> o_id ` set os" using Cons.prems(1) True by auto
    have "find_order (foldl (tick_step price) (tick_step price ex order) os) (o_id order) =
          Some (filled ex order ep)"
      using foldl_tick_step_other [OF notin] tick_step_fills [OF Cons.prems(3,4)] by simp
    then show ?thesis using True by (simp add: filled_sel)
  next
    case False
    then have mem: "order \<in> set os" using Cons.prems(2) by simp
    have d: "distinct (map o_id os)" using Cons.prems(1) by simp
    have ids: "o_id order \<in> o_id ` set (orders (tick_step price ex a))"
      using Cons.prems(4) ids_eq [OF tick_step_sel(3)] by blast
    have "fill_price (tick_step price ex a) order ep = fill_price ex order ep"
      by (simp add: fill_price_def tick_step_sel)
    then show ?thesis using Cons.IH [OF d mem Cons.prems(3) ids] by simp
  qed
qed

lemma pending_for_update:
  "pending_for (ex\<lparr>current_prices := c\<rparr>) symbol = pending_for ex symbol"
  "pending_for (ex\<lparr>positions := ps\<rparr>) symbol = pending_for ex symbol"
  by (simp_all add: pending_for_def)

lemma distinct_pending: "distinct (map o_id (orders ex)) \<Longrightarrow> distinct (map o_id (pending_for ex symbol))"
  by (simp add: pending_for_def distinct_map_filter)

lemma pending_fill:
  assumes "order \<in> set (orders ex)" and "distinct (map o_id (orders ex))"
    and "o_status order = PENDING"
    and "should_execute order price = Some ep"
  shows "\<exists>x. find_order (update_price ex (o_symbol order) price) (o_id order) = Some x \<and>
             o_status x = FILLED \<and> o_avg_fill_price x = fill_price ex order ep \<and>
             o_price x = o_price order"
proof -
  define ex2 where "ex2 =
    (let ex1 = ex\<lparr>current_prices := (current_prices ex)(o_symbol order \<mapsto> price)\<rparr>
     in case dict_get (positions ex1) (o_symbol order) of
          None \<Rightarrow> ex1
        | Some position \<Rightarrow>
            ex1\<lparr>positions := dict_set (o_symbol order) (calculate_unrealized_pnl position price)
                               (positions ex1)\<rparr>)"
  have o2: "orders ex2 = orders ex" and s2: "slippage ex2 = slippage ex"
    by (simp_all add: ex2_def Let_def split: option.splits)
  have p2: "pending_for ex2 (o_symbol order) = pending_for ex (o_symbol order)"
    by (simp add: pending_for_def o2)
  have "update_price ex (o_symbol order) price = check_pending_orders ex2 (o_symbol order) price"
    by (simp add: update_price_def ex2_def Let_def)
  then have up: "update_price ex (o_symbol order) price =
            foldl (tick_step price) ex2 (pending_for ex (o_symbol order))"
    by (simp add: check_pending_orders_foldl p2)
  have mem: "order \<in> set (pending_for ex (o_symbol order))"
    using assms(1,3) by (simp add: pending_for_def)
  have ids: "o_id order \<in> o_id ` set (orders ex2)" using assms(1) o2 by auto
  have "fill_price ex2 order ep = fill_price ex order ep" by (simp add: fill_price_def s2)
  then show ?thesis
    using foldl_tick_step_fills [OF distinct_pending [OF assms(2)] mem assms(4) ids] up by simp
qed

lemma place_order_pending:
  assumes "0 < q" and "current_prices ex symbol = Some cp" and "ot \<noteq> MARKET"
    and "risk_check ex symbol side q price = Inr ()"
  shows "place_order ex symbol side ot q (Some price) sp =
     (Inr (next_uuid ex),
      ex\<lparr>orders := orders ex @ [new_Order (next_uuid ex) symbol side ot q price sp],
         next_uuid := next_uuid ex + 1\<rparr>)"
  using assms by (simp add: place_order_def Let_def new_Order_def)

lemmas default_ev = default_TradeExecutor_def new_TradeExecutor_def INITIAL_BALANCE_def
  MAX_POSITION_SIZE_def BACKTEST_COMMISSION_def BACKTEST_SLIPPAGE_def

lemma limit_start_eq:
  "limit_start = default_TradeExecutor\<lparr>current_prices := [''BTCUSDT'' \<mapsto> 60000]\<rparr>"
  by (simp add: limit_start_def update_price_quiet pending_for_def default_ev)

lemma limit_placed_eq:
  "limit_placed =
     limit_start\<lparr>orders := [new_Order 0 ''BTCUSDT'' BUY LIMIT 0.05 50000 None], next_uuid := 1\<rparr>"
proof -
  have rc: "risk_check limit_start ''BTCUSDT'' BUY 0.05 50000 = Inr ()"
    by (simp add: limit_start_eq default_ev risk_ev)
  have cp: "current_prices limit_start ''BTCUSDT'' = Some 60000"
    by (simp add: limit_start_eq)
  have nu: "next_uuid limit_start = 0" "orders limit_start = []"
    by (simp_all add: limit_start_eq default_ev)
  show ?thesis
    using place_order_pending [OF _ cp _ rc, of LIMIT None]
    by (simp add: limit_placed_def nu)
qed

text \<open>
  Claim C8, as amended. A PENDING LIMIT order stored in the executor (whose orders have
  distinct ids, as the keys of a dictionary) is FILLED by a price tick of its symbol
  with price at or below the limit for a BUY, at or above the limit for a SELL. Its
  average fill price is the limit price after slippage: limit times (1 + slippage) for a
  BUY and limit times (1 - slippage) for a SELL, which is the limit price only when the
  slippage rate is 0.
\<close>

theorem limit_order_fill:
  assumes "order \<in> set (orders ex)" and "distinct (map o_id (orders ex))"
    and "o_status order = PENDING" and "o_order_type order = LIMIT"
    and "(o_side order = BUY \<and> price \<le> o_price order) \<or>
         (o_side order = SELL \<and> o_price order \<le> price)"
  shows "\<exists>x. find_order (update_price ex (o_symbol order) price) (o_id order) = Some x \<and>
             o_status x = FILLED \<and>
             o_avg_fill_price x =
               (if o_side order = BUY then o_price order * (1 + slippage ex)
                else o_price order * (1 - slippage ex))"
proof -
  have "should_execute order price = Some (o_price order)"
    using assms(4,5) by (auto simp: should_execute_def)
  from pending_fill [OF assms(1,2,3) this] show ?thesis by (auto simp: fill_price_def)
qed


theorem limit_order_fill_witness:
  "new_Order 0 ''BTCUSDT'' BUY LIMIT 0.05 50000 None \<in> set (orders limit_placed) \<and>
   distinct (map o_id (orders limit_placed)) \<and>
   (\<exists>x. find_order (update_price limit_placed ''BTCUSDT'' 49000) 0 = Some x \<and>
        o_status x = FILLED \<and> o_avg_fill_price x = 50025)"
  using limit_order_fill [where ex = limit_placed and price = 49000
      and order = "new_Order 0 ''BTCUSDT'' BUY LIMIT 0.05 50000 None"]
  by (simp add: new_Order_sel limit_placed_eq limit_start_eq default_ev)


text \<open>
  The claim as stated gives the limit price as the average fill price. On the module's
  executor the LIMIT BUY at 50000 is filled at 50025.
\<close>

theorem limit_fill_price_not_limit:
  "map_option (\<lambda>x. (o_status x, o_price x, o_avg_fill_price x)) (find_order limit_ticked 0) =
     Some (FILLED, 50000, 50025)"
proof -
  let ?o = "new_Order 0 ''BTCUSDT'' BUY LIMIT 0.05 50000 None"
  have 1: "?o \<in> set (orders limit_placed)" by (simp add: limit_placed_eq)
  have 2: "distinct (map o_id (orders limit_placed))" by (simp add: limit_placed_eq)
  have 3: "o_status ?o = PENDING" by (simp add: new_Order_sel)
  have 4: "should_execute ?o 50000 = Some 50000"
    by (simp add: should_execute_def new_Order_sel)
  have 5: "fill_price limit_placed ?o 50000 = 50025"
    by (simp add: fill_price_def new_Order_sel limit_placed_eq limit_start_eq default_ev)
  from pending_fill [OF 1 2 3 4] 5 show ?thesis
    by (auto simp: new_Order_sel limit_ticked_def)
qed

subsection \<open>The available balance\<close>

lemma fill_sets_filled_fl:
  assumes "order \<in> set (orders ex)"
  shows "map_option o_status (find_order (execute_order_fl rnd ex order p0) (o_id order)) =
         Some FILLED"
  using assms by (simp add: find_order_def exec_fl_sel find_store_order filled_fl_sel)

lemma sell_fill_balance_fl:
  assumes "o_side order = SELL" and "0 \<le> o_quantity order" and "0 \<le> p0"
    and "slippage ex \<le> 1" and "commission_rate ex \<le> 1"
    and mono: "\<forall>y z. y \<le> z \<longrightarrow> rnd y \<le> rnd z" and idem: "\<forall>y. rnd (rnd y) = rnd y"
    and r0: "rnd 0 = 0" and rb: "rnd (available_balance ex) = available_balance ex"
  shows "available_balance ex \<le> available_balance (execute_order_fl rnd ex order p0)"
proof -
  define fp where "fp = fill_price_fl rnd ex order p0"
  define total where "total = rnd (o_quantity order * fp)"
  define commission where "commission = rnd (total * commission_rate ex)"
  have nn: "0 \<le> y \<Longrightarrow> 0 \<le> rnd y" for y
    using mono [rule_format, of 0 y] r0 by simp
  have "0 \<le> rnd (1 - slippage ex)" using assms(4) by (intro nn) simp
  then have "0 \<le> p0 * rnd (1 - slippage ex)" using assms(3) by simp
  then have fp: "0 \<le> fp" using assms(1) by (simp add: fp_def fill_price_fl_def nn)
  have t: "0 \<le> total" unfolding total_def using assms(2) fp by (intro nn) simp
  have "total * commission_rate ex \<le> total"
    using t assms(5) by (simp add: mult_left_le)
  then have "rnd (total * commission_rate ex) \<le> rnd total" using mono by blast
  moreover have "rnd total = total" using idem by (simp add: total_def)
  ultimately have "commission \<le> total" by (simp add: commission_def)
  then have "0 \<le> rnd (total - commission)" by (intro nn) simp
  then have "available_balance ex \<le> available_balance ex + rnd (total - commission)" by simp
  then have "rnd (available_balance ex) \<le> rnd (available_balance ex + rnd (total - commission))"
    using mono by blast
  then show ?thesis
    using assms(1) rb
    by (simp add: exec_fl_sel fill_trade_fl_sel total_def commission_def fp_def)
qed

lemma place_order_fl_insufficient:
  assumes "0 < q" and "current_prices ex symbol = Some cp"
    and "(if ty = MARKET then Some cp else pa) = Some price"
    and "MIN_TRADE_AMOUNT \<le> rnd (q * price)"
    and "available_balance ex < rnd (rnd (q * price) * rnd (1 + commission_rate ex))"
  shows "place_order_fl rnd ex symbol BUY ty q pa sp = (Inl InsufficientBalance, ex)"
proof -
  have "risk_check_fl rnd ex symbol BUY q price = Inl InsufficientBalance"
    using assms(4,5) by (simp add: risk_check_fl_def Let_def)
  then show ?thesis
    using assms(1,2,3) by (simp add: place_order_fl_def)
qed

lemma fl_placed_reached:
  "place_order_fl double_round fl_priced ''BTCUSDT'' BUY LIMIT 2 (Some 2048) None =
     (Inr 0, fl_placed)"
proof -
  have "risk_check_fl double_round fl_priced ''BTCUSDT'' BUY 2 2048 = Inr ()"
    by (simp add: risk_check_fl_def get_total_value_fl_def get_position_value_fl_def
          fl_priced_def new_TradeExecutor_def MIN_TRADE_AMOUNT_def double_round_examples)
  then show ?thesis
    by (simp add: place_order_fl_def fl_priced_def fl_placed_def new_TradeExecutor_def
          new_Order_def)
qed

lemma fl_placed_sel:
  "available_balance fl_placed = 10000"
  "commission_rate fl_placed = 1 / 1024"
  "slippage fl_placed = 1 / 1024"
  "orders fl_placed = [new_Order 0 ''BTCUSDT'' BUY LIMIT 2 2048 None]"
  "current_prices fl_placed ''BTCUSDT'' = Some 2048"
  by (simp_all add: fl_placed_def new_TradeExecutor_def)

text \<open>
  Claim C2, as amended. The arithmetic rounds with \<open>rnd\<close>. A fill makes no balance
  check. Every fill of a stored order sets it to FILLED, whatever the balance is: no
  fill ends in REJECTED for lack of funds. A BUY fill subtracts the rounded sum of the
  trade value and the commission from the available balance, whatever the balance is.
  A SELL fill of a quantity and at a price that are not negative, with slippage and
  commission rates at most 1, does not lower the available balance, when rounding is
  monotone and leaves 0, its own values and the balance before as they are. The balance
  is tested when an order is submitted: \<open>place_order\<close> refuses a BUY, with the state
  unchanged, when the rounded order value at the order's price is at least the minimum
  amount and its rounded product with the rounded sum of 1 and the commission rate
  exceeds the available balance.
\<close>

theorem balance_after_fill:
  "(order \<in> set (orders ex) \<longrightarrow>
      map_option o_status (find_order (execute_order_fl rnd ex order fill_at) (o_id order)) =
        Some FILLED) \<and>
   (o_side order = BUY \<longrightarrow>
      available_balance (execute_order_fl rnd ex order fill_at) =
        rnd (available_balance ex -
             rnd (rnd (o_quantity order * fill_price_fl rnd ex order fill_at) +
                  rnd (rnd (o_quantity order * fill_price_fl rnd ex order fill_at) *
                       commission_rate ex)))) \<and>
   (o_side order = SELL \<and> 0 \<le> o_quantity order \<and> 0 \<le> fill_at \<and> slippage ex \<le> 1 \<and>
    commission_rate ex \<le> 1 \<and> (\<forall>y z. y \<le> z \<longrightarrow> rnd y \<le> rnd z) \<and>
    (\<forall>y. rnd (rnd y) = rnd y) \<and> rnd 0 = 0 \<and>
    rnd (available_balance ex) = available_balance ex
      \<longrightarrow> available_balance ex \<le> available_balance (execute_order_fl rnd ex order fill_at)) \<and>
   (0 < q \<and> current_prices ex symbol = Some cp \<and>
    (if ty = MARKET then Some cp else pa) = Some price \<and>
    MIN_TRADE_AMOUNT \<le> rnd (q * price) \<and>
    available_balance ex < rnd (rnd (q * price) * rnd (1 + commission_rate ex))
      \<longrightarrow> place_order_fl rnd ex symbol BUY ty q pa sp = (Inl InsufficientBalance, ex))"
proof (intro conjI impI)
  assume "order \<in> set (orders ex)"
  then show "map_option o_status
      (find_order (execute_order_fl rnd ex order fill_at) (o_id order)) = Some FILLED"
    by (rule fill_sets_filled_fl)
next
  assume "o_side order = BUY"
  then show "available_balance (execute_order_fl rnd ex order fill_at) =
        rnd (available_balance ex -
             rnd (rnd (o_quantity order * fill_price_fl rnd ex order fill_at) +
                  rnd (rnd (o_quantity order * fill_price_fl rnd ex order fill_at) *
                       commission_rate ex)))"
    by (simp add: exec_fl_sel fill_trade_fl_sel)
next
  assume "o_side order = SELL \<and> 0 \<le> o_quantity order \<and> 0 \<le> fill_at \<and> slippage ex \<le> 1 \<and>
    commission_rate ex \<le> 1 \<and> (\<forall>y z. y \<le> z \<longrightarrow> rnd y \<le> rnd z) \<and>
    (\<forall>y. rnd (rnd y) = rnd y) \<and> rnd 0 = 0 \<and>
    rnd (available_balance ex) = available_balance ex"
  then show "available_balance ex \<le> available_balance (execute_order_fl rnd ex order fill_at)"
    using sell_fill_balance_fl [of order fill_at ex rnd] by blast
next
  assume "0 < q \<and> current_prices ex symbol = Some cp \<and>
    (if ty = MARKET then Some cp else pa) = Some price \<and>
    MIN_TRADE_AMOUNT \<le> rnd (q * price) \<and>
    available_balance ex < rnd (rnd (q * price) * rnd (1 + commission_rate ex))"
  then show "place_order_fl rnd ex symbol BUY ty q pa sp = (Inl InsufficientBalance, ex)"
    using place_order_fl_insufficient [of q ex symbol cp ty pa price rnd sp] by blast
qed

text \<open>
  The theorem at \<open>double_round\<close>, on the executor with the pending LIMIT BUY: the fill of
  the pending order at 2048, the fill of a SELL of 2 at 2048, and the submission of a
  BUY of 5 at 2048.
\<close>

theorem balance_after_fill_witness:
  "map_option o_status
     (find_order (execute_order_fl double_round fl_placed
        (new_Order 0 ''BTCUSDT'' BUY LIMIT 2 2048 None) 2048) 0) = Some FILLED \<and>
   available_balance (execute_order_fl double_round fl_placed
        (new_Order 0 ''BTCUSDT'' BUY LIMIT 2 2048 None) 2048) = 1509375 / 256 \<and>
   available_balance fl_placed \<le>
     available_balance (execute_order_fl double_round fl_placed
        (new_Order 1 ''BTCUSDT'' SELL LIMIT 2 2048 None) 2048) \<and>
   place_order_fl double_round fl_placed ''BTCUSDT'' BUY LIMIT 5 (Some 2048) None =
     (Inl InsufficientBalance, fl_placed)"
proof (intro conjI)
  show "map_option o_status
     (find_order (execute_order_fl double_round fl_placed
        (new_Order 0 ''BTCUSDT'' BUY LIMIT 2 2048 None) 2048) 0) = Some FILLED"
    using balance_after_fill [where rnd = double_round and ex = fl_placed and fill_at = 2048
        and order = "new_Order 0 ''BTCUSDT'' BUY LIMIT 2 2048 None"]
    by (simp add: fl_placed_sel new_Order_def)
  show "available_balance (execute_order_fl double_round fl_placed
        (new_Order 0 ''BTCUSDT'' BUY LIMIT 2 2048 None) 2048) = 1509375 / 256"
    using balance_after_fill [where rnd = double_round and ex = fl_placed and fill_at = 2048
        and order = "new_Order 0 ''BTCUSDT'' BUY LIMIT 2 2048 None"]
    by (simp add: fl_placed_sel new_Order_def fill_price_fl_def double_round_examples)
  show "available_balance fl_placed \<le>
     available_balance (execute_order_fl double_round fl_placed
        (new_Order 1 ''BTCUSDT'' SELL LIMIT 2 2048 None) 2048)"
    using balance_after_fill [where rnd = double_round and ex = fl_placed and fill_at = 2048
        and order = "new_Order 1 ''BTCUSDT'' SELL LIMIT 2 2048 None"]
      double_round_mono
    by (simp add: fl_placed_sel new_Order_def double_round_idem double_round_0
          double_round_examples)
  show "place_order_fl double_round fl_placed ''BTCUSDT'' BUY LIMIT 5 (Some 2048) None =
     (Inl InsufficientBalance, fl_placed)"
    using balance_after_fill [where rnd = double_round and ex = fl_placed and q = 5
        and symbol = "''BTCUSDT''" and cp = 2048 and ty = LIMIT and pa = "Some 2048"
        and price = 2048 and sp = None]
    by (simp add: fl_placed_sel MIN_TRADE_AMOUNT_def double_round_examples)
qed

text \<open>
  The two limit orders on the module's executor in binary64: the float literals of the
  configuration, the roundings of the two submissions and of the two fills, and the
  states of the scenario.
\<close>

lemma config_values:
  "double_round INITIAL_BALANCE = 10000"
  "double_round MAX_POSITION_SIZE = 1 / 2"
  "double_round BACKTEST_COMMISSION = 4611686018427388 / 2 ^ 62"
  "double_round BACKTEST_SLIPPAGE = 4611686018427388 / 2 ^ 63"
proof -
  show "double_round INITIAL_BALANCE = 10000"
    unfolding INITIAL_BALANCE_def by (simp add: double_round_examples)
  show "double_round MAX_POSITION_SIZE = 1 / 2"
    unfolding MAX_POSITION_SIZE_def using double_round_exact [of "0.5" 53 "2 ^ 52"] by simp
  show "double_round BACKTEST_COMMISSION = 4611686018427388 / 2 ^ 62"
    unfolding BACKTEST_COMMISSION_def
    using double_round_near [of "0.001" 62 4611686018427388] by simp
  show "double_round BACKTEST_SLIPPAGE = 4611686018427388 / 2 ^ 63"
    unfolding BACKTEST_SLIPPAGE_def
    using double_round_near [of "0.0005" 63 4611686018427388] by simp
qed

lemma overdraft_values:
  "double_round 0.1 = 7205759403792794 / 2 ^ 56"
  "double_round (7205759403792794 / 2 ^ 56 * 50000) = 5000"
  "double_round (1 + 4611686018427388 / 2 ^ 62) = 4508103226997866 / 2 ^ 52"
  "double_round (5000 * (4508103226997866 / 2 ^ 52)) = 5503055697018879 / 2 ^ 40"
  "double_round (1 + 4611686018427388 / 2 ^ 63) = 4505851427184181 / 2 ^ 52"
  "double_round (50000 * (4505851427184181 / 2 ^ 52)) = 50025"
  "double_round (7205759403792794 / 2 ^ 56 * 50025) = 10005 / 2"
  "double_round (10005 / 2 * (4611686018427388 / 2 ^ 62)) = 5632314283980227 / 2 ^ 50"
  "double_round (10005 / 2 + 5632314283980227 / 2 ^ 50) = 5505807224867389 / 2 ^ 40"
  "double_round (10000 - 5505807224867389 / 2 ^ 40) = 5489309052892611 / 2 ^ 40"
  "double_round (5489309052892611 / 2 ^ 40 - 5505807224867389 / 2 ^ 40) =
     - (8447064051086336 / 2 ^ 49)"
proof -
  show "double_round 0.1 = 7205759403792794 / 2 ^ 56"
    using double_round_near [of "0.1" 56 7205759403792794] by simp
  show "double_round (7205759403792794 / 2 ^ 56 * 50000) = 5000"
    using double_round_near [of "7205759403792794 / 2 ^ 56 * 50000" 40 5497558138880000] by simp
  show "double_round (1 + 4611686018427388 / 2 ^ 62) = 4508103226997866 / 2 ^ 52"
    using double_round_near [of "1 + 4611686018427388 / 2 ^ 62" 52 4508103226997866] by simp
  show "double_round (5000 * (4508103226997866 / 2 ^ 52)) = 5503055697018879 / 2 ^ 40"
    using double_round_near [of "5000 * (4508103226997866 / 2 ^ 52)" 40 5503055697018879] by simp
  show "double_round (1 + 4611686018427388 / 2 ^ 63) = 4505851427184181 / 2 ^ 52"
    using double_round_near [of "1 + 4611686018427388 / 2 ^ 63" 52 4505851427184181] by simp
  show "double_round (50000 * (4505851427184181 / 2 ^ 52)) = 50025"
    using double_round_near [of "50000 * (4505851427184181 / 2 ^ 52)" 37 6875383647436800] by simp
  show "double_round (7205759403792794 / 2 ^ 56 * 50025) = 10005 / 2"
    using double_round_near [of "7205759403792794 / 2 ^ 56 * 50025" 40 5500306917949440] by simp
  show "double_round (10005 / 2 * (4611686018427388 / 2 ^ 62)) = 5632314283980227 / 2 ^ 50"
    using double_round_near [of "10005 / 2 * (4611686018427388 / 2 ^ 62)" 50 5632314283980227]
    by simp
  show "double_round (10005 / 2 + 5632314283980227 / 2 ^ 50) = 5505807224867389 / 2 ^ 40"
    using double_round_near [of "10005 / 2 + 5632314283980227 / 2 ^ 50" 40 5505807224867389]
    by simp
  show "double_round (10000 - 5505807224867389 / 2 ^ 40) = 5489309052892611 / 2 ^ 40"
    using double_round_near [of "10000 - 5505807224867389 / 2 ^ 40" 40 5489309052892611] by simp
  have "double_round (- (5505807224867389 / 2 ^ 40 - 5489309052892611 / 2 ^ 40)) =
        - (8447064051086336 / 2 ^ 49)"
    unfolding double_round_minus
    using double_round_near [of "5505807224867389 / 2 ^ 40 - 5489309052892611 / 2 ^ 40" 49
        8447064051086336]
    by simp
  then show "double_round (5489309052892611 / 2 ^ 40 - 5505807224867389 / 2 ^ 40) =
     - (8447064051086336 / 2 ^ 49)"
    by simp
qed

lemma overdraft_start_eq:
  "overdraft_start =
     (default_TradeExecutor_fl double_round)\<lparr>current_prices := [''BTCUSDT'' \<mapsto> 60000]\<rparr>"
  by (simp add: overdraft_start_def update_price_fl_def check_pending_orders_fl_def
        default_TradeExecutor_fl_def new_TradeExecutor_def)

lemma overdraft_start_sel:
  "available_balance overdraft_start = 10000"
  "max_position_size overdraft_start = 1 / 2"
  "commission_rate overdraft_start = double_round BACKTEST_COMMISSION"
  "slippage overdraft_start = double_round BACKTEST_SLIPPAGE"
  "positions overdraft_start = []"
  "orders overdraft_start = []"
  "next_uuid overdraft_start = 0"
  "current_prices overdraft_start ''BTCUSDT'' = Some 60000"
  by (simp_all add: overdraft_start_eq default_TradeExecutor_fl_def new_TradeExecutor_def
        config_values(1,2))

lemma overdraft_check_values:
  "MIN_TRADE_AMOUNT \<le> double_round (double_round 0.1 * 50000)"
  "double_round (double_round (double_round 0.1 * 50000) *
      double_round (1 + double_round BACKTEST_COMMISSION)) \<le> 10000"
  "double_round (double_round 0.1 * 50000) \<le> 5000"
proof -
  have ov: "double_round (double_round 0.1 * 50000) = 5000"
    by (simp only: overdraft_values)
  have req: "double_round (double_round (double_round 0.1 * 50000) *
      double_round (1 + double_round BACKTEST_COMMISSION)) = 5503055697018879 / 2 ^ 40"
    by (simp only: overdraft_values config_values)
  show "MIN_TRADE_AMOUNT \<le> double_round (double_round 0.1 * 50000)"
    unfolding ov by (simp add: MIN_TRADE_AMOUNT_def)
  show "double_round (double_round (double_round 0.1 * 50000) *
      double_round (1 + double_round BACKTEST_COMMISSION)) \<le> 10000"
    unfolding req by simp
  show "double_round (double_round 0.1 * 50000) \<le> 5000"
    unfolding ov by simp
qed

lemma place_order_fl_pending:
  assumes "0 < q" and "current_prices ex symbol = Some cp" and "ot \<noteq> MARKET"
    and "risk_check_fl rnd ex symbol side q price = Inr ()"
  shows "place_order_fl rnd ex symbol side ot q (Some price) sp =
     (Inr (next_uuid ex),
      ex\<lparr>orders := orders ex @ [new_Order (next_uuid ex) symbol side ot q price sp],
         next_uuid := next_uuid ex + 1\<rparr>)"
  using assms by (simp add: place_order_fl_def Let_def new_Order_def)

lemma overdraft_quantity_pos: "0 < double_round 0.1"
  by (rule double_round_pos_pos) simp

lemma overdraft_one_eq:
  "place_order_fl double_round overdraft_start ''BTCUSDT'' BUY LIMIT (double_round 0.1)
     (Some 50000) None = (Inr 0, overdraft_one)"
  "overdraft_one =
     overdraft_start\<lparr>orders := [new_Order 0 ''BTCUSDT'' BUY LIMIT (double_round 0.1) 50000 None],
                        next_uuid := 1\<rparr>"
proof -
  have rc: "risk_check_fl double_round overdraft_start ''BTCUSDT'' BUY (double_round 0.1) 50000 =
      Inr ()"
    using overdraft_check_values
    by (simp add: risk_check_fl_def get_total_value_fl_def get_position_value_fl_def
          overdraft_start_sel double_round_examples)
  have po: "place_order_fl double_round overdraft_start ''BTCUSDT'' BUY LIMIT (double_round 0.1)
      (Some 50000) None =
      (Inr 0, overdraft_start\<lparr>orders :=
                 [new_Order 0 ''BTCUSDT'' BUY LIMIT (double_round 0.1) 50000 None],
               next_uuid := 1\<rparr>)"
    using place_order_fl_pending [OF overdraft_quantity_pos overdraft_start_sel(8) _ rc,
        of LIMIT None]
    by (simp add: overdraft_start_sel)
  then show "overdraft_one =
     overdraft_start\<lparr>orders := [new_Order 0 ''BTCUSDT'' BUY LIMIT (double_round 0.1) 50000 None],
                        next_uuid := 1\<rparr>"
    by (simp add: overdraft_one_def)
  with po show "place_order_fl double_round overdraft_start ''BTCUSDT'' BUY LIMIT
     (double_round 0.1) (Some 50000) None = (Inr 0, overdraft_one)"
    by simp
qed

lemma overdraft_two_eq:
  "place_order_fl double_round overdraft_one ''BTCUSDT'' BUY LIMIT (double_round 0.1)
     (Some 50000) None = (Inr 1, overdraft_two)"
  "overdraft_two =
     overdraft_start\<lparr>orders := [new_Order 0 ''BTCUSDT'' BUY LIMIT (double_round 0.1) 50000 None,
                                   new_Order 1 ''BTCUSDT'' BUY LIMIT (double_round 0.1) 50000 None],
                        next_uuid := 2\<rparr>"
proof -
  have rc: "risk_check_fl double_round overdraft_one ''BTCUSDT'' BUY (double_round 0.1) 50000 =
      Inr ()"
    using overdraft_check_values
    by (simp add: risk_check_fl_def get_total_value_fl_def get_position_value_fl_def
          overdraft_one_eq(2) overdraft_start_sel double_round_examples)
  have cp: "current_prices overdraft_one ''BTCUSDT'' = Some 60000"
    by (simp add: overdraft_one_eq(2) overdraft_start_sel)
  have po: "place_order_fl double_round overdraft_one ''BTCUSDT'' BUY LIMIT (double_round 0.1)
      (Some 50000) None =
      (Inr 1, overdraft_start\<lparr>orders :=
                 [new_Order 0 ''BTCUSDT'' BUY LIMIT (double_round 0.1) 50000 None,
                  new_Order 1 ''BTCUSDT'' BUY LIMIT (double_round 0.1) 50000 None],
               next_uuid := 2\<rparr>)"
    using place_order_fl_pending [OF overdraft_quantity_pos cp _ rc, of LIMIT None]
    by (simp add: overdraft_one_eq(2))
  then show "overdraft_two =
     overdraft_start\<lparr>orders := [new_Order 0 ''BTCUSDT'' BUY LIMIT (double_round 0.1) 50000 None,
                                   new_Order 1 ''BTCUSDT'' BUY LIMIT (double_round 0.1) 50000 None],
                        next_uuid := 2\<rparr>"
    by (simp add: overdraft_two_def)
  with po show "place_order_fl double_round overdraft_one ''BTCUSDT'' BUY LIMIT
     (double_round 0.1) (Some 50000) None = (Inr 1, overdraft_two)"
    by simp
qed

lemma overdraft_ticked_eq:
  "overdraft_ticked =
     execute_order_fl double_round
       (execute_order_fl double_round
          (overdraft_two\<lparr>current_prices := [''BTCUSDT'' \<mapsto> 50000]\<rparr>)
          (new_Order 0 ''BTCUSDT'' BUY LIMIT (double_round 0.1) 50000 None) 50000)
       (new_Order 1 ''BTCUSDT'' BUY LIMIT (double_round 0.1) 50000 None) 50000"
  by (simp add: overdraft_ticked_def update_price_fl_def check_pending_orders_fl_def
        overdraft_two_eq(2) overdraft_start_eq default_TradeExecutor_fl_def
        new_TradeExecutor_def new_Order_def should_execute_def Let_def)

lemma overdraft_balance:
  "available_balance overdraft_ticked =
     double_round
       (double_round
          (10000 -
           double_round
             (double_round (double_round 0.1 *
                 double_round (50000 * double_round (1 + double_round BACKTEST_SLIPPAGE))) +
              double_round
                (double_round (double_round 0.1 *
                   double_round (50000 * double_round (1 + double_round BACKTEST_SLIPPAGE))) *
                 double_round BACKTEST_COMMISSION))) -
        double_round
          (double_round (double_round 0.1 *
              double_round (50000 * double_round (1 + double_round BACKTEST_SLIPPAGE))) +
           double_round
             (double_round (double_round 0.1 *
                double_round (50000 * double_round (1 + double_round BACKTEST_SLIPPAGE))) *
              double_round BACKTEST_COMMISSION)))"
  by (simp add: overdraft_ticked_eq exec_fl_sel fill_trade_fl_sel fill_price_fl_def
        overdraft_two_eq(2) overdraft_start_sel new_Order_def)

text \<open>
  The claim as stated has the available balance at least 0 after the fill of a pending
  order, or the order REJECTED. Both LIMIT orders pass the check at submission, each
  against the whole balance; the tick fills both and the balance is negative: it is the
  binary64 number that prints as -15.0049999999992.
\<close>

theorem pending_fills_overdraw:
  "fst (place_order_fl double_round overdraft_start ''BTCUSDT'' BUY LIMIT (double_round 0.1)
          (Some 50000) None) = Inr 0 \<and>
   fst (place_order_fl double_round overdraft_one ''BTCUSDT'' BUY LIMIT (double_round 0.1)
          (Some 50000) None) = Inr 1 \<and>
   map o_status (orders overdraft_ticked) = [FILLED, FILLED] \<and>
   available_balance overdraft_ticked = - (8447064051086336 / 2 ^ 49) \<and>
   available_balance overdraft_ticked < 0"
proof (intro conjI)
  show "fst (place_order_fl double_round overdraft_start ''BTCUSDT'' BUY LIMIT
          (double_round 0.1) (Some 50000) None) = Inr 0"
    by (simp add: overdraft_one_eq(1))
  show "fst (place_order_fl double_round overdraft_one ''BTCUSDT'' BUY LIMIT
          (double_round 0.1) (Some 50000) None) = Inr 1"
    by (simp add: overdraft_two_eq(1))
  show "map o_status (orders overdraft_ticked) = [FILLED, FILLED]"
    by (simp add: overdraft_ticked_eq exec_fl_sel overdraft_two_eq(2) store_order_def
          filled_fl_sel new_Order_def)
  show b: "available_balance overdraft_ticked = - (8447064051086336 / 2 ^ 49)"
    unfolding overdraft_balance by (simp only: overdraft_values config_values)
  show "available_balance overdraft_ticked < 0"
    by (simp add: b)
qed


subsection \<open>Selling more than is held\<close>

lemma risk_check_sell_short:
  assumes "held_quantity ex symbol < q"
  shows "\<exists>r. risk_check ex symbol SELL q price = Inl r"
    and "MIN_TRADE_AMOUNT \<le> q * price \<Longrightarrow>
         risk_check ex symbol SELL q price = Inl InsufficientPosition"
  using assms by (auto simp: risk_check_def held_quantity_def Let_def split: option.splits)

lemma place_order_sell_short:
  assumes "held_quantity ex symbol < q"
  shows "\<exists>r. place_order ex symbol SELL ot q pa sp = (Inl r, ex)"
proof (cases "q \<le> 0")
  case True
  then show ?thesis by (simp add: place_order_def)
next
  case False
  show ?thesis
  proof (cases "current_prices ex symbol")
    case None
    then show ?thesis using False by (simp add: place_order_def)
  next
    case (Some cp)
    show ?thesis
    proof (cases "if ot = MARKET then Some cp else pa")
      case None
      then show ?thesis using False Some by (simp add: place_order_def)
    next
      case (Some price)
      from risk_check_sell_short(1) [OF assms, of price]
      obtain r where "risk_check ex symbol SELL q price = Inl r" by blast
      then show ?thesis using False \<open>current_prices ex symbol = Some cp\<close> Some
        by (simp add: place_order_def)
    qed
  qed
qed

lemma place_order_sell_short_reason:
  assumes "held_quantity ex symbol < q" and "0 < q" and "current_prices ex symbol = Some cp"
    and "(if ot = MARKET then Some cp else pa) = Some price"
    and "MIN_TRADE_AMOUNT \<le> q * price"
  shows "place_order ex symbol SELL ot q pa sp = (Inl InsufficientPosition, ex)"
  using assms risk_check_sell_short(2) [OF assms(1,5)]
  by (simp add: place_order_def)

lemma update_position_sell_short:
  assumes "pm_quantity (get_position pm symbol) < q"
  shows "\<exists>pm'. update_position pm symbol ''SELL'' q price = (Inl InsufficientPosition, pm') \<and>
           get_position pm' = get_position pm \<and>
           pm_available_balance pm' = pm_available_balance pm \<and>
           trade_history pm' = trade_history pm"
proof (cases "dict_get (pm_positions pm) symbol")
  case None
  let ?pm1 = "pm\<lparr>pm_positions := dict_set symbol \<lparr>pm_quantity = 0, pm_avg_price = 0\<rparr>
                                     (pm_positions pm)\<rparr>"
  have g: "get_position ?pm1 = get_position pm"
    using None by (intro ext) (auto simp: get_position_def map_of_dict_set)
  have "update_position pm symbol ''SELL'' q price = (Inl InsufficientPosition, ?pm1)"
    using None assms g by (simp add: update_position_def Let_def)
  then show ?thesis using g by simp
next
  case (Some p)
  then have "update_position pm symbol ''SELL'' q price = (Inl InsufficientPosition, pm)"
    using assms by (simp add: update_position_def Let_def)
  then show ?thesis by simp
qed

text \<open>
  Claim C3, as amended. A SELL request for more than the quantity held fails and changes
  nothing: \<open>place_order\<close> returns no order id and the same executor, and
  \<open>PortfolioManager.update_position\<close> returns False with every position (as
  \<open>get_position\<close> reads it), the available balance and the trade history as
  before. The failure is the one of the position check (InsufficientPosition) in the
  portfolio manager always, and in the executor when the request reaches that check: the
  quantity is positive, the symbol has a price, a price is given for an order that is not
  a market order, and the order value is at least MIN\_TRADE\_AMOUNT.
\<close>

theorem sell_more_than_held:
  "(held_quantity ex symbol < q
      \<longrightarrow> (\<exists>r. place_order ex symbol SELL ot q pa sp = (Inl r, ex))) \<and>
   (held_quantity ex symbol < q \<and> 0 < q \<and> current_prices ex symbol = Some cp \<and>
    (if ot = MARKET then Some cp else pa) = Some price \<and> MIN_TRADE_AMOUNT \<le> q * price
      \<longrightarrow> place_order ex symbol SELL ot q pa sp = (Inl InsufficientPosition, ex)) \<and>
   (pm_quantity (get_position pm symbol) < q
      \<longrightarrow> (\<exists>pm'. update_position pm symbol ''SELL'' q price = (Inl InsufficientPosition, pm') \<and>
                 get_position pm' = get_position pm \<and>
                 pm_available_balance pm' = pm_available_balance pm \<and>
                 trade_history pm' = trade_history pm))"
  using place_order_sell_short place_order_sell_short_reason update_position_sell_short
  by blast

theorem sell_more_than_held_witness:
  "held_quantity scenario_bought ''BTCUSDT'' < 0.2 \<and>
   place_order scenario_bought ''BTCUSDT'' SELL MARKET 0.2 None None =
     (Inl InsufficientPosition, scenario_bought) \<and>
   pm_quantity (get_position (new_PortfolioManager 10000) ''BTCUSDT'') < 1 \<and>
   (\<exists>pm'. update_position (new_PortfolioManager 10000) ''BTCUSDT'' ''SELL'' 1 50000 =
            (Inl InsufficientPosition, pm') \<and>
          get_position pm' = get_position (new_PortfolioManager 10000) \<and>
          pm_available_balance pm' = pm_available_balance (new_PortfolioManager 10000) \<and>
          trade_history pm' = trade_history (new_PortfolioManager 10000))"
proof -
  have h: "held_quantity scenario_bought ''BTCUSDT'' < 0.2"
    by (simp add: held_quantity_def scenario_bought_fields bought_position_def)
  have c: "current_prices scenario_bought ''BTCUSDT'' = Some 50000"
    by (simp add: scenario_bought_fields)
  have g: "pm_quantity (get_position (new_PortfolioManager 10000) ''BTCUSDT'') < 1"
    by (simp add: get_position_def new_PortfolioManager_def)
  show ?thesis
    using sell_more_than_held [where ex = scenario_bought and symbol = "''BTCUSDT''"
        and q = "0.2" and ot = MARKET and pa = None and sp = None and cp = 50000
        and price = 50000 and pm = "new_PortfolioManager 10000"]
      sell_more_than_held [where ex = scenario_bought and symbol = "''BTCUSDT''"
        and q = 1 and ot = MARKET and pa = None and sp = None and cp = 50000
        and price = 50000 and pm = "new_PortfolioManager 10000"]
      h c g
    by (simp add: MIN_TRADE_AMOUNT_def)
qed


text \<open>
  The claim as stated has every such request fail with InsufficientPosition. A SELL of
  0.0001 at 50000 with nothing held is refused by the check of the minimum amount, which
  \<open>_risk_check\<close> makes first.
\<close>

theorem sell_below_minimum_amount:
  "held_quantity scenario_priced ''BTCUSDT'' < 0.0001 \<and>
   place_order scenario_priced ''BTCUSDT'' SELL MARKET 0.0001 None None =
     (Inl AmountTooSmall, scenario_priced)"
  by (simp add: held_quantity_def place_order_def risk_check_def MIN_TRADE_AMOUNT_def
        scenario_priced_eq scenario_start_def new_TradeExecutor_def)

section \<open>Properties of the portfolio manager\<close>

text \<open>
  Claim C10. When \<open>PortfolioManager.update_position\<close> is called with a side that is
  neither \<open>BUY\<close> nor \<open>SELL\<close>, it returns True, every position (as \<open>get_position\<close>
  reads it) and the available balance are as before, and the trade history has one more
  record, the one of this call.
\<close>

theorem update_position_other_side:
  assumes "side \<noteq> ''BUY''" and "side \<noteq> ''SELL''"
  shows "\<exists>pm'. update_position pm symbol side q price = (Inr (), pm') \<and>
           get_position pm' = get_position pm \<and>
           pm_available_balance pm' = pm_available_balance pm \<and>
           trade_history pm' =
             trade_history pm @
               [\<lparr>tr_symbol = symbol, tr_side = side, tr_quantity = q, tr_price = price,
                 tr_total = q * price\<rparr>]"
proof (cases "dict_get (pm_positions pm) symbol")
  case None
  let ?pm1 = "pm\<lparr>pm_positions := dict_set symbol \<lparr>pm_quantity = 0, pm_avg_price = 0\<rparr>
                                     (pm_positions pm)\<rparr>"
  have g: "get_position ?pm1 = get_position pm"
    using None by (intro ext) (auto simp: get_position_def map_of_dict_set)
  have g': "get_position (?pm1\<lparr>trade_history := h\<rparr>) = get_position pm" for h
    using g by (simp add: get_position_def fun_eq_iff)
  show ?thesis
    using None assms g' by (simp add: update_position_def Let_def)
next
  case (Some p)
  have "get_position (pm\<lparr>trade_history := h\<rparr>) = get_position pm" for h
    by (intro ext) (simp add: get_position_def)
  then show ?thesis
    using Some assms by (simp add: update_position_def Let_def)
qed

theorem update_position_other_side_witness:
  "''HOLD'' \<noteq> ''BUY'' \<and> ''HOLD'' \<noteq> ''SELL'' \<and>
   (\<exists>pm'. update_position (new_PortfolioManager 10000) ''BTCUSDT'' ''HOLD'' 1 50000 =
            (Inr (), pm') \<and>
          get_position pm' = get_position (new_PortfolioManager 10000) \<and>
          pm_available_balance pm' = 10000 \<and>
          trade_history pm' =
            [\<lparr>tr_symbol = ''BTCUSDT'', tr_side = ''HOLD'', tr_quantity = 1, tr_price = 50000,
              tr_total = 50000\<rparr>])"
  using update_position_other_side [where side = "''HOLD''" and pm = "new_PortfolioManager 10000"
      and symbol = "''BTCUSDT''" and q = 1 and price = 50000]
  by (simp add: new_PortfolioManager_def)

section \<open>Properties of the risk manager\<close>

subsection \<open>The stop-loss\<close>

lemma check_position_risk_other:
  assumes "s \<noteq> symbol"
  shows "stop_loss_orders (fst (check_position_risk rm s p)) symbol = stop_loss_orders rm symbol"
    and "stop_loss_intents symbol (snd (check_position_risk rm s p)) = []"
  using assms
  by (auto simp: check_position_risk_def trigger_stop_loss_def trigger_take_profit_def
        stop_loss_intents_def Let_def split: option.splits)

lemma check_position_risk_above:
  assumes "stop_loss_orders rm symbol = Some stop" and "stop < p"
  shows "stop_loss_orders (fst (check_position_risk rm symbol p)) symbol = Some stop"
    and "stop_loss_intents symbol (snd (check_position_risk rm symbol p)) = []"
  using assms
  by (auto simp: check_position_risk_def trigger_stop_loss_def trigger_take_profit_def
        stop_loss_intents_def Let_def split: option.splits)

lemma check_position_risk_hit:
  assumes "stop_loss_orders rm symbol = Some stop" and "p \<le> stop"
  shows "stop_loss_orders (fst (check_position_risk rm symbol p)) symbol = None"
    and "stop_loss_intents symbol (snd (check_position_risk rm symbol p)) =
           [StopLossExecute symbol p]"
  using assms
  by (auto simp: check_position_risk_def trigger_stop_loss_def trigger_take_profit_def
        stop_loss_intents_def Let_def split: option.splits)

lemma check_position_risk_unarmed:
  assumes "stop_loss_orders rm symbol = None"
  shows "stop_loss_orders (fst (check_position_risk rm s p)) symbol = None"
    and "stop_loss_intents symbol (snd (check_position_risk rm s p)) = []"
  using assms
  by (auto simp: check_position_risk_def trigger_stop_loss_def trigger_take_profit_def
        stop_loss_intents_def Let_def split: option.splits)

lemma stop_loss_intents_append:
  "stop_loss_intents symbol (l1 @ l2) = stop_loss_intents symbol l1 @ stop_loss_intents symbol l2"
  by (simp add: stop_loss_intents_def)

lemma run_ticks_Cons:
  "fst (run_ticks rm ((s, p) # ticks)) = fst (run_ticks (fst (check_position_risk rm s p)) ticks)"
  "snd (run_ticks rm ((s, p) # ticks)) =
     snd (check_position_risk rm s p) @ snd (run_ticks (fst (check_position_risk rm s p)) ticks)"
  by (simp_all add: Let_def split: prod.splits)

lemma run_ticks_unarmed:
  assumes "stop_loss_orders rm symbol = None"
  shows "stop_loss_intents symbol (snd (run_ticks rm ticks)) = [] \<and>
         stop_loss_orders (fst (run_ticks rm ticks)) symbol = None"
  using assms
proof (induction ticks arbitrary: rm)
  case Nil
  then show ?case by (simp add: stop_loss_intents_def)
next
  case (Cons t ticks)
  obtain s p where t: "t = (s, p)" by (cases t)
  show ?case
    unfolding t run_ticks_Cons stop_loss_intents_append
    using Cons.IH [OF check_position_risk_unarmed(1) [OF Cons.prems]]
      check_position_risk_unarmed(2) [OF Cons.prems]
    by simp
qed

lemma run_ticks_armed:
  assumes "stop_loss_orders rm symbol = Some stop"
    and "list_all (\<lambda>(s, p). s = symbol \<longrightarrow> stop < p) pre"
    and "price \<le> stop"
  shows "stop_loss_intents symbol (snd (run_ticks rm (pre @ (symbol, price) # post))) =
           [StopLossExecute symbol price] \<and>
         stop_loss_orders (fst (run_ticks rm (pre @ [(symbol, price)]))) symbol = None \<and>
         stop_loss_intents symbol (snd (run_ticks rm (pre @ [(symbol, price)]))) =
           [StopLossExecute symbol price] \<and>
         stop_loss_intents symbol (snd (run_ticks rm pre)) = []"
  using assms(1,2)
proof (induction pre arbitrary: rm)
  case Nil
  note hit = check_position_risk_hit [OF Nil(1) assms(3)]
  have e: "stop_loss_intents symbol [] = []" by (simp add: stop_loss_intents_def)
  show ?case
    unfolding append_Nil run_ticks_Cons stop_loss_intents_append
    using hit run_ticks_unarmed [OF hit(1)] e by simp
next
  case (Cons t pre)
  obtain s p where t: "t = (s, p)" by (cases t)
  have rest: "list_all (\<lambda>(s, p). s = symbol \<longrightarrow> stop < p) pre"
    using Cons.prems(2) by simp
  have "stop_loss_orders (fst (check_position_risk rm s p)) symbol = Some stop \<and>
        stop_loss_intents symbol (snd (check_position_risk rm s p)) = []"
  proof (cases "s = symbol")
    case True
    then have "stop < p" using Cons.prems(2) t by simp
    from check_position_risk_above [OF Cons.prems(1) this] True show ?thesis by simp
  next
    case False
    from check_position_risk_other [OF this] Cons.prems(1) show ?thesis by simp
  qed
  then have armed: "stop_loss_orders (fst (check_position_risk rm s p)) symbol = Some stop"
    and quiet: "stop_loss_intents symbol (snd (check_position_risk rm s p)) = []"
    by simp_all
  show ?case
    unfolding t append_Cons run_ticks_Cons stop_loss_intents_append
    using Cons.IH [OF armed rest] quiet by simp
qed

text \<open>
  Claim C7. A stop-loss armed by \<open>set_stop_loss\<close> for a long position stands at
  entry price times (1 - stop percentage). While the ticks of the symbol stay above the
  stop price, nothing is emitted. The first tick of the symbol at or below the stop
  price emits the liquidation intent (the warning of \<open>_trigger_stop_loss\<close>, the only
  thing the code does there) and removes the stop; whatever ticks follow, with no call
  of \<open>set_stop_loss\<close> among them, the intent is emitted once in the whole run.
\<close>

theorem stop_loss_fires_once:
  assumes "armed = set_stop_loss rm symbol entry_price ''LONG''"
    and "stop = entry_price * (1 - stop_loss_pct rm)"
    and "list_all (\<lambda>(s, p). s = symbol \<longrightarrow> stop < p) pre"
    and "price \<le> stop"
  shows "stop_loss_orders armed symbol = Some stop \<and>
         stop_loss_intents symbol (snd (run_ticks armed pre)) = [] \<and>
         stop_loss_intents symbol (snd (run_ticks armed (pre @ [(symbol, price)]))) =
           [StopLossExecute symbol price] \<and>
         stop_loss_orders (fst (run_ticks armed (pre @ [(symbol, price)]))) symbol = None \<and>
         stop_loss_intents symbol (snd (run_ticks armed (pre @ (symbol, price) # post))) =
           [StopLossExecute symbol price]"
proof -
  have a: "stop_loss_orders armed symbol = Some stop"
    using assms(1,2) by (simp add: set_stop_loss_def Let_def)
  show ?thesis
    using a run_ticks_armed [OF a assms(3,4)] by simp
qed


theorem stop_loss_fires_once_witness:
  "stop_loss_orders (set_stop_loss new_RiskManager ''BTCUSDT'' 50000 ''LONG'') ''BTCUSDT'' =
     Some 49000 \<and>
   stop_loss_intents ''BTCUSDT''
     (snd (run_ticks (set_stop_loss new_RiskManager ''BTCUSDT'' 50000 ''LONG'')
        [(''BTCUSDT'', 49500), (''ETHUSDT'', 100)])) = [] \<and>
   stop_loss_intents ''BTCUSDT''
     (snd (run_ticks (set_stop_loss new_RiskManager ''BTCUSDT'' 50000 ''LONG'')
        [(''BTCUSDT'', 49500), (''ETHUSDT'', 100), (''BTCUSDT'', 48900)])) =
     [StopLossExecute ''BTCUSDT'' 48900] \<and>
   stop_loss_orders
     (fst (run_ticks (set_stop_loss new_RiskManager ''BTCUSDT'' 50000 ''LONG'')
        [(''BTCUSDT'', 49500), (''ETHUSDT'', 100), (''BTCUSDT'', 48900)])) ''BTCUSDT'' = None \<and>
   stop_loss_intents ''BTCUSDT''
     (snd (run_ticks (set_stop_loss new_RiskManager ''BTCUSDT'' 50000 ''LONG'')
        [(''BTCUSDT'', 49500), (''ETHUSDT'', 100), (''BTCUSDT'', 48900), (''BTCUSDT'', 48000),
         (''BTCUSDT'', 47000)])) =
     [StopLossExecute ''BTCUSDT'' 48900]"
  using stop_loss_fires_once [where rm = new_RiskManager and symbol = "''BTCUSDT''"
      and entry_price = 50000 and stop = 49000 and price = 48900
      and pre = "[(''BTCUSDT'', 49500), (''ETHUSDT'', 100)]"
      and post = "[(''BTCUSDT'', 48000), (''BTCUSDT'', 47000)]", OF refl]
  by (simp add: new_RiskManager_def STOP_LOSS_PCT_def)

subsection \<open>The position limit\<close>

lemma can_trade_position_limit:
  assumes "(case daily_trades rm today of None \<Rightarrow> 0 | Some n \<Rightarrow> n) < max_daily_trades rm"
    and "(case daily_loss rm today of None \<Rightarrow> 0 | Some l \<Rightarrow> l) < max_daily_loss_pct rm"
    and "q \<noteq> 0" and "p \<noteq> 0"
  shows "can_trade rm today symbol ''BUY'' (Some q) (Some p) =
     (if q * p > INITIAL_BALANCE * rm_max_position_size rm then Inl PositionLimitExceeded
      else Inr ())"
  using assms by (simp add: can_trade_def truthy_def check_position_limit_def Let_def)

lemma risk_check_over_limit:
  assumes "get_total_value ex * max_position_size ex < q * price"
  shows "\<exists>r. risk_check ex symbol BUY q price = Inl r"
  using assms by (simp add: risk_check_def Let_def)

lemma place_order_over_limit:
  assumes "current_prices ex symbol = Some cp"
    and "(if ot = MARKET then Some cp else pa) = Some price"
    and "get_total_value ex * max_position_size ex < q * price"
  shows "\<exists>r. place_order ex symbol BUY ot q pa sp = (Inl r, ex)"
proof -
  from risk_check_over_limit [OF assms(3)]
  obtain r where "risk_check ex symbol BUY q price = Inl r" by blast
  then show ?thesis using assms(1,2) by (simp add: place_order_def)
qed

lemma equity_start_eq:
  "equity_start = default_TradeExecutor\<lparr>current_prices := [''BTCUSDT'' \<mapsto> 50000]\<rparr>"
  by (simp add: equity_start_def update_price_quiet pending_for_def default_ev)

lemma equity_bought_eq:
  "equity_bought =
     execute_order
       (equity_start\<lparr>orders := [new_Order 0 ''BTCUSDT'' BUY MARKET 0.1 50000 None],
                     next_uuid := 1\<rparr>)
       (new_Order 0 ''BTCUSDT'' BUY MARKET 0.1 50000 None) 50000"
proof -
  have rc: "risk_check equity_start ''BTCUSDT'' BUY 0.1 50000 = Inr ()"
    by (simp add: equity_start_eq default_ev risk_ev)
  have cp: "current_prices equity_start ''BTCUSDT'' = Some 50000"
    by (simp add: equity_start_eq)
  have nu: "next_uuid equity_start = 0" "orders equity_start = []"
    by (simp_all add: equity_start_eq default_ev)
  show ?thesis
    using place_order_MARKET [OF _ cp rc, of None None] by (simp add: nu equity_bought_def)
qed

lemma equity_bought_fields:
  "available_balance equity_bought = 4992.4975"
  "positions equity_bought = [(''BTCUSDT'', equity_position)]"
  "commission_rate equity_bought = 0.001"
  "max_position_size equity_bought = 0.5"
  "pending_for equity_bought ''BTCUSDT'' = []"
  by (simp_all add: equity_bought_eq exec_sel pending_for_execute equity_start_eq default_ev
        new_Order_sel fill_price_def position_of_def fill_trade_sel
        Position_update_position_def new_Position_def equity_position_def pending_for_def
        store_order_def filled_sel Let_def)

lemma equity_fallen_eq:
  "equity_fallen =
     equity_bought\<lparr>current_prices := (current_prices equity_bought)(''BTCUSDT'' \<mapsto> 40000),
                   positions := [(''BTCUSDT'', equity_position\<lparr>p_unrealized_pnl := - 1002.5\<rparr>)]\<rparr>"
  by (simp add: equity_fallen_def update_price_quiet equity_bought_fields
        calculate_unrealized_pnl_def equity_position_def)

lemma equity_fallen_value: "get_total_value equity_fallen = 8992.4975"
  by (simp add: get_total_value_def get_position_value_def equity_fallen_eq equity_bought_fields
        equity_position_def)

text \<open>
  Claim C6. The risk gate is to reject a BUY whose value exceeds the position fraction of
  the current total equity, the available balance plus the value of the positions at
  current prices. \<open>RiskManager._check_position_limit\<close> compares the value with the
  position fraction of INITIAL\_BALANCE instead (lemma \<open>can_trade_position_limit\<close>),
  while \<open>TradeExecutor._risk_check\<close> uses the total value (lemmas
  \<open>risk_check_over_limit\<close> and \<open>place_order_over_limit\<close>). After the loss the total
  value is 8992.4975 and the limit 4496.24875: a BUY of 0.115 at 40000, worth 4600, is
  admitted by \<open>can_trade\<close> and refused by the executor's check.
\<close>

theorem risk_gate_ignores_equity:
  "get_total_value equity_fallen = 8992.4975 \<and>
   0.115 * 40000 > max_position_size equity_fallen * get_total_value equity_fallen \<and>
   can_trade new_RiskManager 0 ''BTCUSDT'' ''BUY'' (Some 0.115) (Some 40000) = Inr () \<and>
   risk_check equity_fallen ''BTCUSDT'' BUY 0.115 40000 = Inl PositionLimitExceeded"
proof (intro conjI)
  show "get_total_value equity_fallen = 8992.4975" by (rule equity_fallen_value)
  show "0.115 * 40000 > max_position_size equity_fallen * get_total_value equity_fallen"
    by (simp add: equity_fallen_value) (simp add: equity_fallen_eq equity_bought_fields)
  show "can_trade new_RiskManager 0 ''BTCUSDT'' ''BUY'' (Some 0.115) (Some 40000) = Inr ()"
    by (simp add: can_trade_def truthy_def check_position_limit_def new_RiskManager_def
          MAX_DAILY_TRADES_def MAX_DAILY_LOSS_PCT_def INITIAL_BALANCE_def MAX_POSITION_SIZE_def)
  show "risk_check equity_fallen ''BTCUSDT'' BUY 0.115 40000 = Inl PositionLimitExceeded"
    by (simp add: risk_check_def equity_fallen_value MIN_TRADE_AMOUNT_def Let_def)
       (simp add: equity_fallen_eq equity_bought_fields)
qed

section \<open>Properties of the signal generators\<close>

subsection \<open>Too little history\<close>

lemma length_rolling_mean [simp]: "length (rolling_mean w xs) = length xs"
  by (simp add: rolling_mean_def)

lemma fl_le_NaN [simp]: "fl_le NaN x = False" "fl_le x NaN = False"
  by (cases x; simp add: fl_le_def)+

lemma fl_less_irrefl: "\<not> fl_less a a"
  by (cases a) simp_all

lemma fl_less_asym: "fl_less a b \<Longrightarrow> \<not> fl_less b a"
  by (cases a; cases b) simp_all

lemma fl_le_not_less: "fl_le a b \<Longrightarrow> \<not> fl_less b a"
  by (auto simp: fl_le_def fl_less_irrefl dest: fl_less_asym)

lemma iloc_2_rolling_mean_short:
  assumes "2 \<le> length xs" and "length xs \<le> w"
  shows "iloc (rolling_mean w xs) 2 = Some NaN"
  using assms by (simp add: iloc_def rolling_mean_def)

lemma iloc_1: "xs \<noteq> [] \<Longrightarrow> iloc xs (Suc 0) = Some (last xs)"
  by (simp add: iloc_def last_conv_nth Suc_leI)

lemma iloc_2_single: "length xs = 1 \<Longrightarrow> iloc xs 2 = None"
  by (simp add: iloc_def)

lemma DualMA_no_cross:
  assumes "length xs = max s l" and "xs \<noteq> []"
  shows "\<not> (fl_le (case iloc (rolling_mean s xs) 2 of Some v \<Rightarrow> v | None \<Rightarrow> cs)
               (case iloc (rolling_mean l xs) 2 of Some v \<Rightarrow> v | None \<Rightarrow> cl) \<and>
            fl_less cl cs)"
    and "\<not> (fl_le (case iloc (rolling_mean l xs) 2 of Some v \<Rightarrow> v | None \<Rightarrow> cl)
               (case iloc (rolling_mean s xs) 2 of Some v \<Rightarrow> v | None \<Rightarrow> cs) \<and>
            fl_less cs cl)"
proof -
  have "1 \<le> length xs" using assms(2) by (cases xs) simp_all
  moreover have "length xs \<le> l \<or> length xs \<le> s" using assms(1) by (simp add: max_def split: if_splits)
  ultimately consider (one) "length xs = 1" | (long) "2 \<le> length xs" "length xs \<le> l"
    | (short) "2 \<le> length xs" "length xs \<le> s"
    by fastforce
  then have "\<not> (fl_le (case iloc (rolling_mean s xs) 2 of Some v \<Rightarrow> v | None \<Rightarrow> cs)
               (case iloc (rolling_mean l xs) 2 of Some v \<Rightarrow> v | None \<Rightarrow> cl) \<and>
            fl_less cl cs) \<and>
        \<not> (fl_le (case iloc (rolling_mean l xs) 2 of Some v \<Rightarrow> v | None \<Rightarrow> cl)
               (case iloc (rolling_mean s xs) 2 of Some v \<Rightarrow> v | None \<Rightarrow> cs) \<and>
            fl_less cs cl)"
  proof cases
    case one
    then show ?thesis
      using fl_le_not_less [of cs cl] fl_le_not_less [of cl cs]
      by (auto simp: iloc_2_single)
  next
    case long
    then show ?thesis by (simp add: iloc_2_rolling_mean_short)
  next
    case short
    then show ?thesis by (simp add: iloc_2_rolling_mean_short)
  qed
  then show "\<not> (fl_le (case iloc (rolling_mean s xs) 2 of Some v \<Rightarrow> v | None \<Rightarrow> cs)
               (case iloc (rolling_mean l xs) 2 of Some v \<Rightarrow> v | None \<Rightarrow> cl) \<and>
            fl_less cl cs)"
    and "\<not> (fl_le (case iloc (rolling_mean l xs) 2 of Some v \<Rightarrow> v | None \<Rightarrow> cl)
               (case iloc (rolling_mean s xs) 2 of Some v \<Rightarrow> v | None \<Rightarrow> cs) \<and>
            fl_less cs cl)"
    by blast+
qed

lemma DualMA_cross_short_history:
  assumes "length (close data) = max (short_period st) (long_period st)"
    and "close data \<noteq> []"
  shows "DualMA_cross st data = None"
proof -
  have rne: "rolling_mean w (close data) \<noteq> []" for w
    using assms(2) by (simp add: rolling_mean_def)
  note il = iloc_1 [OF rne] iloc_1 [OF assms(2)]
  note nc = DualMA_no_cross [OF assms]
  show ?thesis
    by (simp add: DualMA_cross_def Let_def il) (use nc in blast)
qed

lemma DualMA_short_history:
  assumes "length (close data) < max (short_period st) (long_period st) + 1"
  shows "DualMA_generate_signal st data = (None, st, data)"
proof (cases "\<not> validate_data data \<or>
              length (close data) < max (short_period st) (long_period st)")
  case True
  then show ?thesis by (simp add: DualMA_generate_signal_def)
next
  case False
  then have len: "length (close data) = max (short_period st) (long_period st)"
    and ne: "close data \<noteq> []"
    using assms by (auto simp: validate_data_def)
  show ?thesis
    using False DualMA_cross_short_history [OF len ne]
    by (simp add: DualMA_generate_signal_def)
qed

lemma RSI_short_history:
  assumes "length (close data) < period st + 1"
  shows "RSI_generate_signal st data = (None, st, data)"
  using assms by (simp add: RSI_generate_signal_def)

lemma MACD_short_history:
  assumes "length (close data) < max (slow_period st) (signal_period st) + 1"
  shows "MACD_generate_signal st data = (None, st, data)"
  using assms by (simp add: MACD_generate_signal_def)

text \<open>
  Claim C5, as amended. A generator returns no signal, raises nothing and changes neither
  its own state nor the frame when the candle series is shorter than its lookback plus
  one: \<open>max(short_period, long_period) + 1\<close> for DualMA, \<open>period + 1\<close> for RSI, and
  \<open>max(slow_period, signal_period) + 1\<close> for MACD, whose lookback does not count
  \<open>fast_period\<close>. For DualMA the guard of the code lets a series of exactly
  \<open>max(short_period, long_period)\<close> rows through; the previous value of the longer
  average is then NaN and no cross is found.
\<close>

theorem short_history_no_signal:
  "(length (close data) < max (short_period dm) (long_period dm) + 1
      \<longrightarrow> DualMA_generate_signal dm data = (None, dm, data)) \<and>
   (length (close data) < period rs + 1
      \<longrightarrow> RSI_generate_signal rs data = (None, rs, data)) \<and>
   (length (close data) < max (slow_period mc) (signal_period mc) + 1
      \<longrightarrow> MACD_generate_signal mc data = (None, mc, data))"
  using DualMA_short_history RSI_short_history MACD_short_history by blast

theorem short_history_no_signal_witness:
  "DualMA_generate_signal (new_DualMAStrategy 1 2 0.1) (candles [10, 13]) =
     (None, new_DualMAStrategy 1 2 0.1, candles [10, 13]) \<and>
   RSI_generate_signal (new_RSIStrategy 14 70 30) (candles [10, 13]) =
     (None, new_RSIStrategy 14 70 30, candles [10, 13]) \<and>
   MACD_generate_signal (new_MACDStrategy 12 26 9) (candles [10, 13]) =
     (None, new_MACDStrategy 12 26 9, candles [10, 13])"
  using short_history_no_signal [where dm = "new_DualMAStrategy 1 2 0.1"
      and rs = "new_RSIStrategy 14 70 30" and mc = "new_MACDStrategy 12 26 9"
      and data = "candles [10, 13]"]
  by (simp add: candles_def new_DualMAStrategy_def new_RSIStrategy_def new_MACDStrategy_def)


lemma ewm_from_alpha_1: "ewm_from 1 num den xs = xs"
  by (induction xs arbitrary: num den) (simp_all add: Let_def)

lemma macd_example:
  "calculate_macd (new_MACDStrategy 3 (Suc 0) 2) [10, 10, 3] =
     Some ([0, 0, 3], [0, 0, 27 / 13], [0, 0, 12 / 13])"
  by (simp add: calculate_macd_def new_MACDStrategy_def ewm_mean_def ewm_from_alpha_1 Let_def)


lemma iloc_3:
  "iloc [a, b, c] (Suc 0) = Some c" "iloc [a, b, c] 2 = Some b"
  by (simp_all add: iloc_def)

lemma macd_example_cross: "MACD_cross [Fin 0, Fin 0, Fin 3] [Fin 0, Fin 0, Fin (27 / 13)]
             [Fin 0, Fin 0, Fin (12 / 13)] [10, 10, 3] =
           Some \<lparr>signal_type = ''BUY'', strength = Fin (8 / 9), signal_price = 3,
                  metadata = [(''macd'', MFloat (Fin 3)), (''signal'', MFloat (Fin (27 / 13))),
                              (''histogram'', MFloat (Fin (12 / 13))),
                              (''cross_type'', MString ''bullish'')]\<rparr>"
  by (simp add: MACD_cross_def iloc_3 fl_le_def py_min_def Let_def)


lemma macd_example_signal: "fst (MACD_generate_signal (new_MACDStrategy 3 (Suc 0) 2) (candles [10, 10, 3])) =
      Some \<lparr>signal_type = ''BUY'', strength = Fin (8 / 9), signal_price = 3,
                  metadata = [(''macd'', MFloat (Fin 3)), (''signal'', MFloat (Fin (27 / 13))),
                              (''histogram'', MFloat (Fin (12 / 13))),
                              (''cross_type'', MString ''bullish'')]\<rparr>"
proof -
  have v: "validate_data (candles [10, 10, 3])" "close (candles [10, 10, 3]) = [10, 10, 3]"
      "macd (candles [10, 10, 3]) = None"
    by (simp_all add: validate_data_def candles_def)
  have p: "slow_period (new_MACDStrategy 3 (Suc 0) 2) = Suc 0"
      "signal_period (new_MACDStrategy 3 (Suc 0) 2) = 2"
    by (simp_all add: new_MACDStrategy_def)
  show ?thesis
    by (simp add: MACD_generate_signal_def v p macd_example macd_example_cross)
qed

text \<open>
  The claim as stated takes the largest of all periods used. A MACD generator with
  \<open>fast_period = 3\<close>, \<open>slow_period = 1\<close> and \<open>signal_period = 2\<close> emits a BUY
  signal on three candles, fewer than \<open>max(3, 1, 2) + 1\<close>.
\<close>

theorem macd_signal_below_fast_lookback:
  "length (close (candles [10, 10, 3])) <
     max (fast_period (new_MACDStrategy 3 1 2))
       (max (slow_period (new_MACDStrategy 3 1 2)) (signal_period (new_MACDStrategy 3 1 2))) + 1 \<and>
   map_option (\<lambda>s. (signal_type s, strength s))
     (fst (MACD_generate_signal (new_MACDStrategy 3 1 2) (candles [10, 10, 3]))) =
     Some (''BUY'', Fin (8 / 9))"
  by (simp add: macd_example_signal) (simp add: new_MACDStrategy_def candles_def)

subsection \<open>What a call changes, and calling again\<close>
































end
